(* ===== verification/Prelude.thy ===== *)
theory Prelude
  imports Complex_Main "HOL-Library.Word"
begin

text \<open>
  Shared vocabulary of the moondream2 node-pack development: the Python exceptions
  the code can raise (as one datatype), the state-exception monad through which the
  effectful code (filesystem, Hugging Face hub) threads the world, Python's dict
  subscription, and list lemmas used by the components (indexing into
  concatenations of equal-length blocks, as tensors laid out row-major need).
\<close>

named_theorems st_simps "evaluation rules of the state-exception monad"

type_synonym byte = "8 word"
type_synonym bytes = "byte list"
type_synonym path = "string list"

text \<open>
  The exceptions of the code and of the libraries it calls. Python raises them; the
  model returns them as \<open>Inl\<close>.
\<close>

datatype py_error =
    FileNotFoundError
  | IsADirectoryError
  | NotADirectoryError
  | NoSpaceError
  | ConnectionError
  | EntryNotFoundError
  | BadGzipFile
  | IndexError
  | KeyError string
  | ValueError string
  | ModelLoadError
  | EngineError string
  | RuntimeError string
  | TypeError string
  | AttributeError string

subsection \<open>Python exceptions with state: the state-exception monad\<close>

text \<open>
  A Python statement that touches the world is a function from the world to a result and
  the new world. An exception does not roll back what was done before it, so the world
  is returned on both branches.
\<close>

type_synonym ('s, 'a) st = "'s \<Rightarrow> (py_error + 'a) \<times> 's"

definition ret :: "'a \<Rightarrow> ('s, 'a) st" where
  "ret a = (\<lambda>s. (Inr a, s))"

definition throw :: "py_error \<Rightarrow> ('s, 'a) st" where
  "throw e = (\<lambda>s. (Inl e, s))"

definition bind_st :: "('s, 'a) st \<Rightarrow> ('a \<Rightarrow> ('s, 'b) st) \<Rightarrow> ('s, 'b) st" where
  "bind_st m f = (\<lambda>s. case m s of (Inl e, s') \<Rightarrow> (Inl e, s') | (Inr a, s') \<Rightarrow> f a s')"

text \<open>
  Hoare triples for statements with exceptions: from a state satisfying \<open>P\<close>, a normal
  return with \<open>a\<close> satisfies \<open>Q a\<close>, an exception leaves a state satisfying \<open>E\<close>.
\<close>

definition hoare :: "('s \<Rightarrow> bool) \<Rightarrow> ('s, 'a) st \<Rightarrow> ('a \<Rightarrow> 's \<Rightarrow> bool) \<Rightarrow> ('s \<Rightarrow> bool) \<Rightarrow> bool" where
  "hoare P m Q E \<longleftrightarrow>
     (\<forall>s r s'. P s \<longrightarrow> m s = (r, s') \<longrightarrow> (case r of Inl e \<Rightarrow> E s' | Inr a \<Rightarrow> Q a s'))"

subsection \<open>Python dict subscription\<close>

text \<open>\<open>d[k]\<close> on a dict: the value, or \<open>KeyError k\<close>.\<close>

definition getitem :: "(string \<rightharpoonup> 'v) \<Rightarrow> string \<Rightarrow> py_error + 'v" where
  "getitem d k = (case d k of None \<Rightarrow> Inl (KeyError k) | Some v \<Rightarrow> Inr v)"

subsection \<open>Facts\<close>

lemma ret_apply [simp, st_simps]: "ret a s = (Inr a, s)"
  by (simp add: ret_def)

lemma throw_apply [simp, st_simps]: "throw e s = (Inl e, s)"
  by (simp add: throw_def)

lemma bind_st_Inr [simp, st_simps]: "m s = (Inr a, s') \<Longrightarrow> bind_st m f s = f a s'"
  by (simp add: bind_st_def)

lemma bind_st_Inl [simp, st_simps]: "m s = (Inl e, s') \<Longrightarrow> bind_st m f s = (Inl e, s')"
  by (simp add: bind_st_def)

lemma bind_st_ret [simp]: "bind_st (ret a) f = f a"
  by (simp add: bind_st_def fun_eq_iff)

lemma bind_st_throw [simp]: "bind_st (throw e) f = throw e"
  by (simp add: bind_st_def fun_eq_iff)

lemma bind_st_assoc: "bind_st (bind_st m f) g = bind_st m (\<lambda>a. bind_st (f a) g)"
  by (simp add: bind_st_def fun_eq_iff split: prod.splits sum.splits)

text \<open>
  The elimination rule: a bound computation either failed in its first part, or the
  first part succeeded and the rest ran from the state it left.
\<close>

lemma bind_st_cases:
  assumes "bind_st m f s = (r, s')"
  obtains (fail) e where "m s = (Inl e, s')" and "r = Inl e"
    | (ok) a s1 where "m s = (Inr a, s1)" and "f a s1 = (r, s')"
  using assms by (cases "m s" rule: prod.exhaust) (auto simp: bind_st_def split: sum.splits)

text \<open>A bound computation that returned normally returned normally in both parts.\<close>

lemma bind_st_InrD:
  "bind_st m f s = (Inr b, s') \<Longrightarrow> \<exists>a s1. m s = (Inr a, s1) \<and> f a s1 = (Inr b, s')"
  by (cases "m s" rule: prod.exhaust) (auto simp: bind_st_def split: sum.splits)

text \<open>The rules of the Hoare triples: sequencing, the two exits, and reading them back.\<close>

lemma hoare_bind:
  "hoare P m Q E \<Longrightarrow> (\<And>a. hoare (Q a) (f a) R E) \<Longrightarrow> hoare P (bind_st m f) R E"
  unfolding hoare_def by (fastforce simp: bind_st_def split: prod.splits sum.splits)

lemma hoare_bind_inv:
  "hoare P m (\<lambda>_. P) P \<Longrightarrow> (\<And>a. hoare P (f a) (\<lambda>_. P) P) \<Longrightarrow> hoare P (bind_st m f) (\<lambda>_. P) P"
  by (rule hoare_bind)

text \<open>
  A relation \<open>R\<close> that every step of \<open>m\<close> establishes and that composes (is transitive)
  is kept from any start \<open>s0\<close>: the frame rule of a run.
\<close>

lemma hoare_rel:
  assumes "\<And>s1 s2 s3. R s1 s2 \<Longrightarrow> R s2 s3 \<Longrightarrow> R s1 s3" and "\<And>s r s'. m s = (r, s') \<Longrightarrow> R s s'"
  shows "hoare (R s0) m (\<lambda>_. R s0) (R s0)"
  unfolding hoare_def using assms by (auto split: sum.splits)

lemma hoare_ret: "(\<And>s. P s \<Longrightarrow> Q a s) \<Longrightarrow> hoare P (ret a) Q E"
  by (simp add: hoare_def)

lemma hoare_throw: "(\<And>s. P s \<Longrightarrow> E s) \<Longrightarrow> hoare P (throw e) Q E"
  by (simp add: hoare_def)

lemma hoare_Inr: "hoare P m Q E \<Longrightarrow> P s \<Longrightarrow> m s = (Inr a, s') \<Longrightarrow> Q a s'"
  unfolding hoare_def by fastforce

lemma hoare_Inl: "hoare P m Q E \<Longrightarrow> P s \<Longrightarrow> m s = (Inl e, s') \<Longrightarrow> E s'"
  unfolding hoare_def by fastforce

lemma hoare_inv: "hoare P m (\<lambda>_. P) P \<Longrightarrow> P s \<Longrightarrow> m s = (r, s') \<Longrightarrow> P s'"
  unfolding hoare_def by (cases r) fastforce+

text \<open>Dict subscription.\<close>

lemma getitem_Some [simp]: "d k = Some v \<Longrightarrow> getitem d k = Inr v"
  by (simp add: getitem_def)

lemma getitem_None [simp]: "d k = None \<Longrightarrow> getitem d k = Inl (KeyError k)"
  by (simp add: getitem_def)

subsection \<open>Lists of equal-length blocks\<close>

text \<open>
  A row-major array is a concatenation of blocks of one length \<open>L\<close>; its \<open>n\<close>-th element
  is element \<open>n mod L\<close> of block \<open>n div L\<close>.
\<close>

lemma length_concat_uniform:
  "(\<And>i. i < A \<Longrightarrow> length (h i) = L) \<Longrightarrow> length (concat (map h [0..<A])) = A * L"
  by (induction A) simp_all

lemma nth_concat_uniform:
  assumes len: "\<And>i. i < A \<Longrightarrow> length (h i) = L" and n: "n < A * L"
  shows "concat (map h [0..<A]) ! n = h (n div L) ! (n mod L)"
  using assms
proof (induction A)
  case 0
  then show ?case by simp
next
  case (Suc A)
  have pre: "length (concat (map h [0..<A])) = A * L"
    using Suc.prems(1) by (simp add: length_concat_uniform)
  show ?case
  proof (cases "n < A * L")
    case True
    then show ?thesis using Suc by (simp add: nth_append pre)
  next
    case False
    with Suc.prems(2) have "n div L = A"
      by (simp add: div_nat_eqI mult.commute)
    moreover have "n - A * L = n mod L"
      using False \<open>n div L = A\<close> by (metis minus_mult_div_eq_mod mult.commute)
    ultimately show ?thesis using False by (simp add: nth_append pre)
  qed
qed

end
