(* ===== verification/World.thy ===== *)
theory World
  imports Prelude
begin

text \<open>
  The world the download/load node acts on, and the library calls it makes on it:
  \<open>pathlib\<close> (\<open>exists\<close>, \<open>mkdir(parents=True, exist_ok=True)\<close>), \<open>open(dest, "wb")\<close> and
  \<open>write\<close>, and the four \<open>huggingface_hub\<close> entry points (\<open>hf_hub_download\<close>,
  \<open>hf_hub_url\<close>, \<open>get_hf_file_metadata\<close>, \<open>scan_cache_dir().delete_revisions(h).execute()\<close>).
  None of this code is in the repository; each operation is modelled from the library's
  documented behaviour, as far as \<open>src/__init__.py\<close> depends on it.
  The hub holds one repository at one revision (\<open>vikhyatk/moondream2\<close> at \<open>onnx\<close>): a
  map from file names to gzip blobs and the commit hash the revision points to.
  A gzip blob is represented by what it decompresses to and whether its stream ends
  cleanly (a truncated or corrupt stream raises when the reader reaches the damage).
\<close>

datatype net_event = HeadReq string | GetReq string

datatype gz_blob = GzStream bytes bool

record world =
  fs_files :: "path \<rightharpoonup> bytes"
  fs_dirs :: "path set"
  disk_free :: nat
  hub_files :: "string \<rightharpoonup> gz_blob"
  hub_commit :: string
  online :: bool
  hf_cache :: "string \<times> string \<rightharpoonup> gz_blob"
  net_log :: "net_event list"

subsection \<open>Filesystem\<close>

text \<open>\<open>Path.exists()\<close>: true for a regular file and for a directory.\<close>

definition path_exists :: "path \<Rightarrow> world \<Rightarrow> bool" where
  "path_exists p w \<longleftrightarrow> fs_files w p \<noteq> None \<or> p \<in> fs_dirs w"

definition parent :: "path \<Rightarrow> path" where
  "parent p = butlast p"

definition prefixes_of :: "path \<Rightarrow> path list" where
  "prefixes_of p = map (\<lambda>i. take i p) [1..<Suc (length p)]"

text \<open>
  \<open>Path.mkdir(exist_ok=True, parents=True)\<close>: creates the directory and its missing
  ancestors; fails when one of them is a regular file.
\<close>

definition mkdir_parents :: "path \<Rightarrow> (world, unit) st" where
  "mkdir_parents p w =
     (if list_ex (\<lambda>q. fs_files w q \<noteq> None) (prefixes_of p) then (Inl NotADirectoryError, w)
      else (Inr (), w\<lparr>fs_dirs := fs_dirs w \<union> set (prefixes_of p)\<rparr>))"

text \<open>
  \<open>open(dest, "wb")\<close>: fails on a directory or a missing parent directory; otherwise
  creates the file, or truncates it to empty (freeing its bytes).
\<close>

definition open_wb :: "path \<Rightarrow> (world, unit) st" where
  "open_wb p w =
     (if p \<in> fs_dirs w then (Inl IsADirectoryError, w)
      else if parent p \<noteq> [] \<and> parent p \<notin> fs_dirs w then (Inl FileNotFoundError, w)
      else (Inr (),
            w\<lparr>fs_files := (fs_files w)(p \<mapsto> []),
              disk_free := disk_free w + length (case fs_files w p of None \<Rightarrow> [] | Some b \<Rightarrow> b)\<rparr>))"

text \<open>\<open>f.write(chk)\<close> on a file opened for writing: appends, or fails when the disk is full.\<close>

definition fs_write :: "path \<Rightarrow> bytes \<Rightarrow> (world, unit) st" where
  "fs_write p chk w =
     (if length chk \<le> disk_free w
      then (Inr (), w\<lparr>fs_files := (fs_files w)(p \<mapsto> the (fs_files w p) @ chk),
                      disk_free := disk_free w - length chk\<rparr>)
      else (Inl NoSpaceError, w))"

text \<open>Reading a whole file, as a loader that opens the path does.\<close>

definition fs_read :: "path \<Rightarrow> (world, bytes) st" where
  "fs_read p w =
     (case fs_files w p of
        Some b \<Rightarrow> (Inr b, w)
      | None \<Rightarrow> (if p \<in> fs_dirs w then (Inl IsADirectoryError, w) else (Inl FileNotFoundError, w)))"

subsection \<open>Hugging Face hub and its local cache\<close>

definition hf_hub_url :: "string \<Rightarrow> string \<Rightarrow> string \<Rightarrow> string" where
  "hf_hub_url repo filename revision =
     ''https://huggingface.co/'' @ repo @ ''/resolve/'' @ revision @ ''/'' @ filename"

text \<open>
  \<open>hf_hub_download\<close>: resolves the revision with a metadata request, then fetches the
  blob unless the cache already has it for that commit. The result is the cache entry
  (commit, file name), which stands for the returned local path. When the hub cannot be
  reached, the library falls back to the cache: it returns the cached file of the commit
  the revision last resolved to (\<open>hub_commit\<close>, which the hub keeps while offline)
  and raises only when that file is not cached.
\<close>

definition hf_hub_download :: "string \<Rightarrow> string \<Rightarrow> string \<Rightarrow> (world, string \<times> string) st" where
  "hf_hub_download repo filename revision w =
     (if \<not> online w then
        (case hf_cache w (hub_commit w, filename) of
           Some blob \<Rightarrow> (Inr (hub_commit w, filename), w)
         | None \<Rightarrow> (Inl ConnectionError, w))
      else
        let url = hf_hub_url repo filename revision;
            w1 = w\<lparr>net_log := net_log w @ [HeadReq url]\<rparr>
        in case hub_files w filename of
             None \<Rightarrow> (Inl EntryNotFoundError, w1)
           | Some blob \<Rightarrow>
               let key = (hub_commit w, filename)
               in if hf_cache w key \<noteq> None then (Inr key, w1)
                  else (Inr key, w1\<lparr>net_log := net_log w1 @ [GetReq url],
                                     hf_cache := (hf_cache w)(key \<mapsto> blob)\<rparr>))"

text \<open>\<open>get_hf_file_metadata(url).commit_hash\<close>: one metadata request.\<close>

definition get_hf_file_metadata :: "string \<Rightarrow> (world, string) st" where
  "get_hf_file_metadata url w =
     (if \<not> online w then (Inl ConnectionError, w)
      else (Inr (hub_commit w), w\<lparr>net_log := net_log w @ [HeadReq url]\<rparr>))"

text \<open>
  \<open>scan_cache_dir().delete_revisions(h).execute()\<close>: removes every cached file of
  commit \<open>h\<close>, whatever its name; local, no request.
\<close>

definition delete_revisions :: "string \<Rightarrow> (world, unit) st" where
  "delete_revisions h w =
     (Inr (), w\<lparr>hf_cache := (\<lambda>k. if fst k = h then None else hf_cache w k)\<rparr>)"

subsection \<open>Frames\<close>

text \<open>
  \<open>writes_only p w w'\<close>: from \<open>w\<close> to \<open>w'\<close> no request was made, the cache, the
  hub and the directories are unchanged, no file other than \<open>p\<close> changed, and no file
  disappeared.
\<close>

definition writes_only :: "path \<Rightarrow> world \<Rightarrow> world \<Rightarrow> bool" where
  "writes_only p w w' \<longleftrightarrow>
     net_log w' = net_log w \<and> hf_cache w' = hf_cache w \<and> fs_dirs w' = fs_dirs w \<and>
     hub_files w' = hub_files w \<and> hub_commit w' = hub_commit w \<and> online w' = online w \<and>
     (\<forall>q. q \<noteq> p \<longrightarrow> fs_files w' q = fs_files w q) \<and> dom (fs_files w) \<subseteq> dom (fs_files w')"

subsection \<open>A concrete world\<close>

text \<open>
  A small world used to evaluate the operations on concrete inputs: the models
  directory \<open>LLM\<close> exists and holds one empty file, eight bytes of disk are free, and
  the hub is online with no files.
\<close>

definition demo_world :: world where
  "demo_world =
     \<lparr>fs_files = [[''LLM'', ''moondream-2b-int8.mf''] \<mapsto> []], fs_dirs = {[''LLM'']}, disk_free = 8,
      hub_files = Map.empty, hub_commit = ''c0'', online = True, hf_cache = Map.empty,
      net_log = []\<rparr>"

subsection \<open>Facts about the primitives\<close>

lemmas world_defs = mkdir_parents_def open_wb_def fs_write_def fs_read_def
  hf_hub_download_def get_hf_file_metadata_def delete_revisions_def

lemma writes_only_refl [simp]: "writes_only p w w"
  by (simp add: writes_only_def)

lemma writes_only_trans:
  assumes "writes_only p w1 w2" and "writes_only p w2 w3"
  shows "writes_only p w1 w3"
proof -
  have "dom (fs_files w1) \<subseteq> dom (fs_files w3)"
    using assms unfolding writes_only_def by (meson order_trans)
  then show ?thesis
    using assms unfolding writes_only_def by simp
qed

lemma fs_write_writes_only: "fs_write p c w = (r, w') \<Longrightarrow> writes_only p w w'"
  by (auto simp: fs_write_def writes_only_def split: if_splits)

text \<open>The filesystem primitives make no request and leave the hub and the cache alone.\<close>

lemma fs_prims_frame:
  "mkdir_parents p w = (r, w') \<Longrightarrow> net_log w' = net_log w \<and> hf_cache w' = hf_cache w \<and> fs_files w' = fs_files w"
  "open_wb p w = (r', w'') \<Longrightarrow> net_log w'' = net_log w \<and> hf_cache w'' = hf_cache w"
  "fs_write p c w = (r'', w''') \<Longrightarrow> net_log w''' = net_log w \<and> hf_cache w''' = hf_cache w"
  by (auto simp: world_defs split: if_splits)

text \<open>No primitive removes a regular file.\<close>

lemma prims_keep_files:
  "mkdir_parents p w = (r, w') \<Longrightarrow> dom (fs_files w) \<subseteq> dom (fs_files w')"
  "open_wb p w = (r1, w1) \<Longrightarrow> dom (fs_files w) \<subseteq> dom (fs_files w1)"
  "fs_write p c w = (r2, w2) \<Longrightarrow> dom (fs_files w) \<subseteq> dom (fs_files w2)"
  "hf_hub_download repo f rv w = (r3, w3) \<Longrightarrow> fs_files w3 = fs_files w"
  "get_hf_file_metadata u w = (r4, w4) \<Longrightarrow> fs_files w4 = fs_files w"
  "delete_revisions h w = (r5, w5) \<Longrightarrow> fs_files w5 = fs_files w"
  by (auto simp: world_defs Let_def split: if_splits option.splits)

end
