(* ===== verification/Stream_Copy.thy ===== *)
theory Stream_Copy
  imports World "HOL-Library.Sublist"
begin

text \<open>
  The streaming decompression loop of \<open>moondream2_DownLoad.download\<close>
  (\<open>src/__init__.py\<close>, lines 35--38):
  \<^verbatim>\<open>
    with gzip.open(gz) as data:
        read_chk = lambda: data.read(1024576)
        with open(dest, "wb") as mf:
            for chk in iter(read_chk, b""): mf.write(chk)
  \<close>
  A gzip reader is the part of the decompressed stream not yet read and whether the
  stream ends cleanly. \<open>copy_chunks\<close> is the \<open>for\<close> loop; \<open>copy_spec\<close> is what it is
  meant to do (write the stream as a list of chunks), and \<open>copy_chunks_eq_spec\<close> proves
  them equal. The lemmas on \<open>write_all\<close> then give the loop's result on every branch.
\<close>

record gz_reader =
  gz_rest :: bytes
  gz_ok :: bool

text \<open>\<open>gzip.open(path)\<close> on the cached blob.\<close>

definition gzip_open :: "string \<times> string \<Rightarrow> (world, gz_reader) st" where
  "gzip_open key w =
     (case hf_cache w key of
        None \<Rightarrow> (Inl FileNotFoundError, w)
      | Some (GzStream payload ok) \<Rightarrow> (Inr \<lparr>gz_rest = payload, gz_ok = ok\<rparr>, w))"

text \<open>
  \<open>data.read(n)\<close>: the next \<open>n\<close> bytes, fewer at the end of the stream, \<open>b""\<close> at its
  end; a read that needs bytes past the damage of a corrupt stream raises.
\<close>

definition gz_read :: "nat \<Rightarrow> gz_reader \<Rightarrow> (py_error + bytes) \<times> gz_reader" where
  "gz_read n r =
     (if \<not> gz_ok r \<and> length (gz_rest r) < n then (Inl BadGzipFile, r)
      else (Inr (take n (gz_rest r)), r\<lparr>gz_rest := drop n (gz_rest r)\<rparr>))"

text \<open>\<open>for chk in iter(read_chk, b""): mf.write(chk)\<close>.\<close>

function copy_chunks :: "nat \<Rightarrow> path \<Rightarrow> gz_reader \<Rightarrow> (world, unit) st" where
  "copy_chunks n dest r w =
     (case gz_read n r of
        (Inl e, r') \<Rightarrow> (Inl e, w)
      | (Inr chk, r') \<Rightarrow>
          if chk = [] then (Inr (), w)
          else (case fs_write dest chk w of
                  (Inl e, w') \<Rightarrow> (Inl e, w')
                | (Inr u, w') \<Rightarrow> copy_chunks n dest r' w'))"
  by pat_completeness auto
termination
  by (relation "measure (\<lambda>(n, dest, r, w). length (gz_rest r))")
     (auto simp: gz_read_def split: if_splits)

declare copy_chunks.simps [simp del]

subsection \<open>The reference: the stream cut into chunks, written in order\<close>

function chunks :: "nat \<Rightarrow> 'a list \<Rightarrow> 'a list list" where
  "chunks n xs = (if n = 0 \<or> xs = [] then [] else take n xs # chunks n (drop n xs))"
  by pat_completeness auto
termination
  by (relation "measure (\<lambda>(n, xs). length xs)") auto

declare chunks.simps [simp del]

fun write_all :: "path \<Rightarrow> bytes list \<Rightarrow> (world, unit) st" where
  "write_all p [] = ret ()"
| "write_all p (c # cs) = bind_st (fs_write p c) (\<lambda>_. write_all p cs)"

text \<open>The complete chunks a corrupt stream yields before the read that raises.\<close>

definition readable :: "nat \<Rightarrow> 'a list \<Rightarrow> 'a list" where
  "readable n xs = take (length xs div n * n) xs"

definition copy_spec :: "nat \<Rightarrow> path \<Rightarrow> bytes \<Rightarrow> bool \<Rightarrow> (world, unit) st" where
  "copy_spec n dest xs ok =
     (if n = 0 then ret ()
      else if ok then write_all dest (chunks n xs)
      else bind_st (write_all dest (chunks n (readable n xs))) (\<lambda>_. throw BadGzipFile))"

lemma chunks_Cons:
  "0 < n \<Longrightarrow> xs \<noteq> [] \<Longrightarrow> chunks n xs = take n xs # chunks n (drop n xs)"
  by (simp add: chunks.simps)

lemma chunks_Nil [simp]: "chunks n [] = []"
  by (simp add: chunks.simps)

lemma concat_chunks: "0 < n \<Longrightarrow> concat (chunks n xs) = xs"
  by (induction n xs rule: chunks.induct) (simp add: chunks.simps)

lemma chunks_length_bound: "c \<in> set (chunks n xs) \<Longrightarrow> 0 < length c \<and> length c \<le> n"
proof (induction n xs rule: chunks.induct)
  case (1 n xs)
  then show ?case
    by (subst (asm) chunks.simps) (auto split: if_splits)
qed

lemma readable_step:
  assumes "0 < n" "n \<le> length xs"
  shows "readable n xs = take n xs @ readable n (drop n xs)"
proof -
  have "length xs div n * n = n + (length xs - n) div n * n"
    using assms by (simp add: le_div_geq algebra_simps)
  then show ?thesis
    by (simp add: readable_def take_add)
qed

lemma readable_short: "length xs < n \<Longrightarrow> readable n xs = []"
  by (simp add: readable_def)

lemma chunks_append_block:
  "0 < n \<Longrightarrow> length c = n \<Longrightarrow> chunks n (c @ ys) = c # chunks n ys"
  by (cases c) (auto simp: chunks_Cons)

subsection \<open>The loop is its specification\<close>

lemma copy_chunks_eq_spec:
  "copy_chunks n dest r w = copy_spec n dest (gz_rest r) (gz_ok r) w"
proof (induction n dest r w rule: copy_chunks.induct)
  case (1 n dest r w)
  consider (zero) "n = 0"
    | (bad) "0 < n" "\<not> gz_ok r" "length (gz_rest r) < n"
    | (last) "0 < n" "gz_ok r" "gz_rest r = []"
    | (more) "0 < n" "gz_rest r \<noteq> []" "gz_ok r \<or> n \<le> length (gz_rest r)"
    by (cases "n = 0"; cases "gz_ok r"; cases "gz_rest r = []"; cases "length (gz_rest r) < n") auto
  then show ?case
  proof cases
    case zero
    then show ?thesis
      by (simp add: copy_chunks.simps gz_read_def copy_spec_def)
  next
    case bad
    then show ?thesis
      by (simp add: copy_chunks.simps gz_read_def copy_spec_def readable_short)
  next
    case last
    then show ?thesis
      by (simp add: copy_chunks.simps gz_read_def copy_spec_def)
  next
    case more
    let ?c = "take n (gz_rest r)" and ?r' = "r\<lparr>gz_rest := drop n (gz_rest r)\<rparr>"
    have rd: "gz_read n r = (Inr ?c, ?r')"
      using more by (auto simp: gz_read_def)
    have ne: "?c \<noteq> []"
      using more by simp
    have spec: "copy_spec n dest (gz_rest r) (gz_ok r)
          = bind_st (fs_write dest ?c) (\<lambda>_. copy_spec n dest (drop n (gz_rest r)) (gz_ok r))"
    proof (cases "gz_ok r")
      case True
      then show ?thesis using more by (simp add: copy_spec_def chunks_Cons)
    next
      case False
      then have "n \<le> length (gz_rest r)" using more by simp
      then show ?thesis
        using more False
        by (simp add: copy_spec_def readable_step chunks_append_block bind_st_assoc)
    qed
    show ?thesis
    proof (cases "fs_write dest ?c w")
      case (Pair x w')
      show ?thesis
      proof (cases x)
        case (Inl e)
        then show ?thesis
          using rd ne spec Pair by (simp add: copy_chunks.simps [of n dest r w])
      next
        case (Inr u)
        have "copy_chunks n dest ?r' w' = copy_spec n dest (drop n (gz_rest r)) (gz_ok r) w'"
          using "1.IH"[OF rd[symmetric] refl ne Pair[symmetric] Inr] by simp
        then show ?thesis
          using rd ne spec Pair Inr by (simp add: copy_chunks.simps [of n dest r w])
      qed
    qed
  qed
qed

subsection \<open>Writing a list of chunks\<close>

lemma write_all_frame: "write_all p cs w = (r, w') \<Longrightarrow> writes_only p w w'"
proof (induction cs arbitrary: w)
  case Nil
  then show ?case by simp
next
  case (Cons c cs)
  from Cons.prems have "bind_st (fs_write p c) (\<lambda>_. write_all p cs) w = (r, w')"
    by simp
  then show ?case
  proof (cases rule: bind_st_cases)
    case (fail e)
    then show ?thesis by (blast intro: fs_write_writes_only)
  next
    case (ok a s1)
    show ?thesis
      using fs_write_writes_only [OF ok(1)] Cons.IH [OF ok(2)] by (rule writes_only_trans)
  qed
qed

lemma copy_chunks_frame:
  assumes "copy_chunks n dest rd w = (r, w')"
  shows "writes_only dest w w'"
proof -
  from assms have spec: "copy_spec n dest (gz_rest rd) (gz_ok rd) w = (r, w')"
    by (simp add: copy_chunks_eq_spec)
  consider (zero) "n = 0" | (clean) "0 < n" "gz_ok rd" | (corrupt) "0 < n" "\<not> gz_ok rd"
    by auto
  then show ?thesis
  proof cases
    case zero
    with spec show ?thesis by (simp add: copy_spec_def)
  next
    case clean
    with spec have "write_all dest (chunks n (gz_rest rd)) w = (r, w')"
      by (simp add: copy_spec_def)
    then show ?thesis by (rule write_all_frame)
  next
    case corrupt
    with spec have "bind_st (write_all dest (chunks n (readable n (gz_rest rd)))) (\<lambda>_. throw BadGzipFile) w
        = (r, w')"
      by (simp add: copy_spec_def)
    then show ?thesis
    proof (cases rule: bind_st_cases)
      case (fail e)
      then show ?thesis by (blast intro: write_all_frame)
    next
      case (ok a s1)
      then show ?thesis using write_all_frame [OF ok(1)] by simp
    qed
  qed
qed

lemma write_all_ok:
  "fs_files w p = Some old \<Longrightarrow> length (concat cs) \<le> disk_free w \<Longrightarrow>
   write_all p cs w =
     (Inr (), w\<lparr>fs_files := (fs_files w)(p \<mapsto> old @ concat cs),
                disk_free := disk_free w - length (concat cs)\<rparr>)"
proof (induction cs arbitrary: w old)
  case Nil
  then show ?case by (simp add: map_upd_triv)
next
  case (Cons c cs)
  let ?w1 = "w\<lparr>fs_files := (fs_files w)(p \<mapsto> old @ c), disk_free := disk_free w - length c\<rparr>"
  have "fs_write p c w = (Inr (), ?w1)"
    using Cons.prems by (simp add: fs_write_def)
  then have "write_all p (c # cs) w = write_all p cs ?w1"
    by simp
  also have "\<dots> = (Inr (), ?w1\<lparr>fs_files := (fs_files ?w1)(p \<mapsto> (old @ c) @ concat cs),
                  disk_free := disk_free ?w1 - length (concat cs)\<rparr>)"
    using Cons.prems by (intro Cons.IH) auto
  also have "\<dots> = (Inr (), w\<lparr>fs_files := (fs_files w)(p \<mapsto> old @ concat (c # cs)),
                  disk_free := disk_free w - length (concat (c # cs))\<rparr>)"
    by simp
  finally show ?case .
qed

lemma write_all_no_space:
  "fs_files w p = Some old \<Longrightarrow> disk_free w < length (concat cs) \<Longrightarrow>
   \<exists>k w'. write_all p cs w = (Inl NoSpaceError, w') \<and>
          fs_files w' p = Some (old @ take k (concat cs)) \<and> k \<le> disk_free w \<and> k < length (concat cs)"
proof (induction cs arbitrary: w old)
  case Nil
  then show ?case by simp
next
  case (Cons c cs)
  show ?case
  proof (cases "length c \<le> disk_free w")
    case True
    let ?w1 = "w\<lparr>fs_files := (fs_files w)(p \<mapsto> old @ c), disk_free := disk_free w - length c\<rparr>"
    have wr: "fs_write p c w = (Inr (), ?w1)"
      using Cons.prems True by (simp add: fs_write_def)
    have "fs_files ?w1 p = Some (old @ c)" and "disk_free ?w1 < length (concat cs)"
      using Cons.prems True by auto
    from Cons.IH [OF this] obtain k w' where k: "write_all p cs ?w1 = (Inl NoSpaceError, w')"
        "fs_files w' p = Some ((old @ c) @ take k (concat cs))"
        "k \<le> disk_free ?w1" "k < length (concat cs)"
      by blast
    then show ?thesis
      using wr True by (intro exI [of _ "length c + k"] exI [of _ w']) auto
  next
    case False
    then have "c \<noteq> []" by auto
    then show ?thesis
      using Cons.prems False by (intro exI [of _ 0] exI [of _ w]) (simp add: fs_write_def)
  qed
qed

lemma length_chunks: "0 < n \<Longrightarrow> length (chunks n xs) = (length xs + n - 1) div n"
proof (induction n xs rule: chunks.induct)
  case (1 n xs)
  show ?case
  proof (cases "xs = []")
    case True
    then show ?thesis using "1.prems" by simp
  next
    case False
    have "length (chunks n (drop n xs)) = (length xs - n + n - 1) div n"
      using "1.IH" "1.prems" False by simp
    moreover have "Suc ((length xs - n + n - 1) div n) = (length xs + n - 1) div n"
    proof (cases "n \<le> length xs")
      case True
      have "(length xs + n - 1) div n = Suc ((length xs + n - 1 - n) div n)"
        using "1.prems" True False by (intro le_div_geq) auto
      moreover have "length xs + n - 1 - n = length xs - n + n - 1"
        using True by simp
      ultimately show ?thesis by simp
    next
      case short: False
      have "0 < length xs"
        using False by simp
      then have "n * 1 \<le> length xs + n - 1" and "length xs + n - 1 < n * Suc 1"
        using short by arith+
      then have "(length xs + n - 1) div n = 1"
        by (rule div_nat_eqI)
      then show ?thesis
        using short by simp
    qed
    ultimately show ?thesis
      using "1.prems" False by (simp add: chunks_Cons)
  qed
qed

lemma readable_prefix:
  assumes "0 < n"
  shows "readable n xs = take (length (readable n xs)) xs \<and>
     n dvd length (readable n xs) \<and> length xs < length (readable n xs) + n"
proof -
  have le: "length xs div n * n \<le> length xs"
    by (metis div_mult_mod_eq le_add1)
  have lt: "length xs < length xs div n * n + n"
    using assms
    by (metis add.commute div_mult_mod_eq mod_less_divisor nat_add_left_cancel_less)
  have "length (readable n xs) = length xs div n * n"
    using le by (simp add: readable_def min_absorb2)
  then show ?thesis
    using lt by (simp add: readable_def)
qed

lemma copy_spec_clean:
  assumes "0 < n" and "fs_files w dest = Some old" and "length xs \<le> disk_free w"
  shows "copy_spec n dest xs True w =
     (Inr (), w\<lparr>fs_files := (fs_files w)(dest \<mapsto> old @ xs), disk_free := disk_free w - length xs\<rparr>)"
  using write_all_ok [OF assms(2), of "chunks n xs"] assms(1,3)
  by (simp add: copy_spec_def concat_chunks)

lemma copy_spec_corrupt:
  assumes "0 < n" and "fs_files w dest = Some old" and "length xs \<le> disk_free w"
  shows "copy_spec n dest xs False w =
     (Inl BadGzipFile,
      w\<lparr>fs_files := (fs_files w)(dest \<mapsto> old @ readable n xs),
        disk_free := disk_free w - length (readable n xs)\<rparr>)"
proof -
  have "length (readable n xs) \<le> length xs"
    by (simp add: readable_def)
  then show ?thesis
    using write_all_ok [OF assms(2), of "chunks n (readable n xs)"] assms(1,3)
    by (simp add: copy_spec_def concat_chunks)
qed

subsection \<open>A normal return\<close>

lemma write_all_Inr:
  "write_all p cs w = (Inr u, w') \<Longrightarrow> fs_files w p = Some old \<Longrightarrow>
   fs_files w' = (fs_files w)(p \<mapsto> old @ concat cs) \<and> fs_dirs w' = fs_dirs w"
proof (induction cs arbitrary: w old)
  case Nil
  then show ?case by auto
next
  case (Cons c cs)
  from Cons.prems(1) obtain w1 where wr: "fs_write p c w = (Inr (), w1)" and rest: "write_all p cs w1 = (Inr u, w')"
    by (auto dest!: bind_st_InrD)
  then have "fs_files w1 = (fs_files w)(p \<mapsto> old @ c)" and "fs_dirs w1 = fs_dirs w"
    using Cons.prems(2) by (auto simp: fs_write_def split: if_splits)
  with Cons.IH [OF rest] show ?case
    by (simp add: fun_eq_iff)
qed

text \<open>The copy returns normally only on an intact stream, and then the file holds all of it.\<close>

lemma copy_chunks_Inr:
  assumes "copy_chunks n dest rd w = (Inr u, w')" and "0 < n" and "fs_files w dest = Some old"
  shows "gz_ok rd \<and> fs_files w' = (fs_files w)(dest \<mapsto> old @ gz_rest rd) \<and> fs_dirs w' = fs_dirs w"
proof -
  have spec: "copy_spec n dest (gz_rest rd) (gz_ok rd) w = (Inr u, w')"
    using assms(1) by (simp add: copy_chunks_eq_spec)
  show ?thesis
  proof (cases "gz_ok rd")
    case True
    then show ?thesis
      using spec assms(2,3) write_all_Inr [of dest "chunks n (gz_rest rd)" w u w' old]
      by (simp add: copy_spec_def concat_chunks)
  next
    case False
    then show ?thesis
      using spec assms(2) by (auto simp: copy_spec_def bind_st_def split: prod.splits sum.splits)
  qed
qed

subsection \<open>What the loop does on each branch\<close>

text \<open>
  C17. On a clean stream, with the disk space it needs, the loop appends the whole
  decompressed stream to the destination file and returns normally.
\<close>

theorem copy_chunks_clean:
  assumes "0 < n" and "fs_files w dest = Some old" and "length xs \<le> disk_free w"
  shows "copy_chunks n dest \<lparr>gz_rest = xs, gz_ok = True\<rparr> w =
     (Inr (), w\<lparr>fs_files := (fs_files w)(dest \<mapsto> old @ xs), disk_free := disk_free w - length xs\<rparr>)"
  using copy_spec_clean [OF assms] by (simp add: copy_chunks_eq_spec)

theorem copy_chunks_clean_witness:
  "0 < (2::nat) \<and> fs_files demo_world [''LLM'', ''moondream-2b-int8.mf''] = Some [] \<and>
   length [1, 2, 3 :: byte] \<le> disk_free demo_world \<and>
   copy_chunks 2 [''LLM'', ''moondream-2b-int8.mf''] \<lparr>gz_rest = [1, 2, 3], gz_ok = True\<rparr> demo_world =
     (Inr (), demo_world\<lparr>fs_files := (fs_files demo_world)([''LLM'', ''moondream-2b-int8.mf''] \<mapsto> [1, 2, 3]),
                         disk_free := 5\<rparr>)"
  using copy_chunks_clean [of 2 demo_world "[''LLM'', ''moondream-2b-int8.mf'']" "[]" "[1, 2, 3]"]
  by (simp add: demo_world_def)

text \<open>
  C18. On a corrupt stream the loop raises \<open>BadGzipFile\<close> after writing every complete
  chunk read before the damage: the file is left holding a truncated prefix of the
  stream, shorter than the readable part by less than one chunk.
\<close>

theorem copy_chunks_corrupt:
  assumes "0 < n" and "fs_files w dest = Some old" and "length xs \<le> disk_free w"
  shows "copy_chunks n dest \<lparr>gz_rest = xs, gz_ok = False\<rparr> w =
     (Inl BadGzipFile,
      w\<lparr>fs_files := (fs_files w)(dest \<mapsto> old @ readable n xs),
        disk_free := disk_free w - length (readable n xs)\<rparr>)"
  using copy_spec_corrupt [OF assms] by (simp add: copy_chunks_eq_spec)

theorem copy_chunks_corrupt_witness:
  "0 < (2::nat) \<and> fs_files demo_world [''LLM'', ''moondream-2b-int8.mf''] = Some [] \<and>
   length [1, 2, 3 :: byte] \<le> disk_free demo_world \<and>
   copy_chunks 2 [''LLM'', ''moondream-2b-int8.mf''] \<lparr>gz_rest = [1, 2, 3], gz_ok = False\<rparr> demo_world =
     (Inl BadGzipFile,
      demo_world\<lparr>fs_files := (fs_files demo_world)([''LLM'', ''moondream-2b-int8.mf''] \<mapsto> [1, 2]),
                 disk_free := 6\<rparr>)"
  using copy_chunks_corrupt [of 2 demo_world "[''LLM'', ''moondream-2b-int8.mf'']" "[]" "[1, 2, 3]"]
  by (simp add: demo_world_def readable_def)

text \<open>
  C19. When the disk fills up, the loop raises \<open>NoSpaceError\<close> and leaves the file
  holding a strict prefix of the stream.
\<close>

theorem copy_chunks_no_space:
  assumes "0 < n" and "fs_files w dest = Some old" and "disk_free w < length xs"
  shows "\<exists>k w'. copy_chunks n dest \<lparr>gz_rest = xs, gz_ok = True\<rparr> w = (Inl NoSpaceError, w') \<and>
           fs_files w' dest = Some (old @ take k xs) \<and> k < length xs"
proof -
  obtain k w' where "write_all dest (chunks n xs) w = (Inl NoSpaceError, w')"
      "fs_files w' dest = Some (old @ take k xs)" "k < length xs"
    using write_all_no_space [OF assms(2), of "chunks n xs"] assms(1,3)
    by (auto simp: concat_chunks)
  then show ?thesis
    using assms(1) by (auto simp: copy_chunks_eq_spec copy_spec_def)
qed

theorem copy_chunks_no_space_witness:
  "0 < (4::nat) \<and> fs_files demo_world [''LLM'', ''moondream-2b-int8.mf''] = Some [] \<and>
   disk_free demo_world < length (replicate 10 (7 :: byte)) \<and>
   (\<exists>k w'. copy_chunks 4 [''LLM'', ''moondream-2b-int8.mf''] \<lparr>gz_rest = replicate 10 7, gz_ok = True\<rparr> demo_world
            = (Inl NoSpaceError, w') \<and>
          fs_files w' [''LLM'', ''moondream-2b-int8.mf''] = Some ([] @ take k (replicate 10 7)) \<and> k < 10)"
  using copy_chunks_no_space [of 4 demo_world "[''LLM'', ''moondream-2b-int8.mf'']" "[]" "replicate 10 7"]
  by (simp add: demo_world_def)


subsection \<open>Whatever the outcome, the file grows by a prefix of the stream\<close>

lemma write_all_prefix:
  "write_all p cs w = (r, w') \<Longrightarrow> fs_files w p = Some old \<Longrightarrow>
   \<exists>c. fs_files w' p = Some (old @ c) \<and> prefix c (concat cs)"
proof (induction cs arbitrary: w old)
  case Nil
  then show ?case by auto
next
  case (Cons c cs)
  from Cons.prems(1) have "bind_st (fs_write p c) (\<lambda>_. write_all p cs) w = (r, w')"
    by simp
  then show ?case
  proof (cases rule: bind_st_cases)
    case (fail e)
    then have "w' = w"
      by (simp add: fs_write_def split: if_splits)
    then show ?thesis
      using Cons.prems(2) by (intro exI [of _ "[]"]) simp
  next
    case (ok a w1)
    have "fs_files w1 p = Some (old @ c)"
      using ok(1) Cons.prems(2) by (auto simp: fs_write_def split: if_splits)
    from Cons.IH [OF ok(2) this] obtain d where "fs_files w' p = Some ((old @ c) @ d)" "prefix d (concat cs)"
      by blast
    then show ?thesis
      by (intro exI [of _ "c @ d"]) simp
  qed
qed

lemma copy_chunks_prefix:
  assumes "copy_chunks n dest rd w = (r, w')" and "fs_files w dest = Some old"
  shows "\<exists>c. fs_files w' dest = Some (old @ c) \<and> prefix c (gz_rest rd)"
proof -
  from assms(1) have spec: "copy_spec n dest (gz_rest rd) (gz_ok rd) w = (r, w')"
    by (simp add: copy_chunks_eq_spec)
  consider (zero) "n = 0" | (clean) "0 < n" "gz_ok rd" | (corrupt) "0 < n" "\<not> gz_ok rd"
    by auto
  then show ?thesis
  proof cases
    case zero
    with spec assms(2) show ?thesis
      by (intro exI [of _ "[]"]) (simp add: copy_spec_def)
  next
    case clean
    with spec have "write_all dest (chunks n (gz_rest rd)) w = (r, w')"
      by (simp add: copy_spec_def)
    from write_all_prefix [OF this assms(2)] clean show ?thesis
      by (simp add: concat_chunks)
  next
    case corrupt
    have pre: "prefix (readable n (gz_rest rd)) (gz_rest rd)"
      by (simp add: readable_def take_is_prefix)
    from corrupt spec have "bind_st (write_all dest (chunks n (readable n (gz_rest rd)))) (\<lambda>_. throw BadGzipFile) w
        = (r, w')"
      by (simp add: copy_spec_def)
    then obtain r1 where "write_all dest (chunks n (readable n (gz_rest rd))) w = (r1, w')"
      by (cases rule: bind_st_cases) auto
    from write_all_prefix [OF this assms(2)] corrupt pre show ?thesis
      by (auto simp: concat_chunks intro: prefix_order.trans)
  qed
qed

end
