(* ===== verification/Py_Str.thy ===== *)
theory Py_Str
  imports Prelude
begin

text \<open>
  Python's \<open>str.replace(old, new)\<close> (every occurrence, scanning left to right, matches
  not overlapping; an empty \<open>old\<close> inserts \<open>new\<close> around every character), as the
  language reference defines it. The loader normalises the model size label with
  \<open>size.replace(".", "_")\<close>; for a one-character pattern the general definition is
  a character-wise map (\<open>str_replace_single\<close>).
\<close>

function str_replace :: "string \<Rightarrow> string \<Rightarrow> string \<Rightarrow> string" where
  "str_replace s old new =
     (if old = [] then new @ concat (map (\<lambda>c. c # new) s)
      else if s = [] then []
      else if take (length old) s = old then new @ str_replace (drop (length old) s) old new
      else hd s # str_replace (tl s) old new)"
  by pat_completeness auto
termination
  by (relation "measure (\<lambda>(s, old, new). length s)") auto

declare str_replace.simps [simp del]

lemma str_replace_Nil [simp]: "old \<noteq> [] \<Longrightarrow> str_replace [] old new = []"
  by (simp add: str_replace.simps)

lemma str_replace_single_Cons:
  "str_replace (x # xs) [c] new = (if x = c then new else [x]) @ str_replace xs [c] new"
  by (simp add: str_replace.simps [of "x # xs"])

lemma str_replace_single:
  "str_replace s [c] new = concat (map (\<lambda>x. if x = c then new else [x]) s)"
  by (induction s) (simp_all add: str_replace_single_Cons)

lemma str_replace_char:
  "str_replace s [c] [d] = map (\<lambda>x. if x = c then d else x) s"
  by (induction s) (simp_all add: str_replace_single_Cons)

end
