(* ===== verification/Engine.thy ===== *)
theory Engine
  imports World
begin

text \<open>
  The inference handle the nodes pass around (\<open>onnx_vl.OnnxVL\<close> of the
  \<open>moondream\<close> package, not part of this repository). The loader builds it with
  \<open>OnnxVL.from_path\<close>, which reads the model file and fails when the file is missing,
  is a directory, or is not a model the engine accepts. Its entry points
  (\<open>encode_image\<close>, \<open>caption\<close>, \<open>query\<close>) are an interface: a record of functions,
  generic in the image type the encoder takes and the encoded-image type it returns,
  so that every theorem about the nodes holds for any engine.
\<close>

record vl_model =
  model_path :: path
  model_weights :: bytes

type_synonym settings = "string \<rightharpoonup> int"
type_synonym gen_result = "string \<rightharpoonup> string"

record ('img, 'enc) vl_engine =
  accepts_model :: "bytes \<Rightarrow> bool"
  encode_image :: "vl_model \<Rightarrow> 'img \<Rightarrow> py_error + 'enc"
  eng_caption :: "vl_model \<Rightarrow> 'enc \<Rightarrow> string \<Rightarrow> bool \<Rightarrow> settings \<Rightarrow> py_error + gen_result"
  eng_query :: "vl_model \<Rightarrow> 'enc \<Rightarrow> string \<Rightarrow> bool \<Rightarrow> settings \<Rightarrow> py_error + gen_result"

text \<open>\<open>OnnxVL.from_path(path)\<close>.\<close>

definition from_path :: "('img, 'enc) vl_engine \<Rightarrow> path \<Rightarrow> (world, vl_model) st" where
  "from_path eng p =
     bind_st (fs_read p)
       (\<lambda>b. if accepts_model eng b then ret \<lparr>model_path = p, model_weights = b\<rparr>
            else throw ModelLoadError)"

text \<open>
  An engine for evaluating the nodes on concrete inputs: it accepts every model file,
  encodes an image as its pixel bytes, and answers with fixed texts.
\<close>

definition demo_engine :: "(bytes, bytes) vl_engine" where
  "demo_engine =
     \<lparr>accepts_model = (\<lambda>b. True),
      encode_image = (\<lambda>m img. Inr img),
      eng_caption = (\<lambda>m e len stream st. Inr [''caption'' \<mapsto> ''a cat'', ''length'' \<mapsto> len]),
      eng_query = (\<lambda>m e q stream st. Inr [''answer'' \<mapsto> ''yes'', ''question'' \<mapsto> q])\<rparr>"

lemma from_path_world: "from_path eng p w = (r, w') \<Longrightarrow> w' = w"
  by (auto simp: from_path_def bind_st_def fs_read_def split: option.splits if_splits)

lemma from_path_pair: "from_path eng p w = (fst (from_path eng p w), w)"
  by (metis from_path_world prod.collapse)

lemma from_path_Inr: "from_path eng p w = (Inr m, w') \<Longrightarrow> fs_files w p \<noteq> None"
  by (auto simp: from_path_def bind_st_def fs_read_def split: option.splits if_splits)

lemma from_path_file:
  "fs_files w p = Some b \<Longrightarrow>
   from_path eng p w =
     (if accepts_model eng b then Inr \<lparr>model_path = p, model_weights = b\<rparr> else Inl ModelLoadError, w)"
  by (simp add: from_path_def fs_read_def)

lemma from_path_dir:
  "fs_files w p = None \<Longrightarrow> p \<in> fs_dirs w \<Longrightarrow> from_path eng p w = (Inl IsADirectoryError, w)"
  by (simp add: from_path_def fs_read_def)

end
