(* ===== verification/Fetcher.thy ===== *)
theory Fetcher
  imports Stream_Copy Py_Str Engine
begin

text \<open>
  The download/load node \<open>moondream2_DownLoad\<close> (\<open>src/__init__.py\<close>, lines 6--59):
  \<open>load(size, quant)\<close> turns the options into the artifact name
  \<open>moondream-{size with . replaced by _}-{quant}.mf\<close> under \<open>ROOT = models_dir/LLM\<close>,
  calls \<open>download\<close> when that path does not exist, and hands the path to
  \<open>OnnxVL.from_path\<close>. \<open>download(name, dest)\<close> fetches \<open>{name}.gz\<close> from the hub into its
  cache, creates the parent directory, streams the decompressed bytes into \<open>dest\<close> (the
  loop of \<^theory_text>\<open>Stream_Copy\<close>), then asks the hub for the commit hash of the file and
  deletes that revision from the cache. Every statement is a step of the state-exception
  monad, so an exception leaves the world as the statements before it made it.
\<close>

definition size_options :: "string list" where
  "size_options = [''0.5b'', ''2b'']"

definition quant_options :: "string list" where
  "quant_options = [''int4'', ''int8'']"

definition ROOT :: "path \<Rightarrow> path" where
  "ROOT models_dir = models_dir @ [''LLM'']"

definition hf_repo :: string where
  "hf_repo = ''vikhyatk/moondream2''"

definition hf_revision :: string where
  "hf_revision = ''onnx''"

definition read_chunk_size :: nat where
  "read_chunk_size = 1024576"

definition download :: "string \<Rightarrow> path \<Rightarrow> (world, unit) st" where
  "download name dest =
     bind_st (hf_hub_download hf_repo (name @ ''.gz'') hf_revision) (\<lambda>gz.
     bind_st (mkdir_parents (parent dest)) (\<lambda>_.
     bind_st (gzip_open gz) (\<lambda>data.
     bind_st (open_wb dest) (\<lambda>_.
     bind_st (copy_chunks read_chunk_size dest data) (\<lambda>_.
     bind_st (get_hf_file_metadata (hf_hub_url hf_repo (name @ ''.gz'') hf_revision)) (\<lambda>hash.
     delete_revisions hash))))))"

definition model_file_name :: "string \<Rightarrow> string \<Rightarrow> string" where
  "model_file_name size_label quant = ''moondream-'' @ str_replace size_label ''.'' ''_'' @ ''-'' @ quant @ ''.mf''"

definition artifact_path :: "path \<Rightarrow> string \<Rightarrow> string \<Rightarrow> path" where
  "artifact_path models_dir size_label quant = ROOT models_dir @ [model_file_name size_label quant]"

definition ensure_artifact :: "string \<Rightarrow> path \<Rightarrow> (world, unit) st" where
  "ensure_artifact name mf w = (if \<not> path_exists mf w then download name mf w else (Inr (), w))"

definition load :: "('img, 'enc) vl_engine \<Rightarrow> path \<Rightarrow> string \<Rightarrow> string \<Rightarrow> (world, vl_model) st" where
  "load eng models_dir size_label quant =
     bind_st (ensure_artifact (model_file_name size_label quant) (artifact_path models_dir size_label quant))
       (\<lambda>_. from_path eng (artifact_path models_dir size_label quant))"

subsection \<open>The download on its normal path\<close>

text \<open>
  The URL of the artifact's blob; every request \<open>download\<close> makes is for it.
\<close>

definition blob_url :: "string \<Rightarrow> string" where
  "blob_url name = hf_hub_url hf_repo (name @ ''.gz'') hf_revision"

text \<open>
  \<open>dl_frame name dest w0 w\<close>: between \<open>w0\<close> and \<open>w\<close> the hub is unchanged, no file
  but \<open>dest\<close> changed, the cache entry of \<open>name.gz\<close> for the current commit agrees with
  the hub, and \<open>dest\<close> is either as it was or holds a prefix of the decompressed
  content of \<open>name.gz\<close> on the hub.
\<close>

definition dl_frame :: "string \<Rightarrow> path \<Rightarrow> world \<Rightarrow> world \<Rightarrow> bool" where
  "dl_frame name dest w0 w \<longleftrightarrow>
     hub_files w = hub_files w0 \<and> hub_commit w = hub_commit w0 \<and>
     (\<forall>p. p \<noteq> dest \<longrightarrow> fs_files w p = fs_files w0 p) \<and>
     (\<forall>b. hf_cache w (hub_commit w, name @ ''.gz'') = Some b \<longrightarrow> hub_files w (name @ ''.gz'') = Some b) \<and>
     (fs_files w dest = fs_files w0 dest \<or>
      (\<exists>b xs ok. fs_files w dest = Some b \<and> hub_files w0 (name @ ''.gz'') = Some (GzStream xs ok) \<and>
         prefix b xs))"

lemma parent_in_prefixes: "p \<noteq> [] \<Longrightarrow> p \<in> set (prefixes_of p)"
  by (auto simp: prefixes_of_def image_iff Suc_le_eq intro: bexI [of _ "length p"])

lemma not_in_parent_prefixes: "p \<notin> set (prefixes_of (parent p))"
proof
  assume mem: "p \<in> set (prefixes_of (parent p))"
  then have "p \<noteq> []"
    by (auto simp: prefixes_of_def parent_def)
  from mem obtain i where "p = take i (butlast p)"
    by (auto simp: prefixes_of_def parent_def)
  then have "length p = length (take i (butlast p))"
    by (rule arg_cong)
  also have "\<dots> \<le> length p - 1"
    by simp
  finally have "length p \<le> length p - 1" .
  moreover have "0 < length p"
    using \<open>p \<noteq> []\<close> by simp
  ultimately show False
    by linarith
qed

text \<open>
  Up to the loop, \<open>download\<close> on a world where the hub has the blob, the cache does not,
  the parent can be created and the destination is free: one metadata request and one
  fetch, the blob in the cache, the parent directories made, the destination empty.
\<close>

lemma download_to_loop:
  assumes on: "online w" and hub: "hub_files w (name @ ''.gz'') = Some (GzStream xs ok)"
    and nc: "hf_cache w (hub_commit w, name @ ''.gz'') = None"
    and mk: "\<not> list_ex (\<lambda>q. fs_files w q \<noteq> None) (prefixes_of (parent dest))"
    and nd: "dest \<notin> fs_dirs w" and nf: "fs_files w dest = None"
  shows "download name dest w =
     bind_st (copy_chunks read_chunk_size dest \<lparr>gz_rest = xs, gz_ok = ok\<rparr>)
       (\<lambda>_. bind_st (get_hf_file_metadata (blob_url name)) delete_revisions)
       (w\<lparr>net_log := net_log w @ [HeadReq (blob_url name), GetReq (blob_url name)],
          hf_cache := (hf_cache w)((hub_commit w, name @ ''.gz'') \<mapsto> GzStream xs ok),
          fs_dirs := fs_dirs w \<union> set (prefixes_of (parent dest)),
          fs_files := (fs_files w)(dest \<mapsto> [])\<rparr>)"
proof -
  let ?g = "name @ ''.gz''" and ?u = "blob_url name"
  let ?w1 = "w\<lparr>net_log := net_log w @ [HeadReq ?u, GetReq ?u],
                hf_cache := (hf_cache w)((hub_commit w, ?g) \<mapsto> GzStream xs ok)\<rparr>"
  let ?w2 = "?w1\<lparr>fs_dirs := fs_dirs w \<union> set (prefixes_of (parent dest))\<rparr>"
  let ?w3 = "?w2\<lparr>fs_files := (fs_files w)(dest \<mapsto> []), disk_free := disk_free w\<rparr>"
  have h1: "hf_hub_download hf_repo ?g hf_revision w = (Inr (hub_commit w, ?g), ?w1)"
    using on hub nc by (simp add: hf_hub_download_def blob_url_def Let_def)
  have h2: "mkdir_parents (parent dest) ?w1 = (Inr (), ?w2)"
    using mk by (simp add: mkdir_parents_def)
  have h3: "gzip_open (hub_commit w, ?g) ?w2 = (Inr \<lparr>gz_rest = xs, gz_ok = ok\<rparr>, ?w2)"
    by (simp add: gzip_open_def)
  have h4: "open_wb dest ?w2 = (Inr (), ?w3)"
    using nd nf parent_in_prefixes [of "parent dest"] not_in_parent_prefixes [of dest]
    by (auto simp: open_wb_def)
  have "download name dest w =
      bind_st (copy_chunks read_chunk_size dest \<lparr>gz_rest = xs, gz_ok = ok\<rparr>)
        (\<lambda>_. bind_st (get_hf_file_metadata ?u) delete_revisions) ?w3"
    by (simp add: download_def h1 h2 h3 h4 blob_url_def [symmetric])
  then show ?thesis
    by simp
qed

text \<open>
  The whole download on a clean stream: the destination holds the decompressed bytes,
  every cached file of the resolved commit is gone, and the hub saw a metadata request,
  the fetch and a second metadata request.
\<close>

lemma download_clean:
  assumes on: "online w" and hub: "hub_files w (name @ ''.gz'') = Some (GzStream xs True)"
    and nc: "hf_cache w (hub_commit w, name @ ''.gz'') = None"
    and mk: "\<not> list_ex (\<lambda>q. fs_files w q \<noteq> None) (prefixes_of (parent dest))"
    and nd: "dest \<notin> fs_dirs w" and nf: "fs_files w dest = None"
    and sp: "length xs \<le> disk_free w"
  shows "\<exists>w'. download name dest w = (Inr (), w') \<and>
     fs_files w' = (fs_files w)(dest \<mapsto> xs) \<and>
     fs_dirs w' = fs_dirs w \<union> set (prefixes_of (parent dest)) \<and>
     disk_free w' = disk_free w - length xs \<and>
     net_log w' = net_log w @ [HeadReq (blob_url name), GetReq (blob_url name), HeadReq (blob_url name)] \<and>
     hf_cache w' = (\<lambda>k. if fst k = hub_commit w then None else hf_cache w k) \<and>
     hub_files w' = hub_files w \<and> hub_commit w' = hub_commit w \<and> online w' = online w"
proof -
  define w3 where "w3 = w\<lparr>net_log := net_log w @ [HeadReq (blob_url name), GetReq (blob_url name)],
          hf_cache := (hf_cache w)((hub_commit w, name @ ''.gz'') \<mapsto> GzStream xs True),
          fs_dirs := fs_dirs w \<union> set (prefixes_of (parent dest)),
          fs_files := (fs_files w)(dest \<mapsto> [])\<rparr>"
  define w4 where "w4 = w3\<lparr>fs_files := (fs_files w)(dest \<mapsto> xs), disk_free := disk_free w - length xs\<rparr>"
  define w5 where "w5 = w4\<lparr>net_log := net_log w4 @ [HeadReq (blob_url name)]\<rparr>"
  define w6 where "w6 = w5\<lparr>hf_cache := (\<lambda>k. if fst k = hub_commit w then None else hf_cache w5 k)\<rparr>"
  have d: "download name dest w =
      bind_st (copy_chunks read_chunk_size dest \<lparr>gz_rest = xs, gz_ok = True\<rparr>)
        (\<lambda>_. bind_st (get_hf_file_metadata (blob_url name)) delete_revisions) w3"
    using download_to_loop [OF on hub nc mk nd nf] by (simp add: w3_def)
  have c: "copy_chunks read_chunk_size dest \<lparr>gz_rest = xs, gz_ok = True\<rparr> w3 = (Inr (), w4)"
    using copy_spec_clean [of read_chunk_size w3 dest "[]" xs] sp
    by (simp add: copy_chunks_eq_spec w3_def w4_def read_chunk_size_def)
  have g: "get_hf_file_metadata (blob_url name) w4 = (Inr (hub_commit w), w5)"
    using on by (simp add: get_hf_file_metadata_def w5_def w4_def w3_def)
  have r: "delete_revisions (hub_commit w) w5 = (Inr (), w6)"
    by (simp add: delete_revisions_def w6_def)
  have "download name dest w = (Inr (), w6)"
    by (simp add: d c g r)
  moreover have "hf_cache w6 = (\<lambda>k. if fst k = hub_commit w then None else hf_cache w k)"
    by (auto simp: w6_def w5_def w4_def w3_def fun_eq_iff)
  ultimately show ?thesis
    by (simp add: w6_def w5_def w4_def w3_def)
qed

text \<open>
  The whole download on a corrupt stream: the loop raises after writing the complete
  chunks before the damage, so the destination is left holding a truncated stream, and
  the cache clean-up after the loop never runs: the blob stays in the cache.
\<close>

lemma download_corrupt:
  assumes on: "online w" and hub: "hub_files w (name @ ''.gz'') = Some (GzStream xs False)"
    and nc: "hf_cache w (hub_commit w, name @ ''.gz'') = None"
    and mk: "\<not> list_ex (\<lambda>q. fs_files w q \<noteq> None) (prefixes_of (parent dest))"
    and nd: "dest \<notin> fs_dirs w" and nf: "fs_files w dest = None"
    and sp: "length xs \<le> disk_free w"
  shows "\<exists>w'. download name dest w = (Inl BadGzipFile, w') \<and>
     fs_files w' = (fs_files w)(dest \<mapsto> readable read_chunk_size xs) \<and>
     fs_dirs w' = fs_dirs w \<union> set (prefixes_of (parent dest)) \<and>
     net_log w' = net_log w @ [HeadReq (blob_url name), GetReq (blob_url name)] \<and>
     hf_cache w' = (hf_cache w)((hub_commit w, name @ ''.gz'') \<mapsto> GzStream xs False) \<and>
     hub_files w' = hub_files w \<and> hub_commit w' = hub_commit w \<and> online w' = online w"
proof -
  define w3 where "w3 = w\<lparr>net_log := net_log w @ [HeadReq (blob_url name), GetReq (blob_url name)],
          hf_cache := (hf_cache w)((hub_commit w, name @ ''.gz'') \<mapsto> GzStream xs False),
          fs_dirs := fs_dirs w \<union> set (prefixes_of (parent dest)),
          fs_files := (fs_files w)(dest \<mapsto> [])\<rparr>"
  define w4 where "w4 = w3\<lparr>fs_files := (fs_files w)(dest \<mapsto> readable read_chunk_size xs),
          disk_free := disk_free w - length (readable read_chunk_size xs)\<rparr>"
  have d: "download name dest w =
      bind_st (copy_chunks read_chunk_size dest \<lparr>gz_rest = xs, gz_ok = False\<rparr>)
        (\<lambda>_. bind_st (get_hf_file_metadata (blob_url name)) delete_revisions) w3"
    using download_to_loop [OF on hub nc mk nd nf] by (simp add: w3_def)
  have c: "copy_chunks read_chunk_size dest \<lparr>gz_rest = xs, gz_ok = False\<rparr> w3 = (Inl BadGzipFile, w4)"
    using copy_spec_corrupt [of read_chunk_size w3 dest "[]" xs] sp
    by (simp add: copy_chunks_eq_spec w3_def w4_def read_chunk_size_def)
  have "download name dest w = (Inl BadGzipFile, w4)"
    by (simp add: d c)
  then show ?thesis
    by (simp add: w4_def w3_def)
qed

text \<open>
  The whole download when the cache already holds the blob of the current commit (a
  cache hit): no fetch, one metadata request each for the resolution and the clean-up,
  and the same files, directories, space and cache as after a fetch.
\<close>

lemma download_clean_cached:
  assumes on: "online w" and hub: "hub_files w (name @ ''.gz'') = Some (GzStream xs True)"
    and hit: "hf_cache w (hub_commit w, name @ ''.gz'') = Some (GzStream xs True)"
    and mk: "\<not> list_ex (\<lambda>q. fs_files w q \<noteq> None) (prefixes_of (parent dest))"
    and nd: "dest \<notin> fs_dirs w" and nf: "fs_files w dest = None"
    and sp: "length xs \<le> disk_free w"
  shows "\<exists>w'. download name dest w = (Inr (), w') \<and>
     fs_files w' = (fs_files w)(dest \<mapsto> xs) \<and>
     fs_dirs w' = fs_dirs w \<union> set (prefixes_of (parent dest)) \<and>
     disk_free w' = disk_free w - length xs \<and>
     hf_cache w' = (\<lambda>k. if fst k = hub_commit w then None else hf_cache w k) \<and>
     hub_files w' = hub_files w \<and> hub_commit w' = hub_commit w \<and> online w' = online w"
proof -
  let ?g = "name @ ''.gz''" and ?u = "blob_url name"
  define w2 where "w2 = w\<lparr>net_log := net_log w @ [HeadReq ?u], fs_dirs := fs_dirs w \<union> set (prefixes_of (parent dest))\<rparr>"
  define w3 where "w3 = w2\<lparr>fs_files := (fs_files w)(dest \<mapsto> []), disk_free := disk_free w\<rparr>"
  define w4 where "w4 = w3\<lparr>fs_files := (fs_files w)(dest \<mapsto> xs), disk_free := disk_free w - length xs\<rparr>"
  have h1: "hf_hub_download hf_repo ?g hf_revision w = (Inr (hub_commit w, ?g), w\<lparr>net_log := net_log w @ [HeadReq ?u]\<rparr>)"
    using on hub hit by (simp add: hf_hub_download_def blob_url_def Let_def)
  have h2: "mkdir_parents (parent dest) (w\<lparr>net_log := net_log w @ [HeadReq ?u]\<rparr>) = (Inr (), w2)"
    using mk by (simp add: mkdir_parents_def w2_def)
  have h3: "gzip_open (hub_commit w, ?g) w2 = (Inr \<lparr>gz_rest = xs, gz_ok = True\<rparr>, w2)"
    using hit by (simp add: gzip_open_def w2_def)
  have h4: "open_wb dest w2 = (Inr (), w3)"
    using nd nf parent_in_prefixes [of "parent dest"] not_in_parent_prefixes [of dest]
    by (auto simp: open_wb_def w2_def w3_def)
  have c: "copy_chunks read_chunk_size dest \<lparr>gz_rest = xs, gz_ok = True\<rparr> w3 = (Inr (), w4)"
    using copy_spec_clean [of read_chunk_size w3 dest "[]" xs] sp
    by (simp add: copy_chunks_eq_spec w2_def w3_def w4_def read_chunk_size_def)
  have g: "get_hf_file_metadata (blob_url name) w4 = (Inr (hub_commit w), w4\<lparr>net_log := net_log w4 @ [HeadReq ?u]\<rparr>)"
    using on by (simp add: get_hf_file_metadata_def w4_def w3_def w2_def)
  have c4: "hf_cache w4 = hf_cache w"
    by (simp add: w2_def w3_def w4_def)
  have "download name dest w = (Inr (), (w4\<lparr>net_log := net_log w4 @ [HeadReq ?u]\<rparr>)\<lparr>hf_cache :=
      (\<lambda>k. if fst k = hub_commit w then None else hf_cache w k)\<rparr>)"
    by (simp add: download_def h1 h2 h3 h4 c g blob_url_def [symmetric] delete_revisions_def)
       (simp add: c4 [symmetric] fun_eq_iff)
  then show ?thesis
    by (simp add: w2_def w3_def w4_def)
qed

text \<open>
  The whole download without a network connection when the cache holds the intact blob:
  \<open>hf_hub_download\<close> falls back to the cached file, the artifact is written in full,
  and then \<open>get_hf_file_metadata\<close> raises the connection error, so the cached blob
  is not deleted.
\<close>

lemma download_offline_cached:
  assumes off: "\<not> online w"
    and hit: "hf_cache w (hub_commit w, name @ ''.gz'') = Some (GzStream xs True)"
    and mk: "\<not> list_ex (\<lambda>q. fs_files w q \<noteq> None) (prefixes_of (parent dest))"
    and nd: "dest \<notin> fs_dirs w" and nf: "fs_files w dest = None"
    and sp: "length xs \<le> disk_free w"
  shows "download name dest w =
     (Inl ConnectionError, w\<lparr>fs_dirs := fs_dirs w \<union> set (prefixes_of (parent dest)),
        fs_files := (fs_files w)(dest \<mapsto> xs), disk_free := disk_free w - length xs\<rparr>)"
proof -
  let ?g = "name @ ''.gz''"
  define w2 where "w2 = w\<lparr>fs_dirs := fs_dirs w \<union> set (prefixes_of (parent dest))\<rparr>"
  define w3 where "w3 = w2\<lparr>fs_files := (fs_files w)(dest \<mapsto> []), disk_free := disk_free w\<rparr>"
  define w4 where "w4 = w3\<lparr>fs_files := (fs_files w)(dest \<mapsto> xs), disk_free := disk_free w - length xs\<rparr>"
  have h1: "hf_hub_download hf_repo ?g hf_revision w = (Inr (hub_commit w, ?g), w)"
    using off hit by (simp add: hf_hub_download_def)
  have h2: "mkdir_parents (parent dest) w = (Inr (), w2)"
    using mk by (simp add: mkdir_parents_def w2_def)
  have h3: "gzip_open (hub_commit w, ?g) w2 = (Inr \<lparr>gz_rest = xs, gz_ok = True\<rparr>, w2)"
    using hit by (simp add: gzip_open_def w2_def)
  have h4: "open_wb dest w2 = (Inr (), w3)"
    using nd nf parent_in_prefixes [of "parent dest"] not_in_parent_prefixes [of dest]
    by (auto simp: open_wb_def w2_def w3_def)
  have c: "copy_chunks read_chunk_size dest \<lparr>gz_rest = xs, gz_ok = True\<rparr> w3 = (Inr (), w4)"
    using copy_spec_clean [of read_chunk_size w3 dest "[]" xs] sp
    by (simp add: copy_chunks_eq_spec w2_def w3_def w4_def read_chunk_size_def)
  have g: "get_hf_file_metadata (blob_url name) w4 = (Inl ConnectionError, w4)"
    using off by (simp add: get_hf_file_metadata_def w4_def w3_def w2_def)
  have "download name dest w = (Inl ConnectionError, w4)"
    by (simp add: download_def h1 h2 h3 h4 c g blob_url_def [symmetric])
  then show ?thesis
    by (simp add: w2_def w3_def w4_def)
qed

lemma parent_artifact_path: "parent (artifact_path md s q) = ROOT md"
  by (simp add: parent_def artifact_path_def)

lemma artifact_path_2b_int8: "artifact_path [] ''2b'' ''int8'' = [''LLM'', ''moondream-2b-int8.mf'']"
  by (simp add: artifact_path_def ROOT_def model_file_name_def str_replace_char)

text \<open>
  A download that returned normally, read backwards: with the cache entry of the blob
  (if any) agreeing with the hub, the hub held the blob intact and the destination now
  holds exactly its decompressed content.
\<close>

lemma hf_hub_download_Inr:
  assumes "hf_hub_download repo f rv w = (Inr key, w1)"
    and "\<forall>b. hf_cache w (hub_commit w, f) = Some b \<longrightarrow> hub_files w f = Some b"
  shows "key = (hub_commit w, f) \<and> hf_cache w1 key = hub_files w f \<and> hub_files w f \<noteq> None \<and>
         fs_files w1 = fs_files w \<and> fs_dirs w1 = fs_dirs w"
  using assms
  by (auto simp: hf_hub_download_def Let_def split: if_splits option.splits)

lemma download_Inr:
  assumes dl: "download name dest w = (Inr (), w')"
    and coh: "\<forall>b. hf_cache w (hub_commit w, name @ ''.gz'') = Some b \<longrightarrow> hub_files w (name @ ''.gz'') = Some b"
  shows "\<exists>xs. hub_files w (name @ ''.gz'') = Some (GzStream xs True) \<and>
           fs_files w' = (fs_files w)(dest \<mapsto> xs) \<and>
           fs_dirs w' = fs_dirs w \<union> set (prefixes_of (parent dest))"
proof -
  let ?g = "name @ ''.gz''"
  from dl obtain key w1 where h: "hf_hub_download hf_repo ?g hf_revision w = (Inr key, w1)"
    and r1: "bind_st (mkdir_parents (parent dest)) (\<lambda>_. bind_st (gzip_open key) (\<lambda>data.
       bind_st (open_wb dest) (\<lambda>_. bind_st (copy_chunks read_chunk_size dest data) (\<lambda>_.
       bind_st (get_hf_file_metadata (hf_hub_url hf_repo ?g hf_revision)) delete_revisions)))) w1 = (Inr (), w')"
    using bind_st_InrD [OF dl [unfolded download_def]] by auto
  have hk: "key = (hub_commit w, ?g)" "hf_cache w1 key = hub_files w ?g"
    and hf: "fs_files w1 = fs_files w" "fs_dirs w1 = fs_dirs w"
    using hf_hub_download_Inr [OF h coh] by auto
  from bind_st_InrD [OF r1] obtain w2 where mk: "mkdir_parents (parent dest) w1 = (Inr (), w2)"
    and r2: "bind_st (gzip_open key) (\<lambda>data. bind_st (open_wb dest) (\<lambda>_.
       bind_st (copy_chunks read_chunk_size dest data) (\<lambda>_.
       bind_st (get_hf_file_metadata (hf_hub_url hf_repo ?g hf_revision)) delete_revisions))) w2 = (Inr (), w')"
    by auto
  from bind_st_InrD [OF r2] obtain data w3 where go: "gzip_open key w2 = (Inr data, w3)"
    and r3: "bind_st (open_wb dest) (\<lambda>_. bind_st (copy_chunks read_chunk_size dest data) (\<lambda>_.
       bind_st (get_hf_file_metadata (hf_hub_url hf_repo ?g hf_revision)) delete_revisions)) w3 = (Inr (), w')"
    by auto
  have "w3 = w2"
    using go by (auto simp: gzip_open_def split: option.splits gz_blob.splits)
  from bind_st_InrD [OF r3] obtain w4 where ow: "open_wb dest w2 = (Inr (), w4)"
    and r4: "bind_st (copy_chunks read_chunk_size dest data) (\<lambda>_.
       bind_st (get_hf_file_metadata (hf_hub_url hf_repo ?g hf_revision)) delete_revisions) w4 = (Inr (), w')"
    using \<open>w3 = w2\<close> by auto
  from bind_st_InrD [OF r4] obtain w5 where cp: "copy_chunks read_chunk_size dest data w4 = (Inr (), w5)"
    and tl: "bind_st (get_hf_file_metadata (hf_hub_url hf_repo ?g hf_revision)) delete_revisions w5 = (Inr (), w')"
    by auto
  have w2: "fs_files w2 = fs_files w" "fs_dirs w2 = fs_dirs w \<union> set (prefixes_of (parent dest))"
    "hf_cache w2 = hf_cache w1"
  proof -
    from mk have "w2 = w1\<lparr>fs_dirs := fs_dirs w1 \<union> set (prefixes_of (parent dest))\<rparr>"
      by (simp add: mkdir_parents_def split: if_splits)
    then show "fs_files w2 = fs_files w" "fs_dirs w2 = fs_dirs w \<union> set (prefixes_of (parent dest))"
      "hf_cache w2 = hf_cache w1"
      using hf by simp_all
  qed
  obtain xs ok where blob: "hub_files w ?g = Some (GzStream xs ok)" and rd: "data = \<lparr>gz_rest = xs, gz_ok = ok\<rparr>"
    using go hk w2(3) by (auto simp: gzip_open_def split: option.splits gz_blob.splits)
  have w4: "fs_files w4 = (fs_files w)(dest \<mapsto> [])" "fs_dirs w4 = fs_dirs w2"
    using ow w2(1) by (auto simp: open_wb_def split: if_splits)
  have "ok \<and> fs_files w5 = (fs_files w)(dest \<mapsto> xs) \<and> fs_dirs w5 = fs_dirs w2"
    using copy_chunks_Inr [OF cp _, of "[]"] w4 rd by (simp add: read_chunk_size_def)
  moreover have "fs_files w' = fs_files w5 \<and> fs_dirs w' = fs_dirs w5"
    using bind_st_InrD [OF tl] by (auto simp: get_hf_file_metadata_def delete_revisions_def split: if_splits)
  ultimately show ?thesis
    using blob w2(2) by auto
qed

text \<open>
  A load of a missing artifact on the normal path, with the world after it: the
  artifact holds the decompressed stream, the models directory exists, the space is
  taken, the cache holds nothing of the commit, and the handle is read from the file;
  whether the blob was cached (intact) or not before makes no difference to any of it.
\<close>

lemma load_fresh:
  assumes miss: "\<not> path_exists (artifact_path md s q) w" and on: "online w"
    and hub: "hub_files w (model_file_name s q @ ''.gz'') = Some (GzStream xs True)"
    and cache: "hf_cache w (hub_commit w, model_file_name s q @ ''.gz'') \<in> {None, Some (GzStream xs True)}"
    and mk: "\<not> list_ex (\<lambda>p. fs_files w p \<noteq> None) (prefixes_of (ROOT md))"
    and sp: "length xs \<le> disk_free w"
  shows "\<exists>w'. load eng md s q w = (fst (from_path eng (artifact_path md s q) w'), w') \<and>
     fs_files w' = (fs_files w)(artifact_path md s q \<mapsto> xs) \<and>
     fs_dirs w' = fs_dirs w \<union> set (prefixes_of (ROOT md)) \<and>
     disk_free w' = disk_free w - length xs \<and>
     hf_cache w' = (\<lambda>k. if fst k = hub_commit w then None else hf_cache w k) \<and>
     hub_files w' = hub_files w \<and> hub_commit w' = hub_commit w \<and> online w' = online w"
proof -
  let ?mf = "artifact_path md s q" and ?n = "model_file_name s q"
  have nd: "?mf \<notin> fs_dirs w" and nf: "fs_files w ?mf = None"
    using miss by (auto simp: path_exists_def)
  obtain w' where dl: "download ?n ?mf w = (Inr (), w')"
      and rest: "fs_files w' = (fs_files w)(?mf \<mapsto> xs) \<and>
        fs_dirs w' = fs_dirs w \<union> set (prefixes_of (ROOT md)) \<and>
        disk_free w' = disk_free w - length xs \<and>
        hf_cache w' = (\<lambda>k. if fst k = hub_commit w then None else hf_cache w k) \<and>
        hub_files w' = hub_files w \<and> hub_commit w' = hub_commit w \<and> online w' = online w"
    using cache download_clean [OF on hub _ _ nd nf sp] download_clean_cached [OF on hub _ _ nd nf sp] mk
    by (auto simp: parent_artifact_path)
  have "load eng md s q w = from_path eng ?mf w'"
    using miss dl by (simp add: load_def ensure_artifact_def)
  then show ?thesis
    using rest from_path_pair [of eng ?mf w'] by auto
qed

lemma load_demo_world:
  "load demo_engine [] ''2b'' ''int8'' demo_world =
     (Inr \<lparr>model_path = [''LLM'', ''moondream-2b-int8.mf''], model_weights = []\<rparr>, demo_world)"
  by (simp add: load_def ensure_artifact_def artifact_path_2b_int8 path_exists_def from_path_def
      fs_read_def demo_world_def demo_engine_def)

text \<open>With the model file in place, loading reads it and touches nothing else.\<close>

lemma load_file_present:
  "fs_files w (artifact_path md s q) = Some b \<Longrightarrow>
   load eng md s q w =
     (if accepts_model eng b then Inr \<lparr>model_path = artifact_path md s q, model_weights = b\<rparr>
      else Inl ModelLoadError, w)"
  by (simp add: load_def ensure_artifact_def path_exists_def from_path_file)

text \<open>
  A handle, once returned, is reproducible: the world after the load holds the artifact,
  and reading it there gives the same handle.
\<close>

lemma load_Inr_reproducible:
  assumes "load eng md s q w = (Inr m, w1)"
  shows "from_path eng (artifact_path md s q) w1 = (Inr m, w1) \<and> path_exists (artifact_path md s q) w1"
proof -
  let ?mf = "artifact_path md s q"
  from assms have "bind_st (ensure_artifact (model_file_name s q) ?mf) (\<lambda>_. from_path eng ?mf) w = (Inr m, w1)"
    by (simp add: load_def)
  then obtain w0 where fp: "from_path eng ?mf w0 = (Inr m, w1)"
    by (cases rule: bind_st_cases) auto
  then have "w1 = w0"
    by (rule from_path_world)
  with fp have f: "from_path eng ?mf w1 = (Inr m, w1)"
    by simp
  then show ?thesis
    using from_path_Inr by (auto simp: path_exists_def)
qed

subsection \<open>What a download writes, whatever its outcome\<close>

text \<open>
  Each statement of \<open>download\<close> keeps \<open>dl_frame\<close>; the key returned by the hub call,
  the reader \<open>gzip.open\<close> returns and the file \<open>open(dest, "wb")\<close> empties are carried
  from one statement to the next.
\<close>

lemma dl_frame_hub_download:
  "hoare (dl_frame name dest w0) (hf_hub_download hf_repo (name @ ''.gz'') hf_revision)
     (\<lambda>gz w. dl_frame name dest w0 w \<and> gz = (hub_commit w, name @ ''.gz'')) (dl_frame name dest w0)"
  by (auto simp: hoare_def hf_hub_download_def dl_frame_def Let_def split: if_splits option.splits)

lemma dl_frame_mkdir:
  "hoare (\<lambda>w. dl_frame name dest w0 w \<and> gz = (hub_commit w, g)) (mkdir_parents p)
     (\<lambda>_ w. dl_frame name dest w0 w \<and> gz = (hub_commit w, g)) (dl_frame name dest w0)"
  by (auto simp: hoare_def mkdir_parents_def dl_frame_def split: if_splits)

lemma dl_frame_gzip_open:
  "hoare (\<lambda>w. dl_frame name dest w0 w \<and> gz = (hub_commit w, name @ ''.gz'')) (gzip_open gz)
     (\<lambda>data w. dl_frame name dest w0 w \<and>
        hub_files w0 (name @ ''.gz'') = Some (GzStream (gz_rest data) (gz_ok data)))
     (dl_frame name dest w0)"
  by (auto simp: hoare_def gzip_open_def dl_frame_def split: option.splits gz_blob.splits)

lemma dl_frame_open_wb:
  "hoare (\<lambda>w. dl_frame name dest w0 w \<and> hub_files w0 (name @ ''.gz'') = Some (GzStream (gz_rest data) (gz_ok data)))
     (open_wb dest)
     (\<lambda>_ w. dl_frame name dest w0 w \<and> fs_files w dest = Some [] \<and>
        hub_files w0 (name @ ''.gz'') = Some (GzStream (gz_rest data) (gz_ok data)))
     (dl_frame name dest w0)"
  by (auto simp: hoare_def open_wb_def dl_frame_def split: if_splits)

lemma dl_frame_copy:
  "hoare (\<lambda>w. dl_frame name dest w0 w \<and> fs_files w dest = Some [] \<and>
        hub_files w0 (name @ ''.gz'') = Some (GzStream (gz_rest data) (gz_ok data)))
     (copy_chunks n dest data) (\<lambda>_. dl_frame name dest w0) (dl_frame name dest w0)"
proof -
  have "dl_frame name dest w0 w'"
    if f: "dl_frame name dest w0 w" and e: "fs_files w dest = Some []"
      and h: "hub_files w0 (name @ ''.gz'') = Some (GzStream (gz_rest data) (gz_ok data))"
      and c: "copy_chunks n dest data w = (r, w')" for w r w'
  proof -
    obtain b where b: "fs_files w' dest = Some b" "prefix b (gz_rest data)"
      using copy_chunks_prefix [OF c e] by auto
    with f h copy_chunks_frame [OF c] show ?thesis
      unfolding dl_frame_def writes_only_def by auto
  qed
  then show ?thesis
    unfolding hoare_def by (auto split: sum.splits)
qed

lemma dl_frame_metadata:
  "hoare (dl_frame name dest w0) (get_hf_file_metadata u) (\<lambda>_. dl_frame name dest w0) (dl_frame name dest w0)"
  by (auto simp: hoare_def get_hf_file_metadata_def dl_frame_def split: if_splits)

lemma dl_frame_delete:
  "hoare (dl_frame name dest w0) (delete_revisions h) (\<lambda>_. dl_frame name dest w0) (dl_frame name dest w0)"
  by (auto simp: hoare_def delete_revisions_def dl_frame_def)

text \<open>
  A download, whatever its outcome, changes no file but \<open>dest\<close> and leaves in \<open>dest\<close>
  what was there or a prefix of the decompressed hub content of \<open>name.gz\<close>, provided
  the cache entry of \<open>name.gz\<close> for the current commit agrees with the hub.
\<close>

lemma download_from_hub:
  assumes "\<forall>b. hf_cache w (hub_commit w, name @ ''.gz'') = Some b \<longrightarrow> hub_files w (name @ ''.gz'') = Some b"
    and "download name dest w = (r, w')"
  shows "dl_frame name dest w w'"
proof -
  have "hoare (dl_frame name dest w) (download name dest) (\<lambda>_. dl_frame name dest w) (dl_frame name dest w)"
    unfolding download_def
    by (rule hoare_bind [OF dl_frame_hub_download], rule hoare_bind [OF dl_frame_mkdir],
        rule hoare_bind [OF dl_frame_gzip_open], rule hoare_bind [OF dl_frame_open_wb],
        rule hoare_bind [OF dl_frame_copy], rule hoare_bind [OF dl_frame_metadata dl_frame_delete])
  moreover have "dl_frame name dest w w"
    using assms(1) by (simp add: dl_frame_def)
  ultimately show ?thesis
    using assms(2) by (rule hoare_inv)
qed

subsection \<open>What loading does\<close>

text \<open>
  C1. When the artifact already exists, \<open>load\<close> makes no request and changes nothing:
  it only hands the path to the engine's loader.
\<close>

theorem load_existing_no_download:
  assumes "path_exists (artifact_path md s q) w"
  shows "load eng md s q w = (fst (from_path eng (artifact_path md s q) w), w)"
proof -
  have "ensure_artifact (model_file_name s q) (artifact_path md s q) w = (Inr (), w)"
    using assms by (simp add: ensure_artifact_def)
  then have "load eng md s q w = from_path eng (artifact_path md s q) w"
    by (simp add: load_def)
  then show ?thesis
    by (simp add: from_path_pair [symmetric])
qed

theorem load_existing_no_download_witness:
  "path_exists (artifact_path [] ''2b'' ''int8'') demo_world \<and>
   load demo_engine [] ''2b'' ''int8'' demo_world =
     (fst (from_path demo_engine (artifact_path [] ''2b'' ''int8'') demo_world), demo_world)"
proof -
  have e: "path_exists (artifact_path [] ''2b'' ''int8'') demo_world"
    by (simp add: artifact_path_2b_int8 path_exists_def demo_world_def)
  show ?thesis
    using e load_existing_no_download [OF e, of demo_engine] by simp
qed

text \<open>
  C2. When the artifact is missing and everything goes well, \<open>load\<close> downloads it: the
  artifact holds the decompressed stream, the handle is built from it, the compressed
  copy is gone from the cache (with every other cached file of its commit), and exactly
  three requests were made: metadata, fetch, metadata.
\<close>

theorem load_missing_downloads:
  assumes miss: "\<not> path_exists (artifact_path md s q) w"
    and on: "online w"
    and hub: "hub_files w (model_file_name s q @ ''.gz'') = Some (GzStream xs True)"
    and nc: "hf_cache w (hub_commit w, model_file_name s q @ ''.gz'') = None"
    and mk: "\<not> list_ex (\<lambda>p. fs_files w p \<noteq> None) (prefixes_of (ROOT md))"
    and sp: "length xs \<le> disk_free w"
    and acc: "accepts_model eng xs"
  shows "\<exists>w'. load eng md s q w =
       (Inr \<lparr>model_path = artifact_path md s q, model_weights = xs\<rparr>, w') \<and>
     fs_files w' (artifact_path md s q) = Some xs \<and>
     (\<forall>f. hf_cache w' (hub_commit w, f) = None) \<and>
     net_log w' = net_log w @ [HeadReq (blob_url (model_file_name s q)),
                               GetReq (blob_url (model_file_name s q)),
                               HeadReq (blob_url (model_file_name s q))]"
proof -
  let ?mf = "artifact_path md s q" and ?n = "model_file_name s q"
  have nd: "?mf \<notin> fs_dirs w" and nf: "fs_files w ?mf = None"
    using miss by (auto simp: path_exists_def)
  obtain w' where dl: "download ?n ?mf w = (Inr (), w')"
      and files: "fs_files w' = (fs_files w)(?mf \<mapsto> xs)"
      and log: "net_log w' = net_log w @ [HeadReq (blob_url ?n), GetReq (blob_url ?n), HeadReq (blob_url ?n)]"
      and cache: "hf_cache w' = (\<lambda>k. if fst k = hub_commit w then None else hf_cache w k)"
    using download_clean [OF on hub nc _ nd nf sp] mk by (auto simp: parent_artifact_path)
  have "ensure_artifact ?n ?mf w = (Inr (), w')"
    using miss dl by (simp add: ensure_artifact_def)
  moreover have "from_path eng ?mf w' = (Inr \<lparr>model_path = ?mf, model_weights = xs\<rparr>, w')"
    using files acc by (simp add: from_path_file)
  ultimately have "load eng md s q w = (Inr \<lparr>model_path = ?mf, model_weights = xs\<rparr>, w')"
    by (simp add: load_def)
  then show ?thesis
    using files log cache by simp
qed

theorem load_missing_downloads_witness:
  "\<not> path_exists (artifact_path [] ''0.5b'' ''int4'') (demo_world\<lparr>hub_files := [''moondream-0_5b-int4.mf.gz'' \<mapsto> GzStream [1, 2, 3] True]\<rparr>) \<and>
   (\<exists>w'. load demo_engine [] ''0.5b'' ''int4'' (demo_world\<lparr>hub_files := [''moondream-0_5b-int4.mf.gz'' \<mapsto> GzStream [1, 2, 3] True]\<rparr>) =
       (Inr \<lparr>model_path = [''LLM'', ''moondream-0_5b-int4.mf''], model_weights = [1, 2, 3]\<rparr>, w') \<and>
     fs_files w' [''LLM'', ''moondream-0_5b-int4.mf''] = Some [1, 2, 3] \<and>
     (\<forall>f. hf_cache w' (''c0'', f) = None) \<and>
     net_log w' = [HeadReq (blob_url ''moondream-0_5b-int4.mf''), GetReq (blob_url ''moondream-0_5b-int4.mf''),
                   HeadReq (blob_url ''moondream-0_5b-int4.mf'')])"
proof -
  let ?w = "demo_world\<lparr>hub_files := [''moondream-0_5b-int4.mf.gz'' \<mapsto> GzStream [1, 2, 3] True]\<rparr>"
  have p: "artifact_path [] ''0.5b'' ''int4'' = [''LLM'', ''moondream-0_5b-int4.mf'']"
    and n: "model_file_name ''0.5b'' ''int4'' = ''moondream-0_5b-int4.mf''"
    by (simp_all add: artifact_path_def ROOT_def model_file_name_def str_replace_char)
  have miss: "\<not> path_exists (artifact_path [] ''0.5b'' ''int4'') ?w"
    by (simp add: p path_exists_def demo_world_def)
  show ?thesis
    using miss load_missing_downloads [OF miss, of "[1, 2, 3]" demo_engine]
    by (simp add: p n demo_world_def demo_engine_def ROOT_def prefixes_of_def)
qed

text \<open>
  C4. Loading the same model twice invokes the download at most once: after a load that
  returned a handle, loading again changes nothing (no request, no file) and returns
  the same handle.
\<close>

theorem load_idempotent:
  assumes "load eng md s q w = (Inr m, w1)"
  shows "load eng md s q w1 = (Inr m, w1)"
  using load_Inr_reproducible [OF assms] by (simp add: load_def ensure_artifact_def)

theorem load_idempotent_witness:
  "load demo_engine [] ''2b'' ''int8'' demo_world =
     (Inr \<lparr>model_path = [''LLM'', ''moondream-2b-int8.mf''], model_weights = []\<rparr>, demo_world) \<and>
   load demo_engine [] ''2b'' ''int8'' demo_world =
     (Inr \<lparr>model_path = [''LLM'', ''moondream-2b-int8.mf''], model_weights = []\<rparr>, demo_world)"
  using load_idempotent [OF load_demo_world] load_demo_world by simp

text \<open>
  C3. A download interrupted by a corrupt stream leaves a truncated artifact behind,
  and the compressed copy stays in the cache. A later load finds the path, makes no
  request, and hands the truncated file to the engine's loader: the download is never
  retried (the open question of the spec's design notes).
\<close>

theorem load_corrupt_leaves_truncated:
  assumes miss: "\<not> path_exists (artifact_path md s q) w"
    and on: "online w"
    and hub: "hub_files w (model_file_name s q @ ''.gz'') = Some (GzStream xs False)"
    and nc: "hf_cache w (hub_commit w, model_file_name s q @ ''.gz'') = None"
    and mk: "\<not> list_ex (\<lambda>p. fs_files w p \<noteq> None) (prefixes_of (ROOT md))"
    and sp: "length xs \<le> disk_free w"
  shows "\<exists>w1. load eng md s q w = (Inl BadGzipFile, w1) \<and>
     fs_files w1 (artifact_path md s q) = Some (readable read_chunk_size xs) \<and>
     hf_cache w1 (hub_commit w, model_file_name s q @ ''.gz'') = Some (GzStream xs False) \<and>
     load eng md s q w1 =
       (if accepts_model eng (readable read_chunk_size xs)
        then Inr \<lparr>model_path = artifact_path md s q, model_weights = readable read_chunk_size xs\<rparr>
        else Inl ModelLoadError, w1)"
proof -
  let ?mf = "artifact_path md s q" and ?n = "model_file_name s q"
  have nd: "?mf \<notin> fs_dirs w" and nf: "fs_files w ?mf = None"
    using miss by (auto simp: path_exists_def)
  obtain w1 where dl: "download ?n ?mf w = (Inl BadGzipFile, w1)"
      and files: "fs_files w1 = (fs_files w)(?mf \<mapsto> readable read_chunk_size xs)"
      and cache: "hf_cache w1 = (hf_cache w)((hub_commit w, ?n @ ''.gz'') \<mapsto> GzStream xs False)"
    using download_corrupt [OF on hub nc _ nd nf sp] mk by (auto simp: parent_artifact_path)
  have first: "load eng md s q w = (Inl BadGzipFile, w1)"
    using miss dl by (simp add: load_def ensure_artifact_def)
  have "path_exists ?mf w1"
    using files by (simp add: path_exists_def)
  then have "load eng md s q w1 = from_path eng ?mf w1"
    by (simp add: load_def ensure_artifact_def)
  also have "\<dots> = (if accepts_model eng (readable read_chunk_size xs)
        then Inr \<lparr>model_path = ?mf, model_weights = readable read_chunk_size xs\<rparr>
        else Inl ModelLoadError, w1)"
    using files by (simp add: from_path_file)
  finally show ?thesis
    using first files cache by simp
qed

theorem load_corrupt_leaves_truncated_witness:
  "\<not> path_exists (artifact_path [] ''0.5b'' ''int4'') (demo_world\<lparr>hub_files := [''moondream-0_5b-int4.mf.gz'' \<mapsto> GzStream [1, 2, 3] False]\<rparr>) \<and>
   (\<exists>w1. load demo_engine [] ''0.5b'' ''int4'' (demo_world\<lparr>hub_files := [''moondream-0_5b-int4.mf.gz'' \<mapsto> GzStream [1, 2, 3] False]\<rparr>) = (Inl BadGzipFile, w1) \<and>
     fs_files w1 [''LLM'', ''moondream-0_5b-int4.mf''] = Some [] \<and>
     hf_cache w1 (''c0'', ''moondream-0_5b-int4.mf.gz'') = Some (GzStream [1, 2, 3] False) \<and>
     load demo_engine [] ''0.5b'' ''int4'' w1 =
       (Inr \<lparr>model_path = [''LLM'', ''moondream-0_5b-int4.mf''], model_weights = []\<rparr>, w1))"
proof -
  let ?w = "demo_world\<lparr>hub_files := [''moondream-0_5b-int4.mf.gz'' \<mapsto> GzStream [1, 2, 3] False]\<rparr>"
  have p: "artifact_path [] ''0.5b'' ''int4'' = [''LLM'', ''moondream-0_5b-int4.mf'']"
    and n: "model_file_name ''0.5b'' ''int4'' = ''moondream-0_5b-int4.mf''"
    by (simp_all add: artifact_path_def ROOT_def model_file_name_def str_replace_char)
  have miss: "\<not> path_exists (artifact_path [] ''0.5b'' ''int4'') ?w"
    by (simp add: p path_exists_def demo_world_def)
  show ?thesis
    using miss load_corrupt_leaves_truncated [OF miss, of "[1, 2, 3]" demo_engine]
    by (simp add: p n demo_world_def demo_engine_def ROOT_def prefixes_of_def readable_def
        read_chunk_size_def)
qed

text \<open>
  C27. Without a network connection and without the artifact, \<open>load\<close> raises
  \<open>ConnectionError\<close> in both cases of the hub cache. If the cache does not hold the
  blob, \<open>hf_hub_download\<close> raises and the world is left as it was, so the next load tries
  the download again. If the cache holds the intact blob, \<open>hf_hub_download\<close> falls back
  to it and the whole artifact is written. Only then does \<open>get_hf_file_metadata\<close> raise,
  so the cache and the request log are unchanged. The next load then finds the complete
  file and passes it straight to \<open>from_path\<close>.
\<close>

theorem load_offline:
  assumes miss: "\<not> path_exists (artifact_path md s q) w" and off: "\<not> online w"
  shows "(hf_cache w (hub_commit w, model_file_name s q @ ''.gz'') = None \<longrightarrow>
            load eng md s q w = (Inl ConnectionError, w)) \<and>
         (hf_cache w (hub_commit w, model_file_name s q @ ''.gz'') = Some (GzStream xs True) \<and>
          \<not> list_ex (\<lambda>p. fs_files w p \<noteq> None) (prefixes_of (ROOT md)) \<and>
          length xs \<le> disk_free w \<longrightarrow>
            (\<exists>w1. load eng md s q w = (Inl ConnectionError, w1) \<and>
               fs_files w1 = (fs_files w)(artifact_path md s q \<mapsto> xs) \<and>
               hf_cache w1 = hf_cache w \<and> net_log w1 = net_log w \<and>
               load eng md s q w1 = from_path eng (artifact_path md s q) w1))"
proof (intro conjI impI)
  assume "hf_cache w (hub_commit w, model_file_name s q @ ''.gz'') = None"
  then show "load eng md s q w = (Inl ConnectionError, w)"
    using miss off by (simp add: load_def ensure_artifact_def download_def hf_hub_download_def)
next
  let ?mf = "artifact_path md s q"
  assume c: "hf_cache w (hub_commit w, model_file_name s q @ ''.gz'') = Some (GzStream xs True) \<and>
      \<not> list_ex (\<lambda>p. fs_files w p \<noteq> None) (prefixes_of (ROOT md)) \<and> length xs \<le> disk_free w"
  have nd: "?mf \<notin> fs_dirs w" and nf: "fs_files w ?mf = None"
    using miss by (auto simp: path_exists_def)
  define w1 where "w1 = w\<lparr>fs_dirs := fs_dirs w \<union> set (prefixes_of (parent ?mf)),
      fs_files := (fs_files w)(?mf \<mapsto> xs), disk_free := disk_free w - length xs\<rparr>"
  have dl: "download (model_file_name s q) ?mf w = (Inl ConnectionError, w1)"
    using download_offline_cached [OF off _ _ nd nf, of "model_file_name s q" xs] c
    by (simp add: w1_def parent_artifact_path)
  have "load eng md s q w = (Inl ConnectionError, w1)"
    using miss dl by (simp add: load_def ensure_artifact_def)
  moreover have "load eng md s q w1 = from_path eng ?mf w1"
    by (simp add: load_def ensure_artifact_def path_exists_def w1_def)
  ultimately show "\<exists>w1. load eng md s q w = (Inl ConnectionError, w1) \<and>
      fs_files w1 = (fs_files w)(?mf \<mapsto> xs) \<and> hf_cache w1 = hf_cache w \<and> net_log w1 = net_log w \<and>
      load eng md s q w1 = from_path eng ?mf w1"
    by (auto simp: w1_def)
qed

theorem load_offline_witness:
  "\<not> path_exists (artifact_path [] ''0.5b'' ''int8'') (demo_world\<lparr>online := False\<rparr>) \<and>
   \<not> online (demo_world\<lparr>online := False\<rparr>) \<and>
   load demo_engine [] ''0.5b'' ''int8'' (demo_world\<lparr>online := False\<rparr>) =
     (Inl ConnectionError, demo_world\<lparr>online := False\<rparr>) \<and>
   (\<exists>w1. load demo_engine [] ''0.5b'' ''int8''
        (demo_world\<lparr>online := False, fs_files := Map.empty, fs_dirs := {},
           hf_cache := [(''c0'', ''moondream-0_5b-int8.mf.gz'') \<mapsto> GzStream [7, 8] True]\<rparr>) =
        (Inl ConnectionError, w1) \<and>
      fs_files w1 = [[''LLM'', ''moondream-0_5b-int8.mf''] \<mapsto> [7, 8]] \<and>
      load demo_engine [] ''0.5b'' ''int8'' w1 =
        (Inr \<lparr>model_path = [''LLM'', ''moondream-0_5b-int8.mf''], model_weights = [7, 8]\<rparr>, w1))"
proof -
  let ?w = "demo_world\<lparr>online := False\<rparr>"
  let ?v = "demo_world\<lparr>online := False, fs_files := Map.empty, fs_dirs := {},
      hf_cache := [(''c0'', ''moondream-0_5b-int8.mf.gz'') \<mapsto> GzStream [7, 8] True]\<rparr>"
  have p: "artifact_path [] ''0.5b'' ''int8'' = [''LLM'', ''moondream-0_5b-int8.mf'']"
    and n: "model_file_name ''0.5b'' ''int8'' = ''moondream-0_5b-int8.mf''"
    by (simp_all add: artifact_path_def ROOT_def model_file_name_def str_replace_char)
  have miss: "\<not> path_exists (artifact_path [] ''0.5b'' ''int8'') ?w"
    and miss2: "\<not> path_exists (artifact_path [] ''0.5b'' ''int8'') ?v"
    by (simp_all add: p path_exists_def demo_world_def)
  have off: "\<not> online ?w" and off2: "\<not> online ?v"
    by simp_all
  have a: "load demo_engine [] ''0.5b'' ''int8'' ?w = (Inl ConnectionError, ?w)"
    using load_offline [OF miss off, where eng = demo_engine] by (simp add: n demo_world_def)
  obtain w1 where l1: "load demo_engine [] ''0.5b'' ''int8'' ?v = (Inl ConnectionError, w1)"
    and f1: "fs_files w1 = [[''LLM'', ''moondream-0_5b-int8.mf''] \<mapsto> [7, 8]]"
    and l2: "load demo_engine [] ''0.5b'' ''int8'' w1 = from_path demo_engine [''LLM'', ''moondream-0_5b-int8.mf''] w1"
    using load_offline [OF miss2 off2, where eng = demo_engine and xs = "[7, 8]"]
    by (auto simp: n p demo_world_def ROOT_def prefixes_of_def)
  have "from_path demo_engine [''LLM'', ''moondream-0_5b-int8.mf''] w1 =
      (Inr \<lparr>model_path = [''LLM'', ''moondream-0_5b-int8.mf''], model_weights = [7, 8]\<rparr>, w1)"
    using f1 by (simp add: from_path_file demo_engine_def)
  then show ?thesis
    using miss off a l1 f1 l2 by auto
qed

text \<open>
  C28. \<open>Path.exists()\<close> is also true of a directory: a directory at the artifact's path
  suppresses the download, and the load fails in the engine's loader.
\<close>

theorem load_directory_artifact:
  assumes "artifact_path md s q \<in> fs_dirs w" and "fs_files w (artifact_path md s q) = None"
  shows "load eng md s q w = (Inl IsADirectoryError, w)"
  using assms by (simp add: load_def ensure_artifact_def path_exists_def from_path_dir)

theorem load_directory_artifact_witness:
  "artifact_path [] ''2b'' ''int8'' \<in> fs_dirs (demo_world\<lparr>fs_files := Map.empty, fs_dirs := {[''LLM''], [''LLM'', ''moondream-2b-int8.mf'']}\<rparr>) \<and>
   fs_files (demo_world\<lparr>fs_files := Map.empty, fs_dirs := {[''LLM''], [''LLM'', ''moondream-2b-int8.mf'']}\<rparr>) (artifact_path [] ''2b'' ''int8'') = None \<and>
   load demo_engine [] ''2b'' ''int8'' (demo_world\<lparr>fs_files := Map.empty, fs_dirs := {[''LLM''], [''LLM'', ''moondream-2b-int8.mf'']}\<rparr>) =
     (Inl IsADirectoryError, demo_world\<lparr>fs_files := Map.empty, fs_dirs := {[''LLM''], [''LLM'', ''moondream-2b-int8.mf'']}\<rparr>)"
  using load_directory_artifact [of "[]" "''2b''" "''int8''"
      "demo_world\<lparr>fs_files := Map.empty, fs_dirs := {[''LLM''], [''LLM'', ''moondream-2b-int8.mf'']}\<rparr>" demo_engine]
  by (simp add: artifact_path_2b_int8)

text \<open>
  C29. The four option combinations of the node name four distinct artifacts:
  \<open>moondream-0_5b-int4.mf\<close>, \<open>moondream-0_5b-int8.mf\<close>, \<open>moondream-2b-int4.mf\<close>
  and \<open>moondream-2b-int8.mf\<close>.
\<close>

theorem model_file_names:
  "map (\<lambda>(s, q). model_file_name s q) (List.product size_options quant_options) =
     [''moondream-0_5b-int4.mf'', ''moondream-0_5b-int8.mf'', ''moondream-2b-int4.mf'', ''moondream-2b-int8.mf''] \<and>
   distinct (map (\<lambda>(s, q). model_file_name s q) (List.product size_options quant_options))"
  by (simp add: model_file_name_def size_options_def quant_options_def str_replace_char)

text \<open>
  C20. The decompression loop of \<open>download\<close> moves the stream in chunks of 1024576
  bytes (not \<open>2^20\<close>): on a clean stream it is the ordered writes of the chunks, there
  are \<open>ceil(len / 1024576)\<close> of them, each of 1 to 1024576 bytes, and together they
  are the whole stream.
\<close>

theorem download_loop_chunks:
  "copy_chunks read_chunk_size dest \<lparr>gz_rest = xs, gz_ok = True\<rparr> = write_all dest (chunks read_chunk_size xs) \<and>
   length (chunks read_chunk_size xs) = (length xs + 1024575) div 1024576 \<and>
   (\<forall>c \<in> set (chunks read_chunk_size xs). 0 < length c \<and> length c \<le> 1024576) \<and>
   concat (chunks read_chunk_size xs) = xs"
proof -
  have pos: "0 < read_chunk_size"
    by (simp add: read_chunk_size_def)
  have "copy_chunks read_chunk_size dest \<lparr>gz_rest = xs, gz_ok = True\<rparr> = write_all dest (chunks read_chunk_size xs)"
    using pos by (simp add: fun_eq_iff copy_chunks_eq_spec copy_spec_def)
  moreover have "length (chunks read_chunk_size xs) = (length xs + 1024575) div 1024576"
    using length_chunks [OF pos, of xs] by (simp add: read_chunk_size_def)
  moreover have "\<forall>c \<in> set (chunks read_chunk_size xs). 0 < length c \<and> length c \<le> 1024576"
    using chunks_length_bound [of _ read_chunk_size xs] by (simp add: read_chunk_size_def)
  ultimately show ?thesis
    using concat_chunks [OF pos] by simp
qed

theorem download_loop_chunks_witness:
  "copy_chunks read_chunk_size [''f''] \<lparr>gz_rest = [1, 2, 3], gz_ok = True\<rparr> =
     write_all [''f''] [[1, 2, 3]] \<and>
   chunks read_chunk_size [1, 2, 3 :: byte] = [[1, 2, 3]] \<and>
   length (chunks read_chunk_size [1, 2, 3 :: byte]) = 1"
proof -
  have c: "chunks read_chunk_size [1, 2, 3 :: byte] = [[1, 2, 3]]"
    by (simp add: chunks_Cons read_chunk_size_def)
  show ?thesis
    using download_loop_chunks [of "[''f'']" "[1, 2, 3]"] by (simp add: c)
qed

end
