(* ===== verification/Text_Nodes.thy ===== *)
theory Text_Nodes
  imports Engine
begin

text \<open>
  The two text generators (\<open>src/__init__.py\<close>, lines 82--133).
  \<open>moondream2_Caption.caption\<close> maps the node's \<open>"long"\<close> option to the engine's
  \<open>"normal"\<close>, calls \<open>model.caption(md2_image, length, stream=False,
  settings={"max_tokens": max_tokens})\<close> and returns \<open>result["caption"]\<close>;
  \<open>moondream2_Query.caption\<close> (the query node's method is also named \<open>caption\<close>) calls
  \<open>model.query\<close> with the question and returns \<open>result["answer"]\<close>. An exception of the
  engine propagates; a result without the key raises \<open>KeyError\<close>. Both are pure: they
  read the engine, never the world.
\<close>

definition length_options :: "string list" where
  "length_options = [''short'', ''long'']"

definition default_max_tokens :: int where
  "default_max_tokens = 512"

definition default_question :: string where
  "default_question = ''What is this?''"

definition caption_length :: "string \<Rightarrow> string" where
  "caption_length length_opt = (if length_opt = ''long'' then ''normal'' else length_opt)"

definition caption :: "('img, 'enc) vl_engine \<Rightarrow> vl_model \<Rightarrow> 'enc \<Rightarrow> string \<Rightarrow> int \<Rightarrow> py_error + string" where
  "caption eng model md2_image length_opt max_tokens =
     (case eng_caption eng model md2_image (caption_length length_opt) False [''max_tokens'' \<mapsto> max_tokens] of
        Inl e \<Rightarrow> Inl e
      | Inr result \<Rightarrow> getitem result ''caption'')"

definition query_caption :: "('img, 'enc) vl_engine \<Rightarrow> vl_model \<Rightarrow> 'enc \<Rightarrow> string \<Rightarrow> int \<Rightarrow> py_error + string" where
  "query_caption eng model md2_image question max_tokens =
     (case eng_query eng model md2_image question False [''max_tokens'' \<mapsto> max_tokens] of
        Inl e \<Rightarrow> Inl e
      | Inr result \<Rightarrow> getitem result ''answer'')"

subsection \<open>Shared facts\<close>

lemma caption_length_cases:
  "caption_length ''long'' = ''normal''" "caption_length ''short'' = ''short''"
  by (simp_all add: caption_length_def)

lemma caption_engine_Inr:
  "eng_caption eng m e (caption_length l) False [''max_tokens'' \<mapsto> mt] = Inr r \<Longrightarrow>
   caption eng m e l mt = getitem r ''caption''"
  by (simp add: caption_def)

subsection \<open>Properties\<close>

text \<open>
  C7. The caption node calls the engine once per invocation, non-streaming, with the
  token budget as its only setting, and with \<open>"long"\<close> translated to the engine's
  \<open>"normal"\<close> while \<open>"short"\<close> passes unchanged; it returns exactly the engine's
  \<open>caption\<close> field.
\<close>

theorem caption_options:
  assumes "eng_caption eng m e ''normal'' False [''max_tokens'' \<mapsto> mt] = Inr r1"
    and "eng_caption eng m e ''short'' False [''max_tokens'' \<mapsto> mt] = Inr r2"
  shows "caption eng m e ''long'' mt = getitem r1 ''caption'' \<and>
         caption eng m e ''short'' mt = getitem r2 ''caption''"
  using assms caption_engine_Inr [of eng m e "''long''" mt r1] caption_engine_Inr [of eng m e "''short''" mt r2]
  by (simp add: caption_length_cases)

theorem caption_options_witness:
  "eng_caption demo_engine \<lparr>model_path = [], model_weights = []\<rparr> [7] ''normal'' False [''max_tokens'' \<mapsto> 512]
     = Inr [''caption'' \<mapsto> ''a cat'', ''length'' \<mapsto> ''normal''] \<and>
   eng_caption demo_engine \<lparr>model_path = [], model_weights = []\<rparr> [7] ''short'' False [''max_tokens'' \<mapsto> 512]
     = Inr [''caption'' \<mapsto> ''a cat'', ''length'' \<mapsto> ''short''] \<and>
   caption demo_engine \<lparr>model_path = [], model_weights = []\<rparr> [7] ''long'' 512 = Inr ''a cat'' \<and>
   caption demo_engine \<lparr>model_path = [], model_weights = []\<rparr> [7] ''short'' 512 = Inr ''a cat''"
proof -
  have e: "eng_caption demo_engine \<lparr>model_path = [], model_weights = []\<rparr> [7] ''normal'' False [''max_tokens'' \<mapsto> 512]
       = Inr [''caption'' \<mapsto> ''a cat'', ''length'' \<mapsto> ''normal'']"
    "eng_caption demo_engine \<lparr>model_path = [], model_weights = []\<rparr> [7] ''short'' False [''max_tokens'' \<mapsto> 512]
       = Inr [''caption'' \<mapsto> ''a cat'', ''length'' \<mapsto> ''short'']"
    by (simp_all add: demo_engine_def)
  show ?thesis
    using e caption_options [OF e] by simp
qed

text \<open>
  C26. The caption node does not check the engine's result: a result without a
  \<open>caption\<close> key raises \<open>KeyError('caption')\<close>, and an exception of the engine
  propagates unchanged.
\<close>

theorem caption_errors:
  "(eng_caption eng m e (caption_length l) False [''max_tokens'' \<mapsto> mt] = Inr r \<and> r ''caption'' = None \<longrightarrow>
      caption eng m e l mt = Inl (KeyError ''caption'')) \<and>
   (eng_caption eng m e (caption_length l) False [''max_tokens'' \<mapsto> mt] = Inl err \<longrightarrow>
      caption eng m e l mt = Inl err)"
  by (simp add: caption_def)

theorem caption_errors_witness:
  "caption (demo_engine\<lparr>eng_caption := (\<lambda>m e l s st. Inr Map.empty)\<rparr>) \<lparr>model_path = [], model_weights = []\<rparr> [7] ''short'' 512
     = Inl (KeyError ''caption'') \<and>
   caption (demo_engine\<lparr>eng_caption := (\<lambda>m e l s st. Inl (EngineError ''oom''))\<rparr>) \<lparr>model_path = [], model_weights = []\<rparr> [7] ''short'' 512
     = Inl (EngineError ''oom'')"
  using caption_errors [of "demo_engine\<lparr>eng_caption := (\<lambda>m e l s st. Inr Map.empty)\<rparr>"
      "\<lparr>model_path = [], model_weights = []\<rparr>" "[7]" "''short''" 512 Map.empty]
    caption_errors [of "demo_engine\<lparr>eng_caption := (\<lambda>m e l s st. Inl (EngineError ''oom''))\<rparr>"
      "\<lparr>model_path = [], model_weights = []\<rparr>" "[7]" "''short''" 512 _ "EngineError ''oom''"]
  by simp

text \<open>
  C21. The query node passes the question through unchanged, non-streaming, with the
  token budget as its only setting, and returns exactly the engine's \<open>answer\<close> field;
  a result without it raises \<open>KeyError('answer')\<close>.
\<close>

theorem query_answer:
  assumes "eng_query eng m e question False [''max_tokens'' \<mapsto> mt] = Inr r"
  shows "query_caption eng m e question mt =
           (case r ''answer'' of None \<Rightarrow> Inl (KeyError ''answer'') | Some a \<Rightarrow> Inr a)"
  using assms by (simp add: query_caption_def getitem_def)

theorem query_answer_witness:
  "eng_query demo_engine \<lparr>model_path = [], model_weights = []\<rparr> [7] ''What is this?'' False [''max_tokens'' \<mapsto> 512]
     = Inr [''answer'' \<mapsto> ''yes'', ''question'' \<mapsto> ''What is this?''] \<and>
   query_caption demo_engine \<lparr>model_path = [], model_weights = []\<rparr> [7] ''What is this?'' 512 = Inr ''yes''"
proof -
  have e: "eng_query demo_engine \<lparr>model_path = [], model_weights = []\<rparr> [7] ''What is this?'' False [''max_tokens'' \<mapsto> 512]
     = Inr [''answer'' \<mapsto> ''yes'', ''question'' \<mapsto> ''What is this?'']"
    by (simp add: demo_engine_def)
  show ?thesis
    using e query_answer [OF e] by simp
qed

end
