(* ===== verification/Registry.thy ===== *)
theory Registry
  imports Fetcher Text_Nodes
begin

text \<open>
  The interface the node pack declares to the host (\<open>src/__init__.py\<close>): each node class's
  \<open>INPUT_TYPES\<close> (the \<open>"required"\<close> inputs, in order, each a combo of options with a
  default or a typed socket with an optional default), \<open>RETURN_TYPES\<close>, \<open>RETURN_NAMES\<close>,
  \<open>FUNCTION\<close> (the name of the method the host calls) and \<open>CATEGORY\<close>, the methods the
  class defines, and the two registration dicts \<open>NODE_CLASS_MAPPINGS\<close> and
  \<open>NODE_DISPLAY_NAME_MAPPINGS\<close> as association lists in their source order.
  The well-formedness predicate \<open>registry_wf\<close> collects what the host relies on.
\<close>

datatype default_val = DefStr string | DefInt int

datatype input_spec =
    Combo "string list" string
  | Typed string "default_val option"

record node_class =
  INPUT_TYPES :: "(string \<times> input_spec) list"
  RETURN_TYPES :: "string list"
  RETURN_NAMES :: "string list"
  FUNCTION :: string
  CATEGORY :: string
  methods :: "string list"

definition moondream2_DownLoad :: node_class where
  "moondream2_DownLoad =
     \<lparr>INPUT_TYPES = [(''size'', Combo size_options ''2b''), (''quant'', Combo quant_options ''int8'')],
      RETURN_TYPES = [''moondream2''], RETURN_NAMES = [''model''],
      FUNCTION = ''load'', CATEGORY = ''moondream2'', methods = [''download'', ''load'']\<rparr>"

definition moondream2_Encode :: node_class where
  "moondream2_Encode =
     \<lparr>INPUT_TYPES = [(''model'', Typed ''moondream2'' None), (''image'', Typed ''IMAGE'' None)],
      RETURN_TYPES = [''MD2_IMAGE''], RETURN_NAMES = [''md2_image''],
      FUNCTION = ''encode'', CATEGORY = ''moondream2'', methods = [''encode'']\<rparr>"

definition moondream2_Caption :: node_class where
  "moondream2_Caption =
     \<lparr>INPUT_TYPES = [(''model'', Typed ''moondream2'' None), (''md2_image'', Typed ''MD2_IMAGE'' None),
                     (''length'', Combo length_options ''short''),
                     (''max_tokens'', Typed ''INT'' (Some (DefInt default_max_tokens)))],
      RETURN_TYPES = [''STRING''], RETURN_NAMES = [''caption''],
      FUNCTION = ''caption'', CATEGORY = ''moondream2'', methods = [''caption'']\<rparr>"

definition moondream2_Query :: node_class where
  "moondream2_Query =
     \<lparr>INPUT_TYPES = [(''model'', Typed ''moondream2'' None), (''md2_image'', Typed ''MD2_IMAGE'' None),
                     (''question'', Typed ''STRING'' (Some (DefStr default_question))),
                     (''max_tokens'', Typed ''INT'' (Some (DefInt default_max_tokens)))],
      RETURN_TYPES = [''STRING''], RETURN_NAMES = [''answer''],
      FUNCTION = ''caption'', CATEGORY = ''moondream2'', methods = [''caption'']\<rparr>"

definition NODE_CLASS_MAPPINGS :: "(string \<times> node_class) list" where
  "NODE_CLASS_MAPPINGS =
     [(''moondream2_DownLoad'', moondream2_DownLoad), (''moondream2_Encode'', moondream2_Encode),
      (''moondream2_Caption'', moondream2_Caption), (''moondream2_Query'', moondream2_Query)]"

definition NODE_DISPLAY_NAME_MAPPINGS :: "(string \<times> string) list" where
  "NODE_DISPLAY_NAME_MAPPINGS =
     [(''moondream2_DownLoad'', ''moondream2 (Down)Load''), (''moondream2_Encode'', ''moondream2 Encode Image''),
      (''moondream2_Caption'', ''moondream2 Caption''), (''moondream2_Query'', ''moondream2 Query'')]"

subsection \<open>What the host relies on\<close>

text \<open>The socket types the host itself supplies; every other socket type must be produced by a node.\<close>

definition host_types :: "string list" where
  "host_types = [''IMAGE'', ''INT'', ''STRING'']"

text \<open>A combo's default is one of its options; a typed default has the socket's type.\<close>

fun default_ok :: "input_spec \<Rightarrow> bool" where
  "default_ok (Combo opts d) = (d \<in> set opts)"
| "default_ok (Typed t None) = True"
| "default_ok (Typed t (Some (DefInt i))) = (t = ''INT'')"
| "default_ok (Typed t (Some (DefStr s))) = (t = ''STRING'')"

text \<open>A typed socket can be fed: by the host, or by some registered node's output.\<close>

fun socket_fed :: "(string \<times> node_class) list \<Rightarrow> input_spec \<Rightarrow> bool" where
  "socket_fed reg (Combo opts d) = True"
| "socket_fed reg (Typed t d) = (t \<in> set host_types \<or> list_ex (\<lambda>kc. t \<in> set (RETURN_TYPES (snd kc))) reg)"

definition node_wf :: "(string \<times> node_class) list \<Rightarrow> node_class \<Rightarrow> bool" where
  "node_wf reg c =
     (distinct (map fst (INPUT_TYPES c)) \<and> list_all (\<lambda>ns. default_ok (snd ns)) (INPUT_TYPES c) \<and>
      list_all (\<lambda>ns. socket_fed reg (snd ns)) (INPUT_TYPES c) \<and>
      FUNCTION c \<in> set (methods c) \<and> length (RETURN_TYPES c) = length (RETURN_NAMES c))"

definition registry_wf :: "(string \<times> node_class) list \<Rightarrow> (string \<times> string) list \<Rightarrow> bool" where
  "registry_wf reg disp =
     (distinct (map fst reg) \<and> map fst disp = map fst reg \<and> list_all (\<lambda>kc. node_wf reg (snd kc)) reg)"

lemmas node_class_defs = moondream2_DownLoad_def moondream2_Encode_def moondream2_Caption_def
  moondream2_Query_def size_options_def quant_options_def length_options_def

subsection \<open>Properties\<close>

text \<open>
  C23. The declared interface is consistent: the class keys are distinct and are exactly
  the keys of the display-name dict, in the same order; in every class the input names
  are distinct, each combo default is one of its options and each typed default has its
  socket's type, every socket type is supplied by the host or produced by a registered
  node, \<open>FUNCTION\<close> names a method the class defines, and each return type has a name.
\<close>

theorem registry_consistent: "registry_wf NODE_CLASS_MAPPINGS NODE_DISPLAY_NAME_MAPPINGS"
  by (simp add: registry_wf_def node_wf_def NODE_CLASS_MAPPINGS_def NODE_DISPLAY_NAME_MAPPINGS_def
      node_class_defs host_types_def default_max_tokens_def default_question_def)

end
