(* ===== verification/Tensor.thy ===== *)
theory Tensor
  imports Prelude
begin

text \<open>
  The part of torch's tensor semantics the encode node relies on (not repository code;
  modelled from torch's documentation). A tensor is its shape and its elements in
  row-major order, as a contiguous torch tensor stores them. \<open>t[i]\<close> on a batch
  (\<open>batch_item\<close>) selects one frame and raises \<open>IndexError\<close> out of range;
  \<open>t.permute(p)\<close> (\<open>permute3\<close>) reorders the axes: the output's axis \<open>k\<close> is the
  input's axis \<open>p[k]\<close>, so element \<open>(i0, i1, i2)\<close> of the output is the input element
  whose index on axis \<open>p[k]\<close> is \<open>ik\<close>; a \<open>p\<close> that is not a permutation raises.
  \<open>numpy.transpose\<close> has the same semantics on arrays.
\<close>

record 'a tensor3 =
  t3_shape :: "nat \<times> nat \<times> nat"
  t3_data :: "'a list"

record 'a tensor4 =
  t4_shape :: "nat \<times> nat \<times> nat \<times> nat"
  t4_data :: "'a list"

definition wf3 :: "'a tensor3 \<Rightarrow> bool" where
  "wf3 t \<longleftrightarrow> (case t3_shape t of (a, b, c) \<Rightarrow> length (t3_data t) = a * b * c)"

definition wf4 :: "'a tensor4 \<Rightarrow> bool" where
  "wf4 t \<longleftrightarrow> (case t4_shape t of (n, a, b, c) \<Rightarrow> length (t4_data t) = n * (a * b * c))"

text \<open>The row-major list of \<open>f i j k\<close> over an \<open>A \<times> B \<times> C\<close> index grid.\<close>

definition grid3 :: "nat \<Rightarrow> nat \<Rightarrow> nat \<Rightarrow> (nat \<Rightarrow> nat \<Rightarrow> nat \<Rightarrow> 'a) \<Rightarrow> 'a list" where
  "grid3 A B C f = concat (map (\<lambda>i. concat (map (\<lambda>j. map (f i j) [0..<C]) [0..<B])) [0..<A])"

definition flat3 :: "nat \<times> nat \<times> nat \<Rightarrow> nat \<Rightarrow> nat \<Rightarrow> nat \<Rightarrow> nat" where
  "flat3 s i j k = (case s of (a, b, c) \<Rightarrow> (i * b + j) * c + k)"

fun sel3 :: "nat \<times> nat \<times> nat \<Rightarrow> nat \<Rightarrow> nat" where
  "sel3 (a, b, c) k = (if k = 0 then a else if k = 1 then b else c)"

definition is_perm3 :: "nat \<times> nat \<times> nat \<Rightarrow> bool" where
  "is_perm3 p \<longleftrightarrow> p \<in> set [(0, 1, 2), (0, 2, 1), (1, 0, 2), (1, 2, 0), (2, 0, 1), (2, 1, 0)]"

definition permute3 :: "nat \<times> nat \<times> nat \<Rightarrow> 'a tensor3 \<Rightarrow> py_error + 'a tensor3" where
  "permute3 p t =
     (if \<not> is_perm3 p then Inl (RuntimeError ''permute: dims is not a permutation'')
      else
        let s = t3_shape t;
            src = (\<lambda>i0 i1 i2 m. if sel3 p 0 = m then i0 else if sel3 p 1 = m then i1 else i2)
        in Inr \<lparr>t3_shape = (sel3 s (sel3 p 0), sel3 s (sel3 p 1), sel3 s (sel3 p 2)),
                t3_data = grid3 (sel3 s (sel3 p 0)) (sel3 s (sel3 p 1)) (sel3 s (sel3 p 2))
                  (\<lambda>i0 i1 i2. t3_data t ! flat3 s (src i0 i1 i2 0) (src i0 i1 i2 1) (src i0 i1 i2 2))\<rparr>)"

definition batch_item :: "'a tensor4 \<Rightarrow> nat \<Rightarrow> py_error + 'a tensor3" where
  "batch_item t i =
     (case t4_shape t of (n, a, b, c) \<Rightarrow>
        if i < n then Inr \<lparr>t3_shape = (a, b, c), t3_data = take (a * b * c) (drop (i * (a * b * c)) (t4_data t))\<rparr>
        else Inl IndexError)"

subsection \<open>The index grid\<close>

lemma length_grid3 [simp]: "length (grid3 A B C f) = A * B * C"
proof -
  have "\<And>i. length (concat (map (\<lambda>j. map (f i j) [0..<C]) [0..<B])) = B * C"
    by (rule length_concat_uniform) simp
  then show ?thesis
    by (simp add: grid3_def length_concat_uniform mult.assoc)
qed

lemma nth_grid3:
  assumes "n < A * B * C"
  shows "grid3 A B C f ! n = f (n div (B * C)) (n div C mod B) (n mod C)"
proof -
  have inner: "\<And>i. length (concat (map (\<lambda>j. map (f i j) [0..<C]) [0..<B])) = B * C"
    by (rule length_concat_uniform) simp
  have Cpos: "0 < C"
    using assms by (cases "C = 0") auto
  have "grid3 A B C f ! n = concat (map (\<lambda>j. map (f (n div (B * C)) j) [0..<C]) [0..<B]) ! (n mod (B * C))"
    unfolding grid3_def using assms inner by (subst nth_concat_uniform) (simp_all add: mult.assoc)
  also have "\<dots> = f (n div (B * C)) (n mod (B * C) div C) (n mod (B * C) mod C)"
  proof (rule trans [OF nth_concat_uniform])
    show "n mod (B * C) < B * C"
      using assms by (metis mod_less_divisor mult_eq_0_iff not_gr0 not_less_zero mult.assoc)
  qed (use Cpos in simp_all)
  also have "n mod (B * C) div C = n div C mod B"
  proof -
    have "n mod (C * B) = C * (n div C mod B) + n mod C"
      by (rule mod_mult2_eq)
    then show ?thesis
      using Cpos by (simp add: mult.commute)
  qed
  also have "n mod (B * C) mod C = n mod C"
    by (simp add: mod_mod_cancel)
  finally show ?thesis .
qed

text \<open>A list is the grid of its own row-major reads.\<close>

lemma grid3_self:
  assumes "length d = A * B * C"
  shows "grid3 A B C (\<lambda>i j k. d ! ((i * B + j) * C + k)) = d"
proof (rule nth_equalityI)
  show "length (grid3 A B C (\<lambda>i j k. d ! ((i * B + j) * C + k))) = length d"
    using assms by simp
next
  fix n
  assume "n < length (grid3 A B C (\<lambda>i j k. d ! ((i * B + j) * C + k)))"
  then have n: "n < A * B * C" by simp
  have "n div (B * C) * B + n div C mod B = n div C"
    by (metis div_mult2_eq div_mult_mod_eq mult.commute)
  then have "(n div (B * C) * B + n div C mod B) * C + n mod C = n"
    by simp
  then show "grid3 A B C (\<lambda>i j k. d ! ((i * B + j) * C + k)) ! n = d ! n"
    using n by (simp add: nth_grid3)
qed

lemma flat_index_bound:
  fixes a b c A B C :: nat
  assumes "a < A" "b < B" "c < C"
  shows "(a * B + b) * C + c < A * B * C"
proof -
  have "Suc a * B \<le> A * B"
    using assms(1) by (intro mult_le_mono1) simp
  then have "a * B + b < A * B"
    using assms(2) by simp
  then have "Suc (a * B + b) * C \<le> A * B * C"
    by (intro mult_le_mono1) simp
  moreover have "(a * B + b) * C + c < Suc (a * B + b) * C"
    using assms(3) by simp
  ultimately show ?thesis
    by linarith
qed

lemma nth_grid3_flat:
  fixes a b c A B C :: nat
  assumes "a < A" "b < B" "c < C"
  shows "grid3 A B C f ! ((a * B + b) * C + c) = f a b c"
proof -
  let ?n = "(a * B + b) * C + c"
  have dC: "?n div C = a * B + b" and mC: "?n mod C = c"
    using assms(3) by simp_all
  have "?n div (B * C) = a"
    using dC assms(2) by (simp add: div_mult2_eq [of ?n C B, simplified mult.commute [of C B]])
  moreover have "?n div C mod B = b"
    using dC assms(2) by simp
  ultimately show ?thesis
    using nth_grid3 [OF flat_index_bound [OF assms], of f] mC by simp
qed

lemma grid3_cong:
  "(\<And>i j k. i < A \<Longrightarrow> j < B \<Longrightarrow> k < C \<Longrightarrow> f i j k = g i j k) \<Longrightarrow> grid3 A B C f = grid3 A B C g"
  unfolding grid3_def by (auto intro!: arg_cong [where f = concat] map_cong)

subsection \<open>The two permutations of the encode node\<close>

text \<open>\<open>image[0].permute(2, 0, 1)\<close>: height-width-channel to channel-height-width.\<close>

lemma permute3_201:
  "t3_shape t = (h, w, c) \<Longrightarrow>
   permute3 (2, 0, Suc 0) t =
     Inr \<lparr>t3_shape = (c, h, w), t3_data = grid3 c h w (\<lambda>k i j. t3_data t ! ((i * w + j) * c + k))\<rparr>"
  by (simp add: permute3_def is_perm3_def flat3_def insert_commute)

text \<open>\<open>np.transpose(pic, (1, 2, 0))\<close>: channel-height-width back to height-width-channel.\<close>

lemma permute3_120:
  "t3_shape u = (c, h, w) \<Longrightarrow>
   permute3 (Suc 0, 2, 0) u =
     Inr \<lparr>t3_shape = (h, w, c), t3_data = grid3 h w c (\<lambda>i j k. t3_data u ! ((k * h + i) * w + j))\<rparr>"
  by (simp add: permute3_def is_perm3_def flat3_def insert_commute)

lemma permute_201_120_data:
  assumes "length d = h * w * c"
  shows "grid3 h w c (\<lambda>i j k. grid3 c h w (\<lambda>k i j. d ! ((i * w + j) * c + k)) ! ((k * h + i) * w + j)) = d"
proof -
  have "grid3 h w c (\<lambda>i j k. grid3 c h w (\<lambda>k i j. d ! ((i * w + j) * c + k)) ! ((k * h + i) * w + j))
      = grid3 h w c (\<lambda>i j k. d ! ((i * w + j) * c + k))"
    by (rule grid3_cong) (simp add: nth_grid3_flat)
  also have "\<dots> = d"
    using assms by (rule grid3_self)
  finally show ?thesis .
qed

lemma perm3_prod:
  assumes "is_perm3 p"
  shows "sel3 (a, b, c) (sel3 p 0) * sel3 (a, b, c) (sel3 p 1) * sel3 (a, b, c) (sel3 p 2) = a * b * c"
  using assms by (auto simp: is_perm3_def mult_ac)

subsection \<open>Permutations\<close>

text \<open>
  Well-formedness (the data has as many elements as the shape says) is the type
  invariant of tensors: every permutation keeps it.
\<close>

lemma permute3_wf:
  assumes "wf3 t" and "permute3 p t = Inr u"
  shows "wf3 u"
proof -
  obtain a b c where s: "t3_shape t = (a, b, c)"
    by (cases "t3_shape t") auto
  from assms(2) have "is_perm3 p"
    by (simp add: permute3_def split: if_splits)
  then show ?thesis
    using assms perm3_prod [of p a b c] s
    by (auto simp: permute3_def wf3_def Let_def mult.assoc)
qed

text \<open>
  The node's \<open>permute(2, 0, 1)\<close> and the \<open>transpose(1, 2, 0)\<close> inside
  \<open>to_pil_image\<close> are inverse: on a well-formed frame, the second undoes the first, so
  the image reaches the encoder in the frame's own height-width-channel layout.
\<close>

lemma permute_roundtrip:
  assumes "wf3 t"
  shows "(case permute3 (2, 0, 1) t of Inl e \<Rightarrow> Inl e | Inr u \<Rightarrow> permute3 (1, 2, 0) u) = Inr t"
proof -
  obtain h w c where s: "t3_shape t = (h, w, c)"
    by (cases "t3_shape t") auto
  with assms have len: "length (t3_data t) = h * w * c"
    by (simp add: wf3_def)
  show ?thesis
    using s permute_201_120_data [OF len] by (simp add: permute3_201 permute3_120)
qed

end
