(* ===== verification/Pil.thy ===== *)
theory Pil
  imports Tensor
begin

text \<open>
  torchvision's \<open>to_pil_image\<close> on a float tensor (not repository code; modelled from
  torchvision's source as the encode node calls it): more than four channels raise
  \<open>ValueError\<close>; the values are scaled by 255 and converted with \<open>.byte()\<close>
  (truncation toward zero, then the low eight bits); the array is transposed back with
  \<open>np.transpose(pic, (1, 2, 0))\<close>; the PIL mode follows the channel count (1 \<open>L\<close>,
  2 \<open>LA\<close>, 4 \<open>RGBA\<close>, otherwise \<open>RGB\<close>), and \<open>Image.fromarray\<close> rejects an image with no
  channel. Pixel values are exact rationals here: the float32 rounding of \<open>x * 255\<close> is
  not modelled.
\<close>

datatype pil_mode = Mode_L | Mode_LA | Mode_RGB | Mode_RGBA

record pil_image =
  pil_mode :: pil_mode
  pil_size :: "nat \<times> nat"
  pil_bytes :: bytes

definition trunc_rat :: "rat \<Rightarrow> int" where
  "trunc_rat q = (if 0 \<le> q then \<lfloor>q\<rfloor> else - \<lfloor>- q\<rfloor>)"

text \<open>\<open>pic.mul(255).byte()\<close> on one element.\<close>

definition float_to_byte :: "rat \<Rightarrow> byte" where
  "float_to_byte x = word_of_int (trunc_rat (x * 255))"

definition channel_mode :: "nat \<Rightarrow> pil_mode" where
  "channel_mode c = (if c = 1 then Mode_L else if c = 2 then Mode_LA else if c = 4 then Mode_RGBA else Mode_RGB)"

definition to_pil_image :: "rat tensor3 \<Rightarrow> py_error + pil_image" where
  "to_pil_image pic =
     (case t3_shape pic of (c, h, w) \<Rightarrow>
        if 4 < c then Inl (ValueError ''pic should not have > 4 channels'')
        else
          (case permute3 (1, 2, 0) \<lparr>t3_shape = (c, h, w), t3_data = map float_to_byte (t3_data pic)\<rparr> of
             Inl e \<Rightarrow> Inl e
           | Inr npimg \<Rightarrow>
               if c = 0 then Inl (ValueError ''not enough image data'')
               else Inr \<lparr>pil_mode = channel_mode c, pil_size = (w, h), pil_bytes = t3_data npimg\<rparr>))"

subsection \<open>Byte conversion\<close>

lemma trunc_rat_nonneg: "0 \<le> q \<Longrightarrow> trunc_rat q = \<lfloor>q\<rfloor>"
  by (simp add: trunc_rat_def)

text \<open>
  A pixel value in \<open>[0, 1]\<close> becomes the byte \<open>floor(255 x)\<close>, between 0 and 255:
  on the range ComfyUI images use, the conversion does not wrap.
\<close>

lemma float_to_byte_range:
  assumes "0 \<le> x" and "x \<le> 1"
  shows "unat (float_to_byte x) = nat \<lfloor>x * 255\<rfloor> \<and> nat \<lfloor>x * 255\<rfloor> \<le> 255"
proof -
  have lo: "0 \<le> \<lfloor>x * 255\<rfloor>"
    using assms(1) by simp
  have "x * 255 \<le> 1 * 255"
    using assms(2) by (intro mult_right_mono) simp_all
  then have "\<lfloor>x * 255\<rfloor> \<le> \<lfloor>255 :: rat\<rfloor>"
    by (intro floor_mono) simp
  then have hi: "\<lfloor>x * 255\<rfloor> \<le> 255"
    by simp
  have "unat (word_of_int \<lfloor>x * 255\<rfloor> :: byte) = nat (\<lfloor>x * 255\<rfloor> mod 2 ^ 8)"
    by (simp add: unat_eq_nat_uint uint_word_of_int_eq take_bit_eq_mod)
  also have "\<lfloor>x * 255\<rfloor> mod 2 ^ 8 = \<lfloor>x * 255\<rfloor>"
    using lo hi by simp
  finally have eq: "unat (word_of_int \<lfloor>x * 255\<rfloor> :: byte) = nat \<lfloor>x * 255\<rfloor>" .
  have "nat \<lfloor>x * 255\<rfloor> \<le> nat 255"
    using hi by (rule nat_mono)
  then have hi': "nat \<lfloor>x * 255\<rfloor> \<le> 255"
    by simp
  have "float_to_byte x = word_of_int \<lfloor>x * 255\<rfloor>"
    using assms(1) by (simp add: float_to_byte_def trunc_rat_nonneg)
  with eq hi' show ?thesis
    by simp
qed

text \<open>
  Outside \<open>[0, 1]\<close> the conversion wraps around: a slightly over-exposed value
  \<open>1.01\<close> becomes the nearly black byte 1, and a slightly negative \<open>-0.01\<close> the nearly
  white byte 254. Nothing in the node clamps its input.
\<close>

lemma float_to_byte_wraps:
  "float_to_byte (101 / 100) = 1" "float_to_byte (- (1 / 100)) = 254" "float_to_byte (1 / 2) = 127"
  by code_simp+

end
