(* ===== verification/Image_Adapter.thy ===== *)
theory Image_Adapter
  imports Pil Engine
begin

text \<open>
  The encode node \<open>moondream2_Encode.encode\<close> (\<open>src/__init__.py\<close>, lines 61--80):
  \<^verbatim>\<open>
    img = image[0].permute(2, 0, 1)
    img = torchvision.transforms.v2.functional.to_pil_image(img)
    return (model.encode_image(img), )
  \<close>
  A ComfyUI \<open>IMAGE\<close> is a float tensor of shape batch-height-width-channel. The node
  takes the first frame, makes it channel-first, converts it to a PIL image and hands it
  to the engine. The main theorem says what the engine receives: the first frame's own
  pixels, in height-width-channel order, converted to bytes; the two transpositions
  cancel.
\<close>

definition encode :: "(pil_image, 'enc) vl_engine \<Rightarrow> vl_model \<Rightarrow> rat tensor4 \<Rightarrow> py_error + 'enc" where
  "encode eng model image_batch =
     (case batch_item image_batch 0 of
        Inl e \<Rightarrow> Inl e
      | Inr frame \<Rightarrow>
          (case permute3 (2, 0, 1) frame of
             Inl e \<Rightarrow> Inl e
           | Inr img \<Rightarrow>
               (case to_pil_image img of
                  Inl e \<Rightarrow> Inl e
                | Inr pil \<Rightarrow> encode_image eng model pil)))"

text \<open>An engine over PIL images for concrete evaluation: it encodes an image as its bytes.\<close>

definition pil_demo_engine :: "(pil_image, bytes) vl_engine" where
  "pil_demo_engine =
     \<lparr>accepts_model = (\<lambda>b. True),
      encode_image = (\<lambda>m img. Inr (pil_bytes img)),
      eng_caption = (\<lambda>m e len stream st. Inr [''caption'' \<mapsto> ''a cat'']),
      eng_query = (\<lambda>m e q stream st. Inr [''answer'' \<mapsto> ''yes''])\<rparr>"

subsection \<open>The frame's way to the encoder\<close>

lemma batch_item_first:
  "t4_shape image_batch = (n, h, w, c) \<Longrightarrow> 0 < n \<Longrightarrow>
   batch_item image_batch 0 = Inr \<lparr>t3_shape = (h, w, c), t3_data = take (h * w * c) (t4_data image_batch)\<rparr>"
  by (simp add: batch_item_def)

lemma map_grid3: "map f (grid3 A B C F) = grid3 A B C (\<lambda>i j k. f (F i j k))"
  by (simp add: grid3_def map_concat comp_def)

lemma first_frame_length:
  "wf4 image_batch \<Longrightarrow> t4_shape image_batch = (n, h, w, c) \<Longrightarrow> 0 < n \<Longrightarrow>
   length (take (h * w * c) (t4_data image_batch)) = h * w * c"
proof -
  assume "wf4 image_batch" "t4_shape image_batch = (n, h, w, c)" "0 < n"
  then have "length (t4_data image_batch) = n * (h * w * c)" and "0 < n"
    by (simp_all add: wf4_def)
  then have "h * w * c \<le> length (t4_data image_batch)"
    by (cases n) simp_all
  then show ?thesis
    by (simp add: min_absorb2)
qed

text \<open>
  A well-formed frame with one to four channels, made channel-first and converted,
  is the PIL image of its own bytes.
\<close>

lemma frame_to_pil:
  assumes s: "t3_shape frame = (h, w, c)" and len: "length (t3_data frame) = h * w * c"
    and c: "0 < c" "c \<le> 4"
  shows "(case permute3 (2, 0, 1) frame of Inl e \<Rightarrow> Inl e | Inr img \<Rightarrow> to_pil_image img) =
     Inr \<lparr>pil_mode = channel_mode c, pil_size = (w, h), pil_bytes = map float_to_byte (t3_data frame)\<rparr>"
proof -
  let ?d = "t3_data frame"
  let ?g = "grid3 c h w (\<lambda>k i j. ?d ! ((i * w + j) * c + k))"
  have g: "grid3 h w c (\<lambda>i j k. map float_to_byte ?g ! ((k * h + i) * w + j)) = map float_to_byte ?d"
  proof -
    have "grid3 h w c (\<lambda>i j k. map float_to_byte ?g ! ((k * h + i) * w + j))
        = grid3 h w c (\<lambda>i j k. float_to_byte (?g ! ((k * h + i) * w + j)))"
      by (rule grid3_cong) (simp add: flat_index_bound)
    also have "\<dots> = map float_to_byte (grid3 h w c (\<lambda>i j k. ?g ! ((k * h + i) * w + j)))"
      by (simp add: map_grid3)
    also have "\<dots> = map float_to_byte ?d"
      using len by (simp add: permute_201_120_data)
    finally show ?thesis .
  qed
  show ?thesis
    using s c g by (simp add: permute3_201 permute3_120 to_pil_image_def)
qed

subsection \<open>Properties\<close>

text \<open>
  C6. What the encoder receives: for a well-formed, non-empty batch with one to four
  channels, the node hands \<open>encode_image\<close> the PIL image of the first frame's pixels in
  their own height-width-channel order, each converted to a byte, with the size
  \<open>(width, height)\<close> and the mode of its channel count.
\<close>

theorem encode_first_frame_pixels:
  assumes "wf4 image_batch" and "t4_shape image_batch = (n, h, w, c)" and "0 < n" and "0 < c" and "c \<le> 4"
  shows "encode eng m image_batch =
     encode_image eng m \<lparr>pil_mode = channel_mode c, pil_size = (w, h),
                         pil_bytes = map float_to_byte (take (h * w * c) (t4_data image_batch))\<rparr>"
proof -
  let ?frame = "\<lparr>t3_shape = (h, w, c), t3_data = take (h * w * c) (t4_data image_batch)\<rparr>"
  have len: "length (t3_data ?frame) = h * w * c"
    using first_frame_length [OF assms(1-3)] by simp
  have "(case permute3 (2, 0, 1) ?frame of Inl e \<Rightarrow> Inl e | Inr img \<Rightarrow> to_pil_image img) =
     Inr \<lparr>pil_mode = channel_mode c, pil_size = (w, h), pil_bytes = map float_to_byte (t3_data ?frame)\<rparr>"
    using len assms(4,5) by (intro frame_to_pil) simp_all
  then show ?thesis
    using assms(2,3) by (auto simp add: encode_def batch_item_first split: sum.splits)
qed

theorem encode_first_frame_pixels_witness:
  "wf4 \<lparr>t4_shape = (2, 1, 2, 3), t4_data = [0, 1, 1, 0, 1, 0, 1, 1, 1, 1, 1, 1 :: rat]\<rparr> \<and>
   encode pil_demo_engine \<lparr>model_path = [], model_weights = []\<rparr>
     \<lparr>t4_shape = (2, 1, 2, 3), t4_data = [0, 1, 1, 0, 1, 0, 1, 1, 1, 1, 1, 1]\<rparr> = Inr [0, 255, 255, 0, 255, 0]"
proof -
  have w: "wf4 \<lparr>t4_shape = (2, 1, 2, 3), t4_data = [0, 1, 1, 0, 1, 0, 1, 1, 1, 1, 1, 1 :: rat]\<rparr>"
    by (simp add: wf4_def)
  have b: "float_to_byte 0 = 0" "float_to_byte 1 = 255"
    by (simp_all add: float_to_byte_def trunc_rat_def)
  show ?thesis
    using w encode_first_frame_pixels [OF w, of 2 1 2 3 pil_demo_engine "\<lparr>model_path = [], model_weights = []\<rparr>"]
    by (simp add: pil_demo_engine_def b)
qed

text \<open>
  C24. Only the first frame matters: two batches whose first frames have the same
  shape and the same pixels encode the same, whatever the other frames hold.
\<close>

theorem encode_uses_first_frame:
  assumes "t4_shape i1 = (n1, h, w, c)" and "t4_shape i2 = (n2, h, w, c)" and "0 < n1" and "0 < n2"
    and "take (h * w * c) (t4_data i1) = take (h * w * c) (t4_data i2)"
  shows "encode eng m i1 = encode eng m i2"
  using assms by (simp add: encode_def batch_item_first)

theorem encode_uses_first_frame_witness:
  "encode pil_demo_engine \<lparr>model_path = [], model_weights = []\<rparr>
     \<lparr>t4_shape = (2, 1, 1, 1), t4_data = [1, 0]\<rparr> =
   encode pil_demo_engine \<lparr>model_path = [], model_weights = []\<rparr>
     \<lparr>t4_shape = (1, 1, 1, 1), t4_data = [1]\<rparr>"
  using encode_uses_first_frame [of "\<lparr>t4_shape = (2, 1, 1, 1), t4_data = [1, 0 :: rat]\<rparr>" 2 1 1 1
      "\<lparr>t4_shape = (1, 1, 1, 1), t4_data = [1 :: rat]\<rparr>" 1 pil_demo_engine "\<lparr>model_path = [], model_weights = []\<rparr>"]
  by simp

text \<open>
  C25. The node's errors: an empty batch raises \<open>IndexError\<close> at \<open>image[0]\<close>; more
  than four channels raise \<open>ValueError\<close> in \<open>to_pil_image\<close>; a frame with no channel
  is rejected by PIL. The engine is not called in any of these cases.
\<close>

theorem encode_errors:
  "(t4_shape image_batch = (0, h, w, c) \<longrightarrow> encode eng m image_batch = Inl IndexError) \<and>
   (t4_shape image_batch = (Suc n, h, w, c) \<and> 4 < c \<longrightarrow>
      encode eng m image_batch = Inl (ValueError ''pic should not have > 4 channels'')) \<and>
   (t4_shape image_batch = (Suc n, h, w, 0) \<longrightarrow>
      encode eng m image_batch = Inl (ValueError ''not enough image data''))"
  by (simp add: encode_def batch_item_def permute3_201 permute3_120 to_pil_image_def)

theorem encode_errors_witness:
  "encode pil_demo_engine \<lparr>model_path = [], model_weights = []\<rparr> \<lparr>t4_shape = (0, 1, 1, 3), t4_data = []\<rparr>
     = Inl IndexError \<and>
   encode pil_demo_engine \<lparr>model_path = [], model_weights = []\<rparr>
     \<lparr>t4_shape = (1, 1, 1, 5), t4_data = [0, 0, 0, 0, 0]\<rparr>
     = Inl (ValueError ''pic should not have > 4 channels'') \<and>
   encode pil_demo_engine \<lparr>model_path = [], model_weights = []\<rparr> \<lparr>t4_shape = (1, 1, 1, 0), t4_data = []\<rparr>
     = Inl (ValueError ''not enough image data'')"
  using encode_errors [of "\<lparr>t4_shape = (0, 1, 1, 3), t4_data = [] :: rat list\<rparr>" 1 1 3
      pil_demo_engine "\<lparr>model_path = [], model_weights = []\<rparr>"]
    encode_errors [of "\<lparr>t4_shape = (1, 1, 1, 5), t4_data = [0, 0, 0, 0, 0 :: rat]\<rparr>" 1 1 5
      pil_demo_engine "\<lparr>model_path = [], model_weights = []\<rparr>" 0]
    encode_errors [of "\<lparr>t4_shape = (1, 1, 1, 0), t4_data = [] :: rat list\<rparr>" 1 1 0
      pil_demo_engine "\<lparr>model_path = [], model_weights = []\<rparr>" 0]
  by simp

text \<open>
  Outside \<open>[0, 1]\<close> the node hands the encoder wrapped-around bytes: a slightly
  over-exposed value \<open>1.01\<close> becomes the nearly black byte 1 and a slightly negative
  \<open>-0.01\<close> the nearly white byte 254, whatever the engine; nothing in the node clamps.
\<close>

lemma encode_wraps:
  "encode eng m \<lparr>t4_shape = (1, 1, 1, 3), t4_data = [101 / 100, - 1 / 100, 1 / 2]\<rparr> =
   encode_image eng m \<lparr>pil_mode = Mode_RGB, pil_size = (1, 1), pil_bytes = [1, 254, 127]\<rparr>"
proof -
  have "(case permute3 (2, 0, 1) \<lparr>t3_shape = (1, 1, 3), t3_data = [101 / 100, - 1 / 100, 1 / 2 :: rat]\<rparr> of
      Inl e \<Rightarrow> Inl e | Inr img \<Rightarrow> to_pil_image img) =
     Inr \<lparr>pil_mode = channel_mode 3, pil_size = (1, 1), pil_bytes = map float_to_byte [101 / 100, - 1 / 100, 1 / 2]\<rparr>"
    using frame_to_pil [of "\<lparr>t3_shape = (1, 1, 3), t3_data = [101 / 100, - 1 / 100, 1 / 2 :: rat]\<rparr>" 1 1 3]
    by simp
  then show ?thesis
    by (auto simp: encode_def batch_item_first float_to_byte_wraps channel_mode_def split: sum.splits)
qed

end
