(* ===== verification/Workflow.thy ===== *)
theory Workflow
  imports Registry Image_Adapter
begin

text \<open>
  How the host runs the nodes (ComfyUI's executor, not repository code; modelled from its
  documented behaviour): values flowing on sockets, the host's validation of a node's
  inputs against \<open>INPUT_TYPES\<close>, the resolution of \<open>FUNCTION\<close> to a method of the class
  registered under the node's key and the binding of the inputs as keyword arguments
  (a \<open>node_call\<close>, the operations the nodes and the host agree on), the execution of a
  call by the repository's node methods, and a graph of nodes whose inputs are literals
  or links to earlier nodes' outputs, run in order.
\<close>

datatype 'enc node_value =
    VModel vl_model
  | VImage "rat tensor4"
  | VEnc 'enc
  | VStr string
  | VInt int

fun value_type :: "'enc node_value \<Rightarrow> string" where
  "value_type (VModel m) = ''moondream2''"
| "value_type (VImage i) = ''IMAGE''"
| "value_type (VEnc e) = ''MD2_IMAGE''"
| "value_type (VStr s) = ''STRING''"
| "value_type (VInt n) = ''INT''"

type_synonym 'enc kwargs = "string \<rightharpoonup> 'enc node_value"

text \<open>The host's input validation: a combo takes one of its options, a socket a value of its type.\<close>

fun input_ok :: "input_spec \<Rightarrow> 'enc node_value \<Rightarrow> bool" where
  "input_ok (Combo opts d) (VStr s) = (s \<in> set opts)"
| "input_ok (Combo opts d) v = False"
| "input_ok (Typed t d) v = (value_type v = t)"

definition inputs_valid :: "node_class \<Rightarrow> 'enc kwargs \<Rightarrow> bool" where
  "inputs_valid c kw =
     list_all (\<lambda>ns. case kw (fst ns) of None \<Rightarrow> False | Some v \<Rightarrow> input_ok (snd ns) v) (INPUT_TYPES c)"

text \<open>
  A resolved method call: \<open>getattr(obj, FUNCTION)(**kwargs)\<close> on the class registered
  under the key, one constructor per method of \<open>src/__init__.py\<close> the host can reach.
\<close>

datatype 'enc node_call =
    LoadCall string string
  | EncodeCall vl_model "rat tensor4"
  | CaptionCall vl_model 'enc string int
  | QueryCall vl_model 'enc string int

definition bind_args :: "string \<Rightarrow> string \<Rightarrow> 'enc kwargs \<Rightarrow> py_error + 'enc node_call" where
  "bind_args key fname kw =
     (if key = ''moondream2_DownLoad'' \<and> fname = ''load'' then
        (case (kw ''size'', kw ''quant'') of
           (Some (VStr s), Some (VStr q)) \<Rightarrow> Inr (LoadCall s q)
         | _ \<Rightarrow> Inl (TypeError ''load''))
      else if key = ''moondream2_DownLoad'' \<and> fname = ''download'' then Inl (TypeError ''download'')
      else if key = ''moondream2_Encode'' \<and> fname = ''encode'' then
        (case (kw ''model'', kw ''image'') of
           (Some (VModel m), Some (VImage i)) \<Rightarrow> Inr (EncodeCall m i)
         | _ \<Rightarrow> Inl (TypeError ''encode''))
      else if key = ''moondream2_Caption'' \<and> fname = ''caption'' then
        (case (kw ''model'', kw ''md2_image'', kw ''length'', kw ''max_tokens'') of
           (Some (VModel m), Some (VEnc e), Some (VStr l), Some (VInt mt)) \<Rightarrow> Inr (CaptionCall m e l mt)
         | _ \<Rightarrow> Inl (TypeError ''caption''))
      else if key = ''moondream2_Query'' \<and> fname = ''caption'' then
        (case (kw ''model'', kw ''md2_image'', kw ''question'', kw ''max_tokens'') of
           (Some (VModel m), Some (VEnc e), Some (VStr qn), Some (VInt mt)) \<Rightarrow> Inr (QueryCall m e qn mt)
         | _ \<Rightarrow> Inl (TypeError ''caption''))
      else Inl (AttributeError fname))"

text \<open>A pure node's result as a statement that leaves the world as it is.\<close>

definition of_sum :: "py_error + 'a \<Rightarrow> ('s, 'a) st" where
  "of_sum r = (\<lambda>s. (r, s))"

fun exec_call :: "(pil_image, 'enc) vl_engine \<Rightarrow> path \<Rightarrow> 'enc node_call \<Rightarrow> (world, 'enc node_value list) st" where
  "exec_call eng md (LoadCall s q) = bind_st (load eng md s q) (\<lambda>m. ret [VModel m])"
| "exec_call eng md (EncodeCall m i) = of_sum (map_sum id (\<lambda>e. [VEnc e]) (encode eng m i))"
| "exec_call eng md (CaptionCall m e l mt) = of_sum (map_sum id (\<lambda>c. [VStr c]) (caption eng m e l mt))"
| "exec_call eng md (QueryCall m e qn mt) = of_sum (map_sum id (\<lambda>a. [VStr a]) (query_caption eng m e qn mt))"

text \<open>One node run by the host: look the key up, validate, resolve the method, call it.\<close>

definition run_node :: "(pil_image, 'enc) vl_engine \<Rightarrow> path \<Rightarrow> string \<Rightarrow> 'enc kwargs \<Rightarrow> (world, 'enc node_value list) st" where
  "run_node eng md key kw =
     (case map_of NODE_CLASS_MAPPINGS key of
        None \<Rightarrow> throw (KeyError key)
      | Some c \<Rightarrow>
          if \<not> inputs_valid c kw then throw (ValueError ''Prompt outputs failed validation'')
          else (case bind_args key (FUNCTION c) kw of
                  Inl e \<Rightarrow> throw e
                | Inr call \<Rightarrow> exec_call eng md call))"

subsection \<open>Graphs\<close>

datatype 'enc arg = Lit "'enc node_value" | Link nat nat

fun arg_value :: "'enc node_value list list \<Rightarrow> 'enc arg \<Rightarrow> py_error + 'enc node_value" where
  "arg_value outs (Lit v) = Inr v"
| "arg_value outs (Link i j) =
     (if i < length outs \<and> j < length (outs ! i) then Inr (outs ! i ! j) else Inl (IndexError))"

fun resolve :: "'enc node_value list list \<Rightarrow> (string \<times> 'enc arg) list \<Rightarrow> py_error + 'enc kwargs" where
  "resolve outs [] = Inr Map.empty"
| "resolve outs ((n, a) # rest) =
     (case arg_value outs a of
        Inl e \<Rightarrow> Inl e
      | Inr v \<Rightarrow> (case resolve outs rest of Inl e \<Rightarrow> Inl e | Inr kw \<Rightarrow> Inr (kw(n \<mapsto> v))))"

text \<open>Nodes run in list order; each one's outputs are appended for later links.\<close>

fun run_graph :: "(pil_image, 'enc) vl_engine \<Rightarrow> path \<Rightarrow> (string \<times> (string \<times> 'enc arg) list) list \<Rightarrow>
    'enc node_value list list \<Rightarrow> (world, 'enc node_value list list) st" where
  "run_graph eng md [] outs = ret outs"
| "run_graph eng md ((key, args) # rest) outs =
     (case resolve outs args of
        Inl e \<Rightarrow> throw e
      | Inr kw \<Rightarrow> bind_st (run_node eng md key kw) (\<lambda>res. run_graph eng md rest (outs @ [res])))"

text \<open>
  The pack's intended workflow: load the 2b int8 model, encode an image with it, caption
  the encoding at length \<open>"long"\<close> with the default token budget.
\<close>

definition caption_graph :: "rat tensor4 \<Rightarrow> (string \<times> (string \<times> 'enc arg) list) list" where
  "caption_graph img =
     [(''moondream2_DownLoad'', [(''size'', Lit (VStr ''2b'')), (''quant'', Lit (VStr ''int8''))]),
      (''moondream2_Encode'', [(''model'', Link 0 0), (''image'', Lit (VImage img))]),
      (''moondream2_Caption'', [(''model'', Link 0 0), (''md2_image'', Link 1 0),
                                (''length'', Lit (VStr ''long'')), (''max_tokens'', Lit (VInt 512))])]"

subsection \<open>Facts\<close>

lemma of_sum_apply [simp]: "of_sum r s = (r, s)"
  by (simp add: of_sum_def)

lemma map_of_registry:
  "map_of NODE_CLASS_MAPPINGS ''moondream2_DownLoad'' = Some moondream2_DownLoad"
  "map_of NODE_CLASS_MAPPINGS ''moondream2_Encode'' = Some moondream2_Encode"
  "map_of NODE_CLASS_MAPPINGS ''moondream2_Caption'' = Some moondream2_Caption"
  "map_of NODE_CLASS_MAPPINGS ''moondream2_Query'' = Some moondream2_Query"
  by (simp_all add: NODE_CLASS_MAPPINGS_def)

lemma map_of_registry_cases:
  assumes "map_of NODE_CLASS_MAPPINGS key = Some c"
  obtains "key = ''moondream2_DownLoad''" "c = moondream2_DownLoad"
  | "key = ''moondream2_Encode''" "c = moondream2_Encode"
  | "key = ''moondream2_Caption''" "c = moondream2_Caption"
  | "key = ''moondream2_Query''" "c = moondream2_Query"
  using assms by (auto simp: NODE_CLASS_MAPPINGS_def split: if_splits)

text \<open>What a valid input of each kind is.\<close>

lemma input_ok_Combo [simp]: "input_ok (Combo opts d) v \<longleftrightarrow> (\<exists>s. v = VStr s \<and> s \<in> set opts)"
  by (cases v) auto

lemma value_type_iff [simp]:
  "value_type v = ''moondream2'' \<longleftrightarrow> (\<exists>m. v = VModel m)"
  "value_type v = ''IMAGE'' \<longleftrightarrow> (\<exists>i. v = VImage i)"
  "value_type v = ''MD2_IMAGE'' \<longleftrightarrow> (\<exists>e. v = VEnc e)"
  "value_type v = ''STRING'' \<longleftrightarrow> (\<exists>s. v = VStr s)"
  "value_type v = ''INT'' \<longleftrightarrow> (\<exists>n. v = VInt n)"
  by (cases v; simp)+

lemma kw_valid_Some: "(case kw n of None \<Rightarrow> False | Some v \<Rightarrow> P v) \<longleftrightarrow> (\<exists>v. kw n = Some v \<and> P v)"
  by (simp split: option.splits)

text \<open>Validated inputs bind to the parameters of the method \<open>FUNCTION\<close> names.\<close>

lemma valid_bind_args:
  assumes "map_of NODE_CLASS_MAPPINGS key = Some c" and "inputs_valid c kw"
  obtains (load) s q where "c = moondream2_DownLoad" "bind_args key (FUNCTION c) kw = Inr (LoadCall s q)"
  | (encode) m i where "c = moondream2_Encode" "bind_args key (FUNCTION c) kw = Inr (EncodeCall m i)"
  | (caption) m e l mt where "c = moondream2_Caption" "bind_args key (FUNCTION c) kw = Inr (CaptionCall m e l mt)"
  | (query) m e qn mt where "c = moondream2_Query" "bind_args key (FUNCTION c) kw = Inr (QueryCall m e qn mt)"
  using assms(1)
proof (cases rule: map_of_registry_cases)
  case 1
  then show ?thesis using assms(2) load
    by (auto simp: inputs_valid_def kw_valid_Some node_class_defs bind_args_def)
next
  case 2
  then show ?thesis using assms(2) encode
    by (auto simp: inputs_valid_def kw_valid_Some node_class_defs bind_args_def)
next
  case 3
  then show ?thesis using assms(2) caption
    by (auto simp: inputs_valid_def kw_valid_Some node_class_defs bind_args_def)
next
  case 4
  then show ?thesis using assms(2) query
    by (auto simp: inputs_valid_def kw_valid_Some node_class_defs bind_args_def)
qed

lemma map_sum_Inr_iff: "map_sum f g x = Inr y \<longleftrightarrow> (\<exists>z. x = Inr z \<and> y = g z)"
  by (cases x) auto

text \<open>A call's outputs: one value, of the type its class declares.\<close>

lemma exec_call_types:
  assumes "fst (exec_call eng md call w) = Inr outs"
  shows "map value_type outs =
     (case call of LoadCall s q \<Rightarrow> [''moondream2''] | EncodeCall m i \<Rightarrow> [''MD2_IMAGE'']
      | CaptionCall m e l mt \<Rightarrow> [''STRING''] | QueryCall m e qn mt \<Rightarrow> [''STRING''])"
  using assms
  by (cases call) (auto simp: bind_st_def map_sum_Inr_iff split: prod.splits sum.splits)

lemma run_node_call:
  "map_of NODE_CLASS_MAPPINGS key = Some c \<Longrightarrow> inputs_valid c kw \<Longrightarrow> bind_args key (FUNCTION c) kw = Inr call \<Longrightarrow>
   run_node eng md key kw = exec_call eng md call"
  by (simp add: run_node_def)

text \<open>The workflow graph run step by step: load, then the two pure nodes in the world load left.\<close>

lemma run_caption_graph:
  "run_graph eng md (caption_graph img) [] w =
     (case load eng md ''2b'' ''int8'' w of
        (Inl e, w') \<Rightarrow> (Inl e, w')
      | (Inr m, w') \<Rightarrow>
          (case encode eng m img of
             Inl e \<Rightarrow> (Inl e, w')
           | Inr x \<Rightarrow>
               (case caption eng m x ''long'' 512 of
                  Inl e \<Rightarrow> (Inl e, w')
                | Inr c \<Rightarrow> (Inr [[VModel m], [VEnc x], [VStr c]], w'))))"
  by (simp add: caption_graph_def run_node_def map_of_registry inputs_valid_def node_class_defs
      bind_args_def bind_st_def split: prod.splits sum.splits)

end
