(* ===== verification/Read_Loop.thy ===== *)
theory Read_Loop
  imports Stream_Copy
begin

text \<open>
  The copy loop of \<open>download\<close> as Python writes it (\<open>src/__init__.py\<close>, lines 36--38):
  \<^verbatim>\<open>
    read_chk = lambda: data.read(1024576)
    for chk in iter(read_chk, b""): mf.write(chk)
  \<close>
  \<open>iter(f, sentinel)\<close> calls \<open>f\<close> until it returns the sentinel; nothing in the loop
  itself bounds the number of calls. \<open>iter_copy\<close> is that loop over an arbitrary reader
  (a function from the reader's state to a chunk or an exception, and the next state),
  defined with \<open>partial_function (option)\<close> so that not returning would be \<open>None\<close>.
  The theorems: the loop returns for every reader, because every non-empty chunk it
  writes takes disk space and the disk is finite; and on the gzip reader it is the
  terminating \<open>copy_chunks\<close> of \<open>Stream_Copy\<close>.
\<close>

partial_function (option) iter_copy ::
  "('r \<Rightarrow> (py_error + bytes) \<times> 'r) \<Rightarrow> path \<Rightarrow> 'r \<Rightarrow> world \<Rightarrow> ((py_error + unit) \<times> world) option" where
  "iter_copy read_chk dest r w =
     (case read_chk r of
        (Inl e, r') \<Rightarrow> Some (Inl e, w)
      | (Inr chk, r') \<Rightarrow>
          if chk = [] then Some (Inr (), w)
          else (case fs_write dest chk w of
                  (Inl e, w') \<Rightarrow> Some (Inl e, w')
                | (Inr u, w') \<Rightarrow> iter_copy read_chk dest r' w'))"

subsection \<open>Facts\<close>

text \<open>A successful write of a non-empty chunk strictly shrinks the free space.\<close>

lemma fs_write_Inr_shrinks:
  assumes "fs_write p chk w = (Inr u, w')" and "chk \<noteq> []"
  shows "disk_free w' < disk_free w"
proof -
  from assms(1) have "length chk \<le> disk_free w" and "disk_free w' = disk_free w - length chk"
    by (auto simp: fs_write_def split: if_splits)
  moreover have "0 < length chk"
    using assms(2) by simp
  ultimately show ?thesis
    by linarith
qed

subsection \<open>Properties\<close>

text \<open>
  C10. The loop \<open>for chk in iter(read_chk, b""): mf.write(chk)\<close> returns, whatever the
  reader: each round either ends the loop (the sentinel, an exception of the reader or
  of the write) or writes a non-empty chunk, which takes free disk space.
\<close>

theorem iter_copy_terminates: "\<exists>y. iter_copy read_chk dest r w = Some y"
proof (induction "disk_free w" arbitrary: r w rule: less_induct)
  case less
  obtain res r' where rd: "read_chk r = (res, r')"
    by fastforce
  show ?case
  proof (cases res)
    case (Inl e)
    then show ?thesis
      using rd by (simp add: iter_copy.simps)
  next
    case (Inr chk)
    show ?thesis
    proof (cases "chk = []")
      case True
      then show ?thesis
        using rd Inr by (simp add: iter_copy.simps)
    next
      case False
      obtain wr w' where wr: "fs_write dest chk w = (wr, w')"
        by fastforce
      show ?thesis
      proof (cases wr)
        case (Inl e)
        then show ?thesis
          using rd Inr False wr by (simp add: iter_copy.simps)
      next
        case (Inr u)
        then have "disk_free w' < disk_free w"
          using wr False by (simp add: fs_write_Inr_shrinks)
        then obtain y where "iter_copy read_chk dest r' w' = Some y"
          using less by blast
        then show ?thesis
          using rd \<open>res = Inr chk\<close> False wr Inr by (simp add: iter_copy.simps)
      qed
    qed
  qed
qed

text \<open>
  On the gzip reader \<open>data.read(n)\<close>, the Python loop is the terminating
  \<open>copy_chunks\<close> the rest of the development reasons about: same result, same world.
\<close>

lemma iter_copy_gzip: "iter_copy (gz_read n) dest r w = Some (copy_chunks n dest r w)"
proof (induction n dest r w rule: copy_chunks.induct)
  case (1 n dest r w)
  show ?case
    using 1
    by (subst iter_copy.simps, subst copy_chunks.simps)
       (auto split: prod.splits sum.splits)
qed

end
