(* ===== verification/Loader_Runs.thy ===== *)
theory Loader_Runs
  imports Fetcher
begin

text \<open>
  Runs of the loader: any sequence of \<open>moondream2_DownLoad.load\<close> calls
  (\<open>src/__init__.py\<close>, lines 27--59), with any options and any outcome, as the
  reachability relation \<open>loads\<close>. Along every run the hub cache of the current commit
  keeps agreeing with the hub, every file at an artifact path holds a prefix of the
  decompressed hub content of that artifact (never bytes of another file), and a model
  whose file exists is never fetched again. Each is proved with Hoare triples
  (\<open>Prelude.hoare\<close>), one per library call, composed along the code.
\<close>

definition cache_coherent :: "world \<Rightarrow> bool" where
  "cache_coherent w \<longleftrightarrow>
     (\<forall>f b. hf_cache w (hub_commit w, f) = Some b \<longrightarrow> hub_files w f = Some b)"

text \<open>
  Every file at the path of an artifact holds a prefix of the decompressed content of
  that artifact's blob on the hub.
\<close>

definition artifacts_from_hub :: "path \<Rightarrow> world \<Rightarrow> bool" where
  "artifacts_from_hub md w \<longleftrightarrow>
     (\<forall>s q b. fs_files w (artifact_path md s q) = Some b \<longrightarrow>
        (\<exists>xs ok. hub_files w (model_file_name s q @ ''.gz'') = Some (GzStream xs ok) \<and> prefix b xs))"

definition grown_from :: "world \<Rightarrow> world \<Rightarrow> bool" where
  "grown_from w0 w \<longleftrightarrow>
     dom (fs_files w0) \<subseteq> dom (fs_files w) \<and> fs_dirs w0 \<subseteq> fs_dirs w \<and>
     (\<exists>l. net_log w = net_log w0 @ l) \<and> hub_files w = hub_files w0 \<and> hub_commit w = hub_commit w0"

text \<open>From \<open>w\<close> to \<open>w'\<close> requests were only appended, and the only blob fetched is \<open>u\<close>.\<close>

definition only_fetches :: "string \<Rightarrow> world \<Rightarrow> world \<Rightarrow> bool" where
  "only_fetches u w w' \<longleftrightarrow> (\<exists>l. net_log w' = net_log w @ l \<and> set l \<inter> range GetReq \<subseteq> {GetReq u})"

inductive loads :: "('img, 'enc) vl_engine \<Rightarrow> path \<Rightarrow> world \<Rightarrow> world \<Rightarrow> bool"
  for eng :: "('img, 'enc) vl_engine" and md :: path where
  loads_refl: "loads eng md w w"
| loads_step: "loads eng md w w1 \<Longrightarrow> load eng md s q w1 = (r, w2) \<Longrightarrow> loads eng md w w2"

subsection \<open>Cache coherence, call by call\<close>

lemma hoare_coh_hub_calls:
  "hoare cache_coherent (hf_hub_download repo f rv) (\<lambda>_. cache_coherent) cache_coherent"
  "hoare cache_coherent (get_hf_file_metadata u) (\<lambda>_. cache_coherent) cache_coherent"
  "hoare cache_coherent (delete_revisions h) (\<lambda>_. cache_coherent) cache_coherent"
  by (auto simp: hoare_def hf_hub_download_def get_hf_file_metadata_def delete_revisions_def
      cache_coherent_def Let_def split: if_splits option.splits)

lemma hoare_coh_fs_calls:
  "hoare cache_coherent (mkdir_parents p) (\<lambda>_. cache_coherent) cache_coherent"
  "hoare cache_coherent (gzip_open key) (\<lambda>_. cache_coherent) cache_coherent"
  "hoare cache_coherent (open_wb p) (\<lambda>_. cache_coherent) cache_coherent"
  by (auto simp: hoare_def mkdir_parents_def gzip_open_def open_wb_def cache_coherent_def
      split: if_splits option.splits gz_blob.splits)

lemma hoare_coh_copy_chunks: "hoare cache_coherent (copy_chunks n p rd) (\<lambda>_. cache_coherent) cache_coherent"
  unfolding hoare_def
  by (auto simp: cache_coherent_def writes_only_def dest!: copy_chunks_frame split: sum.splits)

lemma hoare_from_path: "hoare P (from_path eng p) (\<lambda>_. P) P"
  unfolding hoare_def by (auto dest: from_path_world split: sum.splits)

lemmas hoare_coh_prims = hoare_coh_hub_calls hoare_coh_fs_calls hoare_coh_copy_chunks

lemma hoare_coh_load: "hoare cache_coherent (load eng md s q) (\<lambda>_. cache_coherent) cache_coherent"
proof -
  have dl: "hoare cache_coherent (download name dest) (\<lambda>_. cache_coherent) cache_coherent" for name dest
    unfolding download_def by (rule hoare_bind hoare_coh_prims)+
  have ens: "hoare cache_coherent (ensure_artifact name mf) (\<lambda>_. cache_coherent) cache_coherent" for name mf
    using dl unfolding hoare_def ensure_artifact_def by auto
  show ?thesis
    unfolding load_def by (rule hoare_bind [OF ens hoare_from_path])
qed

subsection \<open>Growth, call by call\<close>

lemma grown_from_refl [simp]: "grown_from w w"
  by (simp add: grown_from_def)

lemma grown_from_trans: "grown_from w0 w1 \<Longrightarrow> grown_from w1 w2 \<Longrightarrow> grown_from w0 w2"
proof -
  assume a: "grown_from w0 w1" and b: "grown_from w1 w2"
  then obtain l1 l2 where "net_log w1 = net_log w0 @ l1" and "net_log w2 = net_log w1 @ l2"
    by (auto simp: grown_from_def)
  then have "net_log w2 = net_log w0 @ (l1 @ l2)"
    by simp
  moreover from a b have "dom (fs_files w0) \<subseteq> dom (fs_files w2) \<and> fs_dirs w0 \<subseteq> fs_dirs w2"
    by (auto simp: grown_from_def)
  moreover from a b have "hub_files w2 = hub_files w0 \<and> hub_commit w2 = hub_commit w0"
    by (simp add: grown_from_def)
  ultimately show ?thesis
    unfolding grown_from_def by auto
qed

text \<open>A call after which the world has grown keeps "grown from \<open>w0\<close>", for every \<open>w0\<close>.\<close>

lemma hoare_grown:
  "(\<And>w r w'. m w = (r, w') \<Longrightarrow> grown_from w w') \<Longrightarrow> hoare (grown_from w0) m (\<lambda>_. grown_from w0) (grown_from w0)"
  by (rule hoare_rel [OF grown_from_trans])

lemma hub_calls_grow:
  "hf_hub_download repo f rv w = (r1, w1) \<Longrightarrow> grown_from w w1"
  "get_hf_file_metadata u w = (r2, w2) \<Longrightarrow> grown_from w w2"
  "delete_revisions h w = (r3, w3) \<Longrightarrow> grown_from w w3"
  by (auto simp: grown_from_def hf_hub_download_def get_hf_file_metadata_def delete_revisions_def Let_def
      split: if_splits option.splits)

lemma fs_calls_grow:
  "mkdir_parents p w = (r1, w1) \<Longrightarrow> grown_from w w1"
  "gzip_open key w = (r2, w2) \<Longrightarrow> grown_from w w2"
  "open_wb p w = (r3, w3) \<Longrightarrow> grown_from w w3"
  by (auto simp: grown_from_def mkdir_parents_def gzip_open_def open_wb_def
      split: if_splits option.splits gz_blob.splits)

lemma copy_chunks_grows: "copy_chunks n p rd w = (r, w') \<Longrightarrow> grown_from w w'"
  by (drule copy_chunks_frame) (simp add: grown_from_def writes_only_def)

lemma from_path_grows: "from_path eng p w = (r, w') \<Longrightarrow> grown_from w w'"
  by (drule from_path_world) simp

lemmas prims_grow = hub_calls_grow fs_calls_grow copy_chunks_grows from_path_grows

lemma load_grows: "load eng md s q w = (r, w') \<Longrightarrow> grown_from w w'"
proof -
  have dl: "hoare (grown_from w) (download name dest) (\<lambda>_. grown_from w) (grown_from w)" for name dest
    unfolding download_def by (intro hoare_bind_inv hoare_grown; erule prims_grow)
  have ens: "hoare (grown_from w) (ensure_artifact name mf) (\<lambda>_. grown_from w) (grown_from w)" for name mf
    using dl unfolding hoare_def ensure_artifact_def by auto
  have ld: "hoare (grown_from w) (load eng md s q) (\<lambda>_. grown_from w) (grown_from w)"
    unfolding load_def by (rule hoare_bind_inv [OF ens hoare_grown]) (rule from_path_grows)
  show "load eng md s q w = (r, w') \<Longrightarrow> grown_from w w'"
    by (rule hoare_inv [OF ld grown_from_refl])
qed

subsection \<open>Requests, call by call\<close>

lemma only_fetches_trans: "only_fetches u w1 w2 \<Longrightarrow> only_fetches u w2 w3 \<Longrightarrow> only_fetches u w1 w3"
proof -
  assume "only_fetches u w1 w2" "only_fetches u w2 w3"
  then obtain l1 l2 where "net_log w2 = net_log w1 @ l1" "set l1 \<inter> range GetReq \<subseteq> {GetReq u}"
    "net_log w3 = net_log w2 @ l2" "set l2 \<inter> range GetReq \<subseteq> {GetReq u}"
    unfolding only_fetches_def by blast
  then have "net_log w3 = net_log w1 @ (l1 @ l2) \<and> set (l1 @ l2) \<inter> range GetReq \<subseteq> {GetReq u}"
    by auto
  then show ?thesis
    unfolding only_fetches_def by blast
qed

lemma hoare_only_fetches:
  "(\<And>w r w'. m w = (r, w') \<Longrightarrow> only_fetches u w w') \<Longrightarrow>
   hoare (only_fetches u w0) m (\<lambda>_. only_fetches u w0) (only_fetches u w0)"
  by (rule hoare_rel [OF only_fetches_trans])

text \<open>The hub download of \<open><name>.gz\<close> fetches that blob only; no other call fetches.\<close>

lemma hub_calls_fetch:
  "hf_hub_download hf_repo (name @ ''.gz'') hf_revision w = (r1, w1) \<Longrightarrow> only_fetches (blob_url name) w w1"
  "get_hf_file_metadata v w = (r2, w2) \<Longrightarrow> only_fetches u w w2"
  "delete_revisions h w = (r3, w3) \<Longrightarrow> only_fetches u w w3"
  by (auto simp: only_fetches_def hf_hub_download_def blob_url_def Let_def get_hf_file_metadata_def
      delete_revisions_def split: if_splits option.splits)

text \<open>The file-system calls and the loader make no request at all.\<close>

lemma same_log_fetches: "net_log w' = net_log w \<Longrightarrow> only_fetches u w w'"
  by (simp add: only_fetches_def)

lemma local_calls_fetch:
  "mkdir_parents p w = (r2, w2) \<Longrightarrow> only_fetches u w w2"
  "gzip_open key w = (r3, w3) \<Longrightarrow> only_fetches u w w3"
  "open_wb p w = (r4, w4) \<Longrightarrow> only_fetches u w w4"
  "copy_chunks n p rd w = (r5, w5) \<Longrightarrow> only_fetches u w w5"
  "from_path eng p w = (r8, w8) \<Longrightarrow> only_fetches u w w8"
      apply (rule same_log_fetches, simp add: fs_prims_frame(1))
     apply (rule same_log_fetches, auto simp: gzip_open_def split: option.splits gz_blob.splits)[1]
    apply (rule same_log_fetches, simp add: fs_prims_frame(2))
   apply (rule same_log_fetches, drule copy_chunks_frame, simp add: writes_only_def)
  apply (rule same_log_fetches, drule from_path_world, simp)
  done

lemmas download_calls_fetch = hub_calls_fetch local_calls_fetch

lemma load_fetches_own:
  "load eng md s q w = (r, w') \<Longrightarrow> only_fetches (blob_url (model_file_name s q)) w w'"
proof -
  let ?u = "blob_url (model_file_name s q)"
  have dl: "hoare (only_fetches ?u w) (download (model_file_name s q) dest) (\<lambda>_. only_fetches ?u w) (only_fetches ?u w)" for dest
    unfolding download_def by (intro hoare_bind_inv hoare_only_fetches; erule download_calls_fetch)
  have ens: "hoare (only_fetches ?u w) (ensure_artifact (model_file_name s q) mf) (\<lambda>_. only_fetches ?u w) (only_fetches ?u w)" for mf
    using dl unfolding hoare_def ensure_artifact_def by auto
  have ld: "hoare (only_fetches ?u w) (load eng md s q) (\<lambda>_. only_fetches ?u w) (only_fetches ?u w)"
    unfolding load_def by (rule hoare_bind_inv [OF ens hoare_only_fetches]) (erule download_calls_fetch)
  have "only_fetches ?u w w"
    by (simp add: only_fetches_def)
  then show "load eng md s q w = (r, w') \<Longrightarrow> only_fetches ?u w w'"
    by (rule hoare_inv [OF ld])
qed

text \<open>With its path in place, a load leaves the world as it is.\<close>

lemma load_present_unchanged:
  "path_exists (artifact_path md s q) w \<Longrightarrow> load eng md s q w = (r, w') \<Longrightarrow> w' = w"
  by (auto simp: load_def ensure_artifact_def dest: from_path_world)

lemma grown_path_exists: "grown_from w w' \<Longrightarrow> path_exists p w \<Longrightarrow> path_exists p w'"
  by (auto simp: grown_from_def path_exists_def)

lemma blob_url_inj: "blob_url n1 = blob_url n2 \<Longrightarrow> n1 = n2"
  by (simp add: blob_url_def hf_hub_url_def)

text \<open>Without its path, a load's world is the world its download left.\<close>

lemma load_missing_download:
  assumes "\<not> path_exists (artifact_path md s q) w" and "load eng md s q w = (r, w')"
  shows "\<exists>r1. download (model_file_name s q) (artifact_path md s q) w = (r1, w')"
proof -
  from assms(2) have "bind_st (ensure_artifact (model_file_name s q) (artifact_path md s q))
      (\<lambda>_. from_path eng (artifact_path md s q)) w = (r, w')"
    by (simp add: load_def)
  then show ?thesis
  proof (cases rule: bind_st_cases)
    case (fail e)
    then show ?thesis
      using assms(1) by (auto simp: ensure_artifact_def)
  next
    case (ok a w1)
    then show ?thesis
      using assms(1) by (auto simp: ensure_artifact_def dest: from_path_world)
  qed
qed

lemma artifact_path_inj: "artifact_path md s q = artifact_path md s' q' \<Longrightarrow> model_file_name s q = model_file_name s' q'"
  by (simp add: artifact_path_def)

subsection \<open>Properties\<close>

text \<open>
  C11. At most one download per artifact, whatever else the run does: once the path of a
  model file exists, no later load in the run, with any options and interleaved with
  loads of other models, fetches that model's blob from the hub again.
\<close>

theorem loads_download_once:
  assumes "loads eng md w w'" and "path_exists (ROOT md @ [name]) w"
  shows "\<exists>l. net_log w' = net_log w @ l \<and> GetReq (blob_url name) \<notin> set l"
proof -
  have "path_exists (ROOT md @ [name]) w' \<and> (\<exists>l. net_log w' = net_log w @ l \<and> GetReq (blob_url name) \<notin> set l)"
    using assms
  proof (induction rule: loads.induct)
    case (loads_refl w)
    then show ?case
      by simp
  next
    case (loads_step w w1 s q r w2)
    from loads_step.IH loads_step.prems obtain l1 where ex: "path_exists (ROOT md @ [name]) w1"
      and l1: "net_log w1 = net_log w @ l1" "GetReq (blob_url name) \<notin> set l1"
      by blast
    have ex2: "path_exists (ROOT md @ [name]) w2"
      using grown_path_exists [OF load_grows [OF loads_step.hyps(2)] ex] .
    show ?case
    proof (cases "model_file_name s q = name")
      case True
      then have "w2 = w1"
        using load_present_unchanged [OF _ loads_step.hyps(2)] ex by (simp add: artifact_path_def)
      with ex l1 show ?thesis
        by blast
    next
      case False
      obtain l2 where l2: "net_log w2 = net_log w1 @ l2"
        and g: "set l2 \<inter> range GetReq \<subseteq> {GetReq (blob_url (model_file_name s q))}"
        using load_fetches_own [OF loads_step.hyps(2)] by (auto simp: only_fetches_def)
      have "GetReq (blob_url name) \<notin> set l2"
        using g False blob_url_inj by blast
      with ex2 l1 l2 show ?thesis
        by auto
    qed
  qed
  then show ?thesis
    by blast
qed

theorem loads_download_once_witness:
  "loads demo_engine [] demo_world demo_world \<and> path_exists (ROOT [] @ [''moondream-2b-int8.mf'']) demo_world \<and>
   (\<exists>l. net_log demo_world = net_log demo_world @ l \<and> GetReq (blob_url ''moondream-2b-int8.mf'') \<notin> set l)"
proof -
  have r: "loads demo_engine [] demo_world demo_world"
    by (rule loads_step [OF loads_refl load_demo_world])
  have e: "path_exists (ROOT [] @ [''moondream-2b-int8.mf'']) demo_world"
    by (simp add: ROOT_def path_exists_def demo_world_def)
  show ?thesis
    using r e loads_download_once [OF r e] by blast
qed


text \<open>
  C9. Along any run of loads, successful or not, with any options, every file at the
  path of an artifact holds a prefix of the decompressed hub content of that very
  artifact: complete, or truncated by an interrupted download, but never the bytes of
  another file. This needs the hub cache to agree with the hub at the start.
\<close>

theorem loads_artifacts_from_hub:
  assumes "loads eng md w w'" and "cache_coherent w" and "artifacts_from_hub md w"
  shows "artifacts_from_hub md w'"
proof -
  have "cache_coherent w' \<and> artifacts_from_hub md w'"
    using assms
  proof (induction rule: loads.induct)
    case (loads_refl w)
    then show ?case
      by simp
  next
    case (loads_step w w1 s q r w2)
    from loads_step.IH loads_step.prems have coh1: "cache_coherent w1" and inv1: "artifacts_from_hub md w1"
      by auto
    have coh2: "cache_coherent w2"
      by (rule hoare_inv [OF hoare_coh_load coh1 loads_step.hyps(2)])
    have "artifacts_from_hub md w2"
    proof (cases "path_exists (artifact_path md s q) w1")
      case True
      then show ?thesis
        using load_present_unchanged [OF True loads_step.hyps(2)] inv1 by simp
    next
      case False
      let ?n = "model_file_name s q" and ?mf = "artifact_path md s q"
      obtain r1 where dl: "download ?n ?mf w1 = (r1, w2)"
        using load_missing_download [OF False loads_step.hyps(2)] by blast
      have coh: "\<forall>b. hf_cache w1 (hub_commit w1, ?n @ ''.gz'') = Some b \<longrightarrow> hub_files w1 (?n @ ''.gz'') = Some b"
        using coh1 by (simp add: cache_coherent_def)
      have fr: "dl_frame ?n ?mf w1 w2"
        by (rule download_from_hub [OF coh dl])
      have nf: "fs_files w1 ?mf = None"
        using False by (simp add: path_exists_def)
      show ?thesis
        unfolding artifacts_from_hub_def
      proof (intro allI impI)
        fix s' q' b
        assume b: "fs_files w2 (artifact_path md s' q') = Some b"
        show "\<exists>xs ok. hub_files w2 (model_file_name s' q' @ ''.gz'') = Some (GzStream xs ok) \<and> prefix b xs"
        proof (cases "artifact_path md s' q' = ?mf")
          case True
          then show ?thesis
            using fr b nf artifact_path_inj [OF True] by (auto simp: dl_frame_def)
        next
          case False
          then show ?thesis
            using fr b inv1 unfolding dl_frame_def artifacts_from_hub_def by auto
        qed
      qed
    qed
    with coh2 show ?case
      by simp
  qed
  then show ?thesis
    by simp
qed

theorem loads_artifacts_from_hub_witness:
  "loads demo_engine [] (demo_world\<lparr>fs_files := Map.empty, fs_dirs := {},
       hub_files := [''moondream-2b-int8.mf.gz'' \<mapsto> GzStream [1, 2] True]\<rparr>)
     (snd (load demo_engine [] ''2b'' ''int8'' (demo_world\<lparr>fs_files := Map.empty, fs_dirs := {},
       hub_files := [''moondream-2b-int8.mf.gz'' \<mapsto> GzStream [1, 2] True]\<rparr>))) \<and>
   cache_coherent (demo_world\<lparr>fs_files := Map.empty, fs_dirs := {},
       hub_files := [''moondream-2b-int8.mf.gz'' \<mapsto> GzStream [1, 2] True]\<rparr>) \<and>
   artifacts_from_hub [] (demo_world\<lparr>fs_files := Map.empty, fs_dirs := {},
       hub_files := [''moondream-2b-int8.mf.gz'' \<mapsto> GzStream [1, 2] True]\<rparr>) \<and>
   artifacts_from_hub [] (snd (load demo_engine [] ''2b'' ''int8'' (demo_world\<lparr>fs_files := Map.empty, fs_dirs := {},
       hub_files := [''moondream-2b-int8.mf.gz'' \<mapsto> GzStream [1, 2] True]\<rparr>)))"
proof -
  let ?w = "demo_world\<lparr>fs_files := Map.empty, fs_dirs := {},
       hub_files := [''moondream-2b-int8.mf.gz'' \<mapsto> GzStream [1, 2] True]\<rparr>"
  have r: "loads demo_engine [] ?w (snd (load demo_engine [] ''2b'' ''int8'' ?w))"
    by (rule loads_step [OF loads_refl prod.collapse [symmetric]])
  have c: "cache_coherent ?w"
    by (simp add: cache_coherent_def demo_world_def)
  have a: "artifacts_from_hub [] ?w"
    by (simp add: artifacts_from_hub_def)
  show ?thesis
    using r c a loads_artifacts_from_hub [OF r c a] by simp
qed

end
