(* ===== verification/Loader_Spec.thy ===== *)
theory Loader_Spec
  imports Loader_Runs
begin

text \<open>
  The loader against the contract the design gives it, \<open>ensure_local(name) -> path\<close>:
  "if the target path exists, return it unchanged; otherwise download the compressed
  remote artifact and decompress it to the target path". The abstract state is the
  local store (files and directories); the remote side is the decompressed content of
  each artifact the hub holds intact. \<open>ensure_local\<close> is that contract as a partial
  function on stores (\<open>None\<close>: no intact remote artifact). The refinement theorem says
  every successful \<open>ensure_artifact\<close> (the \<open>if not mf.exists(): self.download(name, mf)\<close>
  of \<open>load\<close>, \<open>src/__init__.py\<close> line 56) is a step the contract allows, as long as the
  hub cache agrees with the hub (\<open>Loader_Runs.cache_coherent\<close>, kept by every run).
  Failed runs are outside the contract: they can leave a truncated file (\<open>Fetcher\<close>).
\<close>

record astore =
  a_files :: "path \<rightharpoonup> bytes"
  a_dirs :: "path set"

definition abs_store :: "world \<Rightarrow> astore" where
  "abs_store w = \<lparr>a_files = fs_files w, a_dirs = fs_dirs w\<rparr>"

definition remote_artifact :: "world \<Rightarrow> string \<rightharpoonup> bytes" where
  "remote_artifact w name =
     (case hub_files w (name @ ''.gz'') of Some (GzStream xs True) \<Rightarrow> Some xs | _ \<Rightarrow> None)"

definition ensure_local :: "(string \<rightharpoonup> bytes) \<Rightarrow> string \<Rightarrow> path \<Rightarrow> astore \<Rightarrow> astore option" where
  "ensure_local remote name p st =
     (if p \<in> dom (a_files st) \<or> p \<in> a_dirs st then Some st
      else (case remote name of
              None \<Rightarrow> None
            | Some xs \<Rightarrow> Some \<lparr>a_files = (a_files st)(p \<mapsto> xs),
                               a_dirs = a_dirs st \<union> set (prefixes_of (parent p))\<rparr>))"

text \<open>The concrete world with one intact artifact on the hub, \<open>moondream-0_5b-int4.mf.gz\<close>.\<close>

definition hub_world :: world where
  "hub_world = demo_world\<lparr>hub_files := [''moondream-0_5b-int4.mf.gz'' \<mapsto> GzStream [1, 2, 3] True]\<rparr>"

subsection \<open>A successful download, call by call\<close>

text \<open>Without a path in the way, a successful \<open>ensure_artifact\<close> is a successful download.\<close>

lemma ensure_artifact_missing:
  "\<not> path_exists mf w \<Longrightarrow> ensure_artifact name mf w = download name mf w"
  by (simp add: ensure_artifact_def)

lemma names_0_5b_int4:
  "model_file_name ''0.5b'' ''int4'' = ''moondream-0_5b-int4.mf''"
  "artifact_path [] ''0.5b'' ''int4'' = [''LLM'', ''moondream-0_5b-int4.mf'']"
  by (simp_all add: artifact_path_def ROOT_def model_file_name_def str_replace_char)

text \<open>On \<open>hub_world\<close> the 0.5b int4 artifact is missing and gets downloaded.\<close>

lemma load_hub_world:
  "\<exists>w'. ensure_artifact ''moondream-0_5b-int4.mf'' [''LLM'', ''moondream-0_5b-int4.mf''] hub_world = (Inr (), w') \<and>
     load demo_engine [] ''0.5b'' ''int4'' hub_world =
       (Inr \<lparr>model_path = [''LLM'', ''moondream-0_5b-int4.mf''], model_weights = [1, 2, 3]\<rparr>, w')"
proof -
  let ?n = "''moondream-0_5b-int4.mf''" and ?p = "[''LLM'', ''moondream-0_5b-int4.mf'']"
  have miss: "\<not> path_exists ?p hub_world"
    by (simp add: path_exists_def hub_world_def demo_world_def)
  obtain w' where dl: "download ?n ?p hub_world = (Inr (), w')" and f: "fs_files w' = (fs_files hub_world)(?p \<mapsto> [1, 2, 3])"
    using download_clean [of hub_world ?n "[1, 2, 3]" ?p]
    by (auto simp: hub_world_def demo_world_def parent_def prefixes_of_def)
  have e: "ensure_artifact ?n ?p hub_world = (Inr (), w')"
    using miss dl by (simp add: ensure_artifact_missing)
  moreover have "from_path demo_engine ?p w' = (Inr \<lparr>model_path = ?p, model_weights = [1, 2, 3]\<rparr>, w')"
    using f by (simp add: from_path_file demo_engine_def)
  ultimately show ?thesis
    by (auto simp: load_def names_0_5b_int4)
qed

subsection \<open>Properties\<close>

text \<open>
  C5. Refinement of the design's \<open>ensure_local\<close>: with the hub cache agreeing with the
  hub, every successful \<open>ensure_artifact\<close> maps the local store as the contract says:
  unchanged when the path exists, otherwise the intact remote artifact decompressed at
  the path, with its parent directories created.
\<close>

theorem ensure_artifact_refines:
  assumes "cache_coherent w" and "ensure_artifact name p w = (Inr (), w')"
  shows "ensure_local (remote_artifact w) name p (abs_store w) = Some (abs_store w')"
proof (cases "path_exists p w")
  case True
  then have "w' = w"
    using assms(2) by (simp add: ensure_artifact_def)
  with True show ?thesis
    by (auto simp: ensure_local_def abs_store_def path_exists_def)
next
  case False
  then have "download name p w = (Inr (), w')"
    using assms(2) by (simp add: ensure_artifact_missing)
  from download_Inr [OF this] assms(1) obtain xs
    where "hub_files w (name @ ''.gz'') = Some (GzStream xs True)"
      and "fs_files w' = (fs_files w)(p \<mapsto> xs)"
      and "fs_dirs w' = fs_dirs w \<union> set (prefixes_of (parent p))"
    by (auto simp: cache_coherent_def)
  with False show ?thesis
    by (auto simp: ensure_local_def abs_store_def path_exists_def remote_artifact_def)
qed

theorem ensure_artifact_refines_witness:
  "cache_coherent hub_world \<and>
   (\<exists>w'. ensure_artifact ''moondream-0_5b-int4.mf'' [''LLM'', ''moondream-0_5b-int4.mf''] hub_world = (Inr (), w') \<and>
     ensure_local (remote_artifact hub_world) ''moondream-0_5b-int4.mf'' [''LLM'', ''moondream-0_5b-int4.mf'']
       (abs_store hub_world) = Some (abs_store w'))"
proof -
  have c: "cache_coherent hub_world"
    by (simp add: cache_coherent_def hub_world_def demo_world_def)
  obtain w' where e: "ensure_artifact ''moondream-0_5b-int4.mf'' [''LLM'', ''moondream-0_5b-int4.mf''] hub_world = (Inr (), w')"
    using load_hub_world by blast
  show ?thesis
    using c e ensure_artifact_refines [OF c e] by blast
qed

text \<open>
  C13. Round trip from the hub to the handle: when \<open>load\<close> had to download, the weights of
  the handle it returns are exactly the decompressed content of the hub's artifact.
\<close>

theorem load_roundtrip:
  assumes "cache_coherent w" and "\<not> path_exists (artifact_path md s q) w"
    and "load eng md s q w = (Inr m, w')"
  shows "remote_artifact w (model_file_name s q) = Some (model_weights m)"
proof -
  let ?p = "artifact_path md s q" and ?n = "model_file_name s q"
  from bind_st_InrD [OF assms(3) [unfolded load_def]] obtain u w1
    where e: "ensure_artifact ?n ?p w = (Inr u, w1)" and f: "from_path eng ?p w1 = (Inr m, w')"
    by blast
  from e assms(2) have "download ?n ?p w = (Inr (), w1)"
    by (simp add: ensure_artifact_missing)
  from download_Inr [OF this] assms(1) obtain xs
    where hub: "hub_files w (?n @ ''.gz'') = Some (GzStream xs True)" and files: "fs_files w1 = (fs_files w)(?p \<mapsto> xs)"
    by (auto simp: cache_coherent_def)
  from f files have "model_weights m = xs"
    by (auto simp: from_path_file split: if_splits)
  with hub show ?thesis
    by (simp add: remote_artifact_def)
qed

theorem load_roundtrip_witness:
  "cache_coherent hub_world \<and> \<not> path_exists (artifact_path [] ''0.5b'' ''int4'') hub_world \<and>
   (\<exists>w'. load demo_engine [] ''0.5b'' ''int4'' hub_world =
      (Inr \<lparr>model_path = [''LLM'', ''moondream-0_5b-int4.mf''], model_weights = [1, 2, 3]\<rparr>, w')) \<and>
   remote_artifact hub_world (model_file_name ''0.5b'' ''int4'') = Some [1, 2, 3]"
proof -
  have c: "cache_coherent hub_world"
    by (simp add: cache_coherent_def hub_world_def demo_world_def)
  have miss: "\<not> path_exists (artifact_path [] ''0.5b'' ''int4'') hub_world"
    by (simp add: names_0_5b_int4 path_exists_def hub_world_def demo_world_def)
  obtain w' where l: "load demo_engine [] ''0.5b'' ''int4'' hub_world =
      (Inr \<lparr>model_path = [''LLM'', ''moondream-0_5b-int4.mf''], model_weights = [1, 2, 3]\<rparr>, w')"
    using load_hub_world by blast
  show ?thesis
    using c miss l load_roundtrip [OF c miss l] by auto
qed

end
