(* ===== verification/Loader_Live.thy ===== *)
theory Loader_Live
  imports Loader_Spec
begin

text \<open>
  Progress of the loader over runs (\<open>Loader_Runs.loads\<close>). Safety: a load never
  changes a regular file that is already there, whatever the outcome; so an artifact
  left truncated by a failed download (\<open>Fetcher\<close>) is never repaired by later loads.
  Liveness: from a world where the hub holds every artifact intact, the network is up,
  the hub cache agrees with the hub, the models directory can be made
  and the disk has room for all artifacts, the run \<open>run_loads\<close> that loads each option
  pair once, in order, reaches a world where every artifact of the node's options is on disk with exactly
  the hub's decompressed content (the goal state of the design's \<open>ensure_local\<close>).
\<close>

text \<open>The files other than \<open>dest\<close> are as they were.\<close>

definition files_kept :: "path \<Rightarrow> world \<Rightarrow> world \<Rightarrow> bool" where
  "files_kept dest w w' \<longleftrightarrow> (\<forall>p. p \<noteq> dest \<longrightarrow> fs_files w' p = fs_files w p)"

text \<open>
  A world from which loading the option pairs \<open>ops\<close> makes progress: online, the hub
  cache of the current commit agreeing with the hub (\<open>Loader_Runs.cache_coherent\<close>, the
  part of the invariant every run keeps), no regular file on the way to the models directory,
  every artifact of \<open>ops\<close> missing locally and intact on the hub, and room for all of them.
\<close>

definition fetch_ready :: "path \<Rightarrow> (string \<times> string) list \<Rightarrow> world \<Rightarrow> bool" where
  "fetch_ready md ops w \<longleftrightarrow>
     online w \<and> cache_coherent w \<and>
     \<not> list_ex (\<lambda>p. fs_files w p \<noteq> None) (prefixes_of (ROOT md)) \<and>
     list_all (\<lambda>(s, q). \<not> path_exists (artifact_path md s q) w \<and> remote_artifact w (model_file_name s q) \<noteq> None) ops \<and>
     sum_list (map (\<lambda>(s, q). length (the (remote_artifact w (model_file_name s q)))) ops) \<le> disk_free w"

text \<open>
  The host calling \<open>load\<close> once per option pair of \<open>ops\<close>, in order, each call on the
  world the previous one left, whatever it returned.
\<close>

fun run_loads :: "('img, 'enc) vl_engine \<Rightarrow> path \<Rightarrow> (string \<times> string) list \<Rightarrow> world \<Rightarrow> world" where
  "run_loads eng md [] w = w"
| "run_loads eng md ((s, q) # ops) w = run_loads eng md ops (snd (load eng md s q w))"

text \<open>A world where every option pair of the node can be fetched, for the witnesses.\<close>

definition ready_world :: world where
  "ready_world =
     \<lparr>fs_files = Map.empty, fs_dirs = {}, disk_free = 8,
      hub_files = [''moondream-0_5b-int4.mf.gz'' \<mapsto> GzStream [1] True,
                   ''moondream-0_5b-int8.mf.gz'' \<mapsto> GzStream [2] True,
                   ''moondream-2b-int4.mf.gz'' \<mapsto> GzStream [3] True,
                   ''moondream-2b-int8.mf.gz'' \<mapsto> GzStream [4, 5] True],
      hub_commit = ''c0'', online = True, hf_cache = Map.empty, net_log = []\<rparr>"

subsection \<open>Files are kept, call by call\<close>

lemma files_kept_refl [simp]: "files_kept dest w w"
  by (simp add: files_kept_def)

lemma files_kept_trans: "files_kept dest w1 w2 \<Longrightarrow> files_kept dest w2 w3 \<Longrightarrow> files_kept dest w1 w3"
  by (simp add: files_kept_def)

lemma download_calls_keep:
  "hf_hub_download repo f rv w = (r1, w1) \<Longrightarrow> files_kept dest w w1"
  "mkdir_parents p w = (r2, w2) \<Longrightarrow> files_kept dest w w2"
  "gzip_open key w = (r3, w3) \<Longrightarrow> files_kept dest w w3"
  "open_wb dest w = (r4, w4) \<Longrightarrow> files_kept dest w w4"
  "copy_chunks n dest rd w = (r5, w5) \<Longrightarrow> files_kept dest w w5"
  "get_hf_file_metadata u w = (r6, w6) \<Longrightarrow> files_kept dest w w6"
  "delete_revisions h w = (r7, w7) \<Longrightarrow> files_kept dest w w7"
  by (auto simp: files_kept_def hf_hub_download_def Let_def gzip_open_def open_wb_def
      get_hf_file_metadata_def delete_revisions_def writes_only_def
      dest: fs_prims_frame(1) copy_chunks_frame split: if_splits option.splits gz_blob.splits)

lemma download_keeps: "download name dest w = (r, w') \<Longrightarrow> files_kept dest w w'"
proof -
  have dl: "hoare (files_kept dest w) (download name dest) (\<lambda>_. files_kept dest w) (files_kept dest w)"
    unfolding download_def
    by (intro hoare_bind_inv hoare_rel [of "files_kept dest"]; (erule files_kept_trans; assumption)?;
        erule download_calls_keep)
  show "download name dest w = (r, w') \<Longrightarrow> files_kept dest w w'"
    by (erule hoare_inv [OF dl files_kept_refl])
qed

text \<open>A load keeps every regular file there is: it only writes a path that does not exist.\<close>

lemma load_keeps_file:
  assumes "load eng md s q w = (r, w')" and "fs_files w p = Some b"
  shows "fs_files w' p = Some b"
proof -
  let ?mf = "artifact_path md s q"
  obtain r1 w1 where e: "ensure_artifact (model_file_name s q) ?mf w = (r1, w1)"
    by fastforce
  have "w' = w1 \<or> (\<exists>m. from_path eng ?mf w1 = (r, w'))"
    using assms(1) e by (auto simp: load_def bind_st_def split: sum.splits)
  then have ww: "w' = w1"
    by (auto dest: from_path_world)
  show ?thesis
  proof (cases "path_exists ?mf w")
    case True
    then show ?thesis
      using e ww assms(2) by (simp add: ensure_artifact_def)
  next
    case False
    then have "download (model_file_name s q) ?mf w = (r1, w1)" and "p \<noteq> ?mf"
      using e assms(2) by (auto simp: ensure_artifact_def path_exists_def)
    then show ?thesis
      using download_keeps assms(2) ww by (auto simp: files_kept_def)
  qed
qed

lemma loads_keep_files: "loads eng md w w' \<Longrightarrow> fs_files w p = Some b \<Longrightarrow> fs_files w' p = Some b"
  by (induction rule: loads.induct) (auto intro: load_keeps_file)

subsection \<open>One load from a ready world\<close>

text \<open>Artifact paths are one level below the models directory, so none is a prefix of it.\<close>

lemma artifact_not_prefix: "artifact_path md s q \<notin> set (prefixes_of (ROOT md))"
proof
  assume "artifact_path md s q \<in> set (prefixes_of (ROOT md))"
  then obtain i where "artifact_path md s q = take i (ROOT md)"
    by (auto simp: prefixes_of_def)
  then have "length (artifact_path md s q) = length (take i (ROOT md))"
    by simp
  then show False
    by (simp add: artifact_path_def)
qed

lemma artifact_path_eq: "artifact_path md s q = artifact_path md s' q' \<longleftrightarrow> model_file_name s q = model_file_name s' q'"
  by (simp add: artifact_path_def)

text \<open>Loads are runs too when the first step comes first.\<close>

lemma loads_first: "loads eng md w1 w2 \<Longrightarrow> load eng md s q w = (r, w1) \<Longrightarrow> loads eng md w w2"
  by (induction rule: loads.induct) (blast intro: loads_step loads_refl)+

lemma remote_artifact_hub: "hub_files w1 = hub_files w \<Longrightarrow> remote_artifact w1 = remote_artifact w"
  by (simp add: remote_artifact_def fun_eq_iff)

text \<open>The first option pair of a ready world meets the conditions of \<open>Fetcher.load_fresh\<close>.\<close>

lemma fetch_ready_head:
  assumes "fetch_ready md ((s, q) # ops) w"
  obtains xs where "\<not> path_exists (artifact_path md s q) w" "online w"
    "hub_files w (model_file_name s q @ ''.gz'') = Some (GzStream xs True)"
    "hf_cache w (hub_commit w, model_file_name s q @ ''.gz'') \<in> {None, Some (GzStream xs True)}"
    "\<not> list_ex (\<lambda>p. fs_files w p \<noteq> None) (prefixes_of (ROOT md))"
    "length xs \<le> disk_free w" "remote_artifact w (model_file_name s q) = Some xs"
proof -
  from assms obtain xs where rem: "remote_artifact w (model_file_name s q) = Some xs"
    by (auto simp: fetch_ready_def)
  then have hub: "hub_files w (model_file_name s q @ ''.gz'') = Some (GzStream xs True)"
    by (auto simp: remote_artifact_def split: option.splits gz_blob.splits bool.splits)
  have "hf_cache w (hub_commit w, model_file_name s q @ ''.gz'') \<in> {None, Some (GzStream xs True)}"
    using assms hub by (cases "hf_cache w (hub_commit w, model_file_name s q @ ''.gz'')")
      (auto simp: fetch_ready_def cache_coherent_def)
  with assms rem hub show ?thesis
    using that by (auto simp: fetch_ready_def)
qed

text \<open>After that load the world is ready for the remaining option pairs.\<close>

lemma fetch_ready_next:
  assumes ready: "fetch_ready md ((s, q) # ops) w"
    and others: "\<And>s' q'. (s', q') \<in> set ops \<Longrightarrow> model_file_name s' q' \<noteq> model_file_name s q"
    and rem: "remote_artifact w (model_file_name s q) = Some xs"
    and w1: "fs_files w1 = (fs_files w)(artifact_path md s q \<mapsto> xs)"
      "fs_dirs w1 = fs_dirs w \<union> set (prefixes_of (ROOT md))" "disk_free w1 = disk_free w - length xs"
      "hf_cache w1 = (\<lambda>k. if fst k = hub_commit w then None else hf_cache w k)"
      "hub_files w1 = hub_files w" "hub_commit w1 = hub_commit w" "online w1 = online w"
  shows "fetch_ready md ops w1"
proof -
  have rem1: "remote_artifact w1 = remote_artifact w"
    using w1(5) by (rule remote_artifact_hub)
  have todo: "list_all (\<lambda>(s, q). \<not> path_exists (artifact_path md s q) w \<and> remote_artifact w (model_file_name s q) \<noteq> None) ops"
    and mk: "\<not> list_ex (\<lambda>p. fs_files w p \<noteq> None) (prefixes_of (ROOT md))"
    using ready by (simp_all add: fetch_ready_def)
  have todo1: "list_all (\<lambda>(s, q). \<not> path_exists (artifact_path md s q) w1 \<and> remote_artifact w1 (model_file_name s q) \<noteq> None) ops"
    using todo others artifact_not_prefix
    by (auto simp: list_all_iff path_exists_def w1 rem1 artifact_path_eq)
  have mk1: "\<not> list_ex (\<lambda>p. fs_files w1 p \<noteq> None) (prefixes_of (ROOT md))"
    using mk artifact_not_prefix [of md s q] by (auto simp: list_ex_iff w1)
  have "length xs + sum_list (map (\<lambda>(s, q). length (the (remote_artifact w (model_file_name s q)))) ops) \<le> disk_free w"
    using ready rem by (simp add: fetch_ready_def)
  then have sp1: "sum_list (map (\<lambda>(s, q). length (the (remote_artifact w1 (model_file_name s q)))) ops) \<le> disk_free w1"
    by (simp add: rem1 w1(3))
  show ?thesis
    using ready mk1 todo1 sp1 by (simp add: fetch_ready_def cache_coherent_def w1)
qed

subsection \<open>Properties\<close>

text \<open>
  C14. Liveness of the loader: from a world that is ready for a list of option pairs
  naming distinct artifacts (online, the hub cache agreeing with the hub, the models
  directory creatable, each artifact missing locally and intact on the hub, room for
  all of them), the run \<open>run_loads\<close> that calls \<open>load\<close> on each pair once, in
  order, is a run of loads and ends in a world where every artifact of the list holds
  exactly the hub's decompressed content.
\<close>

theorem loads_fetch_all:
  assumes "fetch_ready md ops w" and "distinct (map (\<lambda>(s, q). model_file_name s q) ops)"
  shows "loads eng md w (run_loads eng md ops w) \<and>
    list_all (\<lambda>(s, q). fs_files (run_loads eng md ops w) (artifact_path md s q) = remote_artifact w (model_file_name s q)) ops"
  using assms
proof (induction ops arbitrary: w)
  case Nil
  show ?case
    by (simp add: loads_refl)
next
  case (Cons sq ops)
  obtain s q where sq: "sq = (s, q)"
    by fastforce
  have others: "model_file_name s' q' \<noteq> model_file_name s q" if "(s', q') \<in> set ops" for s' q'
    using Cons.prems(2) sq that by force
  from Cons.prems(1) [unfolded sq] obtain xs where miss: "\<not> path_exists (artifact_path md s q) w"
    and on: "online w" and hub: "hub_files w (model_file_name s q @ ''.gz'') = Some (GzStream xs True)"
    and nc: "hf_cache w (hub_commit w, model_file_name s q @ ''.gz'') \<in> {None, Some (GzStream xs True)}"
    and mk: "\<not> list_ex (\<lambda>p. fs_files w p \<noteq> None) (prefixes_of (ROOT md))"
    and sp: "length xs \<le> disk_free w" and rem: "remote_artifact w (model_file_name s q) = Some xs"
    by (rule fetch_ready_head)
  obtain w1 where ld: "load eng md s q w = (fst (from_path eng (artifact_path md s q) w1), w1)"
    and w1: "fs_files w1 = (fs_files w)(artifact_path md s q \<mapsto> xs)"
      "fs_dirs w1 = fs_dirs w \<union> set (prefixes_of (ROOT md))" "disk_free w1 = disk_free w - length xs"
      "hf_cache w1 = (\<lambda>k. if fst k = hub_commit w then None else hf_cache w k)"
      "hub_files w1 = hub_files w" "hub_commit w1 = hub_commit w" "online w1 = online w"
    using load_fresh [OF miss on hub nc mk sp, of eng] by auto
  have ready1: "fetch_ready md ops w1"
    by (rule fetch_ready_next [OF Cons.prems(1) [unfolded sq] others rem w1])
  define w2 where "w2 = run_loads eng md ops w1"
  have w2: "run_loads eng md ops (snd (load eng md s q w)) = w2"
    by (simp add: ld w2_def)
  have run: "loads eng md w1 w2"
    and got: "list_all (\<lambda>(s, q). fs_files w2 (artifact_path md s q) = remote_artifact w1 (model_file_name s q)) ops"
    using Cons.IH [OF ready1] Cons.prems(2) by (auto simp: w2_def)
  have "loads eng md w w2"
    by (rule loads_first [OF run ld])
  moreover have "fs_files w2 (artifact_path md s q) = Some xs"
    by (rule loads_keep_files [OF run]) (simp add: w1(1))
  ultimately show ?case
    using got rem remote_artifact_hub [OF w1(5)] by (simp add: sq w2)
qed

theorem loads_fetch_all_witness:
  "fetch_ready [] (List.product size_options quant_options) ready_world \<and>
   distinct (map (\<lambda>(s, q). model_file_name s q) (List.product size_options quant_options)) \<and>
   loads demo_engine [] ready_world (run_loads demo_engine [] (List.product size_options quant_options) ready_world) \<and>
   list_all (\<lambda>(s, q). fs_files (run_loads demo_engine [] (List.product size_options quant_options) ready_world)
        (artifact_path [] s q) = remote_artifact ready_world (model_file_name s q))
     (List.product size_options quant_options)"
proof -
  have r: "fetch_ready [] (List.product size_options quant_options) ready_world"
    by (simp add: fetch_ready_def cache_coherent_def ready_world_def size_options_def quant_options_def model_file_name_def
        str_replace_char artifact_path_def ROOT_def path_exists_def remote_artifact_def prefixes_of_def)
  have d: "distinct (map (\<lambda>(s, q). model_file_name s q) (List.product size_options quant_options))"
    by (simp add: size_options_def quant_options_def model_file_name_def str_replace_char)
  show ?thesis
    using r d loads_fetch_all [OF r d, of demo_engine] by simp
qed

text \<open>
  C15. The loader never repairs or removes a file: along any run of loads, with any
  options and any outcomes, a file at an artifact's path keeps its bytes, and every
  later load of that artifact hands exactly those bytes to the engine. A truncated
  artifact left by a failed download stays as it is for good.
\<close>

theorem loads_never_repair:
  assumes "loads eng md w w'" and "fs_files w (artifact_path md s q) = Some b"
  shows "fs_files w' (artifact_path md s q) = Some b \<and>
    load eng md s q w' =
      (if accepts_model eng b then Inr \<lparr>model_path = artifact_path md s q, model_weights = b\<rparr>
       else Inl ModelLoadError, w')"
proof -
  have f: "fs_files w' (artifact_path md s q) = Some b"
    by (rule loads_keep_files [OF assms])
  then show ?thesis
    by (simp add: load_file_present)
qed

theorem loads_never_repair_witness:
  "loads demo_engine [] demo_world demo_world \<and> fs_files demo_world (artifact_path [] ''2b'' ''int8'') = Some [] \<and>
   fs_files demo_world (artifact_path [] ''2b'' ''int8'') = Some [] \<and>
   load demo_engine [] ''2b'' ''int8'' demo_world =
     (Inr \<lparr>model_path = artifact_path [] ''2b'' ''int8'', model_weights = []\<rparr>, demo_world)"
proof -
  have r: "loads demo_engine [] demo_world demo_world"
    by (rule loads_step [OF loads_refl load_demo_world])
  have f: "fs_files demo_world (artifact_path [] ''2b'' ''int8'') = Some []"
    by (simp add: artifact_path_2b_int8 demo_world_def)
  show ?thesis
    using r f loads_never_repair [OF r f] by (simp add: demo_engine_def)
qed

end
