(* ===== verification/Load_Steps.thy ===== *)
theory Load_Steps
  imports Loader_Live
begin

text \<open>
  \<open>moondream2_DownLoad.load\<close> (\<open>src/__init__.py\<close>, lines 27--58) as a machine that executes
  one statement per step, so that two loads running in concurrent host graphs (the spec's
  concurrency model, section 5: no lock around the shared artifact) can be interleaved.
  A program point \<open>ld_pc\<close> names the next statement of \<open>load\<close> or \<open>download\<close> with the
  local values it needs (the cache key \<open>gz\<close>, the gzip reader \<open>data\<close>, the commit hash);
  the copy loop takes one step per chunk, so another load can run between two writes.
  A solo run of the machine computes exactly the monadic \<open>Fetcher.load\<close>. Two loads run
  under a schedule, a list saying which of the two moves next.
\<close>

datatype ld_pc =
    LCheck
  | LFetch
  | LMkdir "string \<times> string"
  | LGzOpen "string \<times> string"
  | LOpenWb gz_reader
  | LCopy gz_reader
  | LMeta
  | LDelete string
  | LFromPath
  | LDone "py_error + vl_model"

text \<open>A statement that can raise: an exception ends the load, otherwise go on to \<open>k a\<close>.\<close>

fun then_pc :: "(py_error + 'a) \<times> world \<Rightarrow> ('a \<Rightarrow> ld_pc) \<Rightarrow> ld_pc \<times> world" where
  "then_pc (Inl e, w) k = (LDone (Inl e), w)"
| "then_pc (Inr a, w) k = (k a, w)"

fun ld_step :: "('img, 'enc) vl_engine \<Rightarrow> path \<Rightarrow> string \<Rightarrow> string \<Rightarrow> ld_pc \<Rightarrow> world \<Rightarrow> ld_pc \<times> world" where
  "ld_step eng md s q LCheck w =
     (if \<not> path_exists (artifact_path md s q) w then (LFetch, w) else (LFromPath, w))"
| "ld_step eng md s q LFetch w =
     then_pc (hf_hub_download hf_repo (model_file_name s q @ ''.gz'') hf_revision w) LMkdir"
| "ld_step eng md s q (LMkdir gz) w =
     then_pc (mkdir_parents (parent (artifact_path md s q)) w) (\<lambda>_. LGzOpen gz)"
| "ld_step eng md s q (LGzOpen gz) w = then_pc (gzip_open gz w) LOpenWb"
| "ld_step eng md s q (LOpenWb data) w = then_pc (open_wb (artifact_path md s q) w) (\<lambda>_. LCopy data)"
| "ld_step eng md s q (LCopy data) w =
     (case gz_read read_chunk_size data of
        (Inl e, data') \<Rightarrow> (LDone (Inl e), w)
      | (Inr chk, data') \<Rightarrow>
          if chk = [] then (LMeta, w)
          else then_pc (fs_write (artifact_path md s q) chk w) (\<lambda>_. LCopy data'))"
| "ld_step eng md s q LMeta w =
     then_pc (get_hf_file_metadata (hf_hub_url hf_repo (model_file_name s q @ ''.gz'') hf_revision) w) LDelete"
| "ld_step eng md s q (LDelete h) w = then_pc (delete_revisions h w) (\<lambda>_. LFromPath)"
| "ld_step eng md s q LFromPath w =
     (case from_path eng (artifact_path md s q) w of (r, w') \<Rightarrow> (LDone r, w'))"
| "ld_step eng md s q (LDone r) w = (LDone r, w)"

text \<open>One step as a relation on configurations, and runs as its reflexive-transitive closure.\<close>

definition ld_rel :: "('img, 'enc) vl_engine \<Rightarrow> path \<Rightarrow> string \<Rightarrow> string \<Rightarrow> ld_pc \<times> world \<Rightarrow> ld_pc \<times> world \<Rightarrow> bool" where
  "ld_rel eng md s q c c' \<longleftrightarrow> ld_step eng md s q (fst c) (snd c) = c'"

text \<open>
  Two loads, \<open>a\<close> and \<open>b\<close> (each a pair of options), sharing one world: \<open>True\<close> in the
  schedule moves \<open>a\<close> one statement, \<open>False\<close> moves \<open>b\<close>.
\<close>

fun sched_run :: "('img, 'enc) vl_engine \<Rightarrow> path \<Rightarrow> string \<times> string \<Rightarrow> string \<times> string \<Rightarrow> bool list \<Rightarrow>
    ld_pc \<times> ld_pc \<times> world \<Rightarrow> ld_pc \<times> ld_pc \<times> world" where
  "sched_run eng md a b [] c = c"
| "sched_run eng md a b (True # ps) (pa, pb, w) =
     (case ld_step eng md (fst a) (snd a) pa w of (pa', w') \<Rightarrow> sched_run eng md a b ps (pa', pb, w'))"
| "sched_run eng md a b (False # ps) (pa, pb, w) =
     (case ld_step eng md (fst b) (snd b) pb w of (pb', w') \<Rightarrow> sched_run eng md a b ps (pa, pb', w'))"

subsection \<open>A solo run, stage by stage\<close>

abbreviation ld_steps :: "('img, 'enc) vl_engine \<Rightarrow> path \<Rightarrow> string \<Rightarrow> string \<Rightarrow> ld_pc \<times> world \<Rightarrow> ld_pc \<times> world \<Rightarrow> bool" where
  "ld_steps eng md s q \<equiv> (ld_rel eng md s q)\<^sup>*\<^sup>*"

text \<open>Where a monadic result leaves the machine: an exception ends it, a normal return goes to \<open>pc\<close>.\<close>

fun out_to :: "ld_pc \<Rightarrow> (py_error + 'a) \<times> world \<Rightarrow> ld_pc \<times> world" where
  "out_to pc (Inl e, w) = (LDone (Inl e), w)"
| "out_to pc (Inr a, w) = (pc, w)"

lemma ld_steps_step: "ld_step eng md s q pc w = c \<Longrightarrow> ld_steps eng md s q c c' \<Longrightarrow> ld_steps eng md s q (pc, w) c'"
  by (rule converse_rtranclp_into_rtranclp) (simp_all add: ld_rel_def)

text \<open>A statement executed by one step, followed by the rest of the code.\<close>

lemma ld_steps_then:
  assumes "\<And>w. ld_step eng md s q pc w = then_pc (m w) k"
    and "\<And>a w'. ld_steps eng md s q (k a, w') (out_to pc' (f a w'))"
  shows "ld_steps eng md s q (pc, w) (out_to pc' (bind_st m f w))"
proof (cases "m w" rule: prod.exhaust)
  case (Pair r w1)
  then show ?thesis
    using assms by (cases r) (auto simp: bind_st_def intro: ld_steps_step)
qed

text \<open>The copy loop, one chunk per step, is \<open>copy_chunks\<close>.\<close>

lemma ld_steps_copy:
  assumes "\<And>w'. ld_steps eng md s q (LMeta, w') (out_to pc' (g () w'))"
  shows "ld_steps eng md s q (LCopy data, w)
           (out_to pc' (bind_st (copy_chunks read_chunk_size (artifact_path md s q) data) g w))"
proof (induction read_chunk_size "artifact_path md s q" data w rule: copy_chunks.induct)
  case (1 data w)
  show ?case
  proof (cases "gz_read read_chunk_size data" rule: prod.exhaust)
    case (Pair rr data')
    show ?thesis
    proof (cases rr)
      case (Inl e)
      then show ?thesis
        using Pair by (auto simp: bind_st_def copy_chunks.simps intro: ld_steps_step)
    next
      case (Inr chk)
      show ?thesis
      proof (cases "chk = []")
        case True
        then show ?thesis
          using Pair Inr assms by (auto simp: bind_st_def copy_chunks.simps intro: ld_steps_step)
      next
        case False
        obtain wr w1 where wr: "fs_write (artifact_path md s q) chk w = (wr, w1)"
          by fastforce
        then show ?thesis
          using Pair Inr False "1" [OF Pair [symmetric] Inr False]
          by (cases wr) (auto simp: bind_st_def copy_chunks.simps intro: ld_steps_step)
      qed
    qed
  qed
qed

lemma then_pc_out: "then_pc r (\<lambda>_. pc) = out_to pc r"
proof (cases r)
  case (Pair a w)
  then show ?thesis
    by (cases a) simp_all
qed

text \<open>The body of \<open>download\<close>, statement by statement, ends where \<open>download\<close> does.\<close>

lemma ld_steps_download:
  "ld_steps eng md s q (LFetch, w) (out_to LFromPath (download (model_file_name s q) (artifact_path md s q) w))"
proof -
  let ?mf = "artifact_path md s q" and ?url = "hf_hub_url hf_repo (model_file_name s q @ ''.gz'') hf_revision"
  have del: "ld_steps eng md s q (LDelete h, w') (out_to LFromPath (delete_revisions h w'))" for h w'
    by (rule ld_steps_step [OF _ rtranclp.rtrancl_refl]) (simp add: then_pc_out)
  have meta: "ld_steps eng md s q (LMeta, w')
      (out_to LFromPath (bind_st (get_hf_file_metadata ?url) delete_revisions w'))" for w'
    by (rule ld_steps_then [where k = LDelete]) (simp_all add: del)
  have copy: "ld_steps eng md s q (LCopy data, w')
      (out_to LFromPath (bind_st (copy_chunks read_chunk_size ?mf data)
        (\<lambda>_. bind_st (get_hf_file_metadata ?url) delete_revisions) w'))" for data w'
    by (rule ld_steps_copy) (simp add: meta)
  have opn: "ld_steps eng md s q (LOpenWb data, w')
      (out_to LFromPath (bind_st (open_wb ?mf) (\<lambda>_. bind_st (copy_chunks read_chunk_size ?mf data)
        (\<lambda>_. bind_st (get_hf_file_metadata ?url) delete_revisions)) w'))" for data w'
    by (rule ld_steps_then [where k = "\<lambda>_. LCopy data"]) (simp_all add: copy)
  have gz: "ld_steps eng md s q (LGzOpen gz, w')
      (out_to LFromPath (bind_st (gzip_open gz) (\<lambda>data. bind_st (open_wb ?mf) (\<lambda>_.
        bind_st (copy_chunks read_chunk_size ?mf data)
        (\<lambda>_. bind_st (get_hf_file_metadata ?url) delete_revisions))) w'))" for gz w'
    by (rule ld_steps_then [where k = LOpenWb]) (simp_all add: opn)
  have mk: "ld_steps eng md s q (LMkdir gz, w')
      (out_to LFromPath (bind_st (mkdir_parents (parent ?mf)) (\<lambda>_. bind_st (gzip_open gz) (\<lambda>data.
        bind_st (open_wb ?mf) (\<lambda>_. bind_st (copy_chunks read_chunk_size ?mf data)
        (\<lambda>_. bind_st (get_hf_file_metadata ?url) delete_revisions)))) w'))" for gz w'
    by (rule ld_steps_then [where k = "\<lambda>_. LGzOpen gz"]) (simp_all add: gz)
  show ?thesis
    unfolding download_def by (rule ld_steps_then [where k = LMkdir]) (simp_all add: mk)
qed

text \<open>A solo run from the existence check ends with the result and world of \<open>load\<close>.\<close>

lemma ld_steps_load: "ld_steps eng md s q (LCheck, w) (LDone (fst (load eng md s q w)), snd (load eng md s q w))"
proof -
  let ?mf = "artifact_path md s q"
  have fp: "ld_steps eng md s q (LFromPath, w') (LDone (fst (from_path eng ?mf w')), snd (from_path eng ?mf w'))" for w'
    by (rule ld_steps_step [OF _ rtranclp.rtrancl_refl]) (simp split: prod.splits)
  show ?thesis
  proof (cases "path_exists ?mf w")
    case True
    then show ?thesis
      using fp [of w] by (auto simp: load_def ensure_artifact_def intro: ld_steps_step)
  next
    case False
    obtain r w1 where dl: "download (model_file_name s q) ?mf w = (r, w1)"
      by fastforce
    have run: "ld_steps eng md s q (LCheck, w) (out_to LFromPath (r, w1))"
      using False ld_steps_download [of eng md s q w] dl by (auto intro: ld_steps_step)
    have ld: "load eng md s q w = bind_st (\<lambda>_. (r, w1)) (\<lambda>_. from_path eng ?mf) w"
      using False dl by (simp add: load_def ensure_artifact_def bind_st_def)
    show ?thesis
    proof (cases r)
      case (Inl e)
      then show ?thesis
        using run ld by (simp add: bind_st_def)
    next
      case (Inr u)
      then have "ld_steps eng md s q (LCheck, w) (LFromPath, w1)"
        using run by simp
      then show ?thesis
        using rtranclp_trans [OF _ fp [of w1]] ld Inr by (simp add: bind_st_def)
    qed
  qed
qed

subsection \<open>Runs are deterministic\<close>

lemma ld_steps_linear:
  assumes "ld_steps eng md s q c c1" and "ld_steps eng md s q c c2"
  shows "ld_steps eng md s q c1 c2 \<or> ld_steps eng md s q c2 c1"
  using assms
proof (induction c arbitrary: c2 rule: converse_rtranclp_induct)
  case base
  then show ?case
    by simp
next
  case (step c y)
  from step.prems show ?case
  proof (cases rule: converse_rtranclpE)
    case base
    then show ?thesis
      using step.hyps by (auto intro: converse_rtranclp_into_rtranclp)
  next
    case (step y')
    then have "y' = y"
      using \<open>ld_rel eng md s q c y\<close> by (simp add: ld_rel_def)
    then show ?thesis
      using step.IH step(2) by simp
  qed
qed

lemma ld_steps_from_done: "ld_steps eng md s q (LDone r, w) c \<Longrightarrow> c = (LDone r, w)"
  by (induction rule: rtranclp_induct) (auto simp: ld_rel_def)

lemma ld_steps_done_unique:
  "ld_steps eng md s q c (LDone r1, w1) \<Longrightarrow> ld_steps eng md s q c (LDone r2, w2) \<Longrightarrow> (r1, w1) = (r2, w2)"
proof -
  assume a: "ld_steps eng md s q c (LDone r1, w1)" and b: "ld_steps eng md s q c (LDone r2, w2)"
  from ld_steps_linear [OF a b] show ?thesis
  proof
    assume "ld_steps eng md s q (LDone r1, w1) (LDone r2, w2)"
    then show ?thesis
      by (auto dest: ld_steps_from_done)
  next
    assume "ld_steps eng md s q (LDone r2, w2) (LDone r1, w1)"
    then show ?thesis
      by (auto dest: ld_steps_from_done)
  qed
qed

subsection \<open>Schedules\<close>

lemma sched_run_append: "sched_run eng md a b (xs @ ys) c = sched_run eng md a b ys (sched_run eng md a b xs c)"
proof (induction xs arbitrary: c)
  case Nil
  then show ?case
    by simp
next
  case (Cons x xs)
  obtain pa pb w where c: "c = (pa, pb, w)"
    by (cases c) auto
  show ?case
    using Cons by (cases x) (simp_all add: c split: prod.splits)
qed

text \<open>While only \<open>b\<close> is scheduled, \<open>b\<close> runs alone and \<open>a\<close> waits.\<close>

lemma sched_run_only_b:
  "sched_run eng md a b (replicate k False) (pa, pb, w) =
     (case ((\<lambda>c. ld_step eng md (fst b) (snd b) (fst c) (snd c)) ^^ k) (pb, w) of (pb', w') \<Rightarrow> (pa, pb', w'))"
proof (induction k arbitrary: pb w)
  case 0
  then show ?case
    by simp
next
  case (Suc k)
  obtain pb1 w1 where st: "ld_step eng md (fst b) (snd b) pb w = (pb1, w1)"
    by fastforce
  have "((\<lambda>c. ld_step eng md (fst b) (snd b) (fst c) (snd c)) ^^ Suc k) (pb, w) =
        ((\<lambda>c. ld_step eng md (fst b) (snd b) (fst c) (snd c)) ^^ k) (pb1, w1)"
    using st by (simp add: funpow_Suc_right del: funpow.simps)
  then show ?case
    using Suc st by simp
qed

text \<open>A run of one load is a number of its steps.\<close>

lemma ld_steps_funpow:
  "ld_steps eng md s q c c' \<Longrightarrow> \<exists>k. ((\<lambda>c. ld_step eng md s q (fst c) (snd c)) ^^ k) c = c'"
proof (induction rule: rtranclp_induct)
  case base
  show ?case
    by (rule exI [of _ 0]) simp
next
  case (step y z)
  then obtain k where "((\<lambda>c. ld_step eng md s q (fst c) (snd c)) ^^ k) c = y"
    by blast
  then have "((\<lambda>c. ld_step eng md s q (fst c) (snd c)) ^^ Suc k) c = z"
    using step.hyps(2) by (simp add: ld_rel_def)
  then show ?case
    by blast
qed

text \<open>Scheduled alone, \<open>b\<close> runs to the end of its \<open>load\<close> while \<open>a\<close> waits.\<close>

lemma sched_run_b_solo:
  "\<exists>k. sched_run eng md a b (replicate k False) (pa, LCheck, w) =
     (pa, LDone (fst (load eng md (fst b) (snd b) w)), snd (load eng md (fst b) (snd b) w))"
proof -
  obtain k where "((\<lambda>c. ld_step eng md (fst b) (snd b) (fst c) (snd c)) ^^ k) (LCheck, w) =
      (LDone (fst (load eng md (fst b) (snd b) w)), snd (load eng md (fst b) (snd b) w))"
    using ld_steps_funpow [OF ld_steps_load] by blast
  then show ?thesis
    by (auto simp: sched_run_only_b)
qed

text \<open>The existence check and the fetch of a missing artifact, step by step.\<close>

lemma ld_check_fetch:
  assumes miss: "\<not> path_exists (artifact_path md s q) w" and on: "online w"
    and hub: "hub_files w (model_file_name s q @ ''.gz'') = Some (GzStream xs True)"
    and cache: "hf_cache w (hub_commit w, model_file_name s q @ ''.gz'') \<in> {None, Some (GzStream xs True)}"
  shows "ld_step eng md s q LCheck w = (LFetch, w)"
    and "\<exists>w1. ld_step eng md s q LFetch w = (LMkdir (hub_commit w, model_file_name s q @ ''.gz''), w1) \<and>
      hf_cache w1 = (hf_cache w)((hub_commit w, model_file_name s q @ ''.gz'') \<mapsto> GzStream xs True) \<and>
      fs_files w1 = fs_files w \<and> fs_dirs w1 = fs_dirs w \<and> disk_free w1 = disk_free w \<and>
      hub_files w1 = hub_files w \<and> hub_commit w1 = hub_commit w \<and> online w1 = online w"
  using assms by (auto simp: hf_hub_download_def Let_def fun_upd_idem)

text \<open>In a ready world, the first load passes the existence check and fetches (or finds) its blob.\<close>

lemma ready_check_fetch:
  assumes "fetch_ready md ((s, q) # ops) w"
  obtains xs w1 where "ld_step eng md s q LCheck w = (LFetch, w)"
    "ld_step eng md s q LFetch w = (LMkdir (hub_commit w, model_file_name s q @ ''.gz''), w1)"
    "hf_cache w1 = (hf_cache w)((hub_commit w, model_file_name s q @ ''.gz'') \<mapsto> GzStream xs True)"
    "fs_files w1 = fs_files w" "fs_dirs w1 = fs_dirs w" "disk_free w1 = disk_free w"
    "hub_files w1 = hub_files w" "hub_commit w1 = hub_commit w" "online w1 = online w"
    "\<not> path_exists (artifact_path md s q) w" "\<not> list_ex (\<lambda>p. fs_files w p \<noteq> None) (prefixes_of (ROOT md))"
    "remote_artifact w (model_file_name s q) = Some xs"
proof -
  from assms obtain xs where miss: "\<not> path_exists (artifact_path md s q) w" and on: "online w"
    and hub: "hub_files w (model_file_name s q @ ''.gz'') = Some (GzStream xs True)"
    and nc: "hf_cache w (hub_commit w, model_file_name s q @ ''.gz'') \<in> {None, Some (GzStream xs True)}"
    and mk: "\<not> list_ex (\<lambda>p. fs_files w p \<noteq> None) (prefixes_of (ROOT md))"
    and rem: "remote_artifact w (model_file_name s q) = Some xs"
    by (rule fetch_ready_head)
  show ?thesis
    using that [OF ld_check_fetch(1) [OF miss on hub nc]] ld_check_fetch(2) [OF miss on hub nc, of eng] miss mk rem
    by blast
qed

text \<open>The second option pair of a world ready for two meets the conditions of \<open>Fetcher.load_fresh\<close>.\<close>

lemma fetch_ready_second:
  assumes "fetch_ready md [(s, q), (s', q')] w"
  obtains ys where "\<not> path_exists (artifact_path md s' q') w"
    "hub_files w (model_file_name s' q' @ ''.gz'') = Some (GzStream ys True)"
    "length ys \<le> disk_free w" "remote_artifact w (model_file_name s' q') = Some ys"
    "hf_cache w (hub_commit w, model_file_name s' q' @ ''.gz'') \<in> {None, Some (GzStream ys True)}"
proof -
  from assms obtain ys where rem: "remote_artifact w (model_file_name s' q') = Some ys"
    by (auto simp: fetch_ready_def)
  then have hub: "hub_files w (model_file_name s' q' @ ''.gz'') = Some (GzStream ys True)"
    by (auto simp: remote_artifact_def split: option.splits gz_blob.splits bool.splits)
  have "hf_cache w (hub_commit w, model_file_name s' q' @ ''.gz'') \<in> {None, Some (GzStream ys True)}"
    using assms hub by (cases "hf_cache w (hub_commit w, model_file_name s' q' @ ''.gz'')")
      (auto simp: fetch_ready_def cache_coherent_def)
  with assms rem hub show ?thesis
    using that by (auto simp: fetch_ready_def)
qed

text \<open>
  The step machine is \<open>load\<close>: a solo run from the existence check ends with result
  \<open>r\<close> in world \<open>w'\<close> exactly when \<open>load\<close> returns \<open>r\<close> and leaves \<open>w'\<close> (every run
  ends, and it ends there only).
\<close>

lemma ld_steps_iff_load: "ld_steps eng md s q (LCheck, w) (LDone r, w') \<longleftrightarrow> load eng md s q w = (r, w')"
proof
  assume "ld_steps eng md s q (LCheck, w) (LDone r, w')"
  from ld_steps_done_unique [OF this ld_steps_load] show "load eng md s q w = (r, w')"
    by (metis prod.collapse)
next
  assume "load eng md s q w = (r, w')"
  then show "ld_steps eng md s q (LCheck, w) (LDone r, w')"
    using ld_steps_load [of eng md s q w] by simp
qed

subsection \<open>Properties\<close>

text \<open>
  C30. Two concurrent loads of the same missing artifact race on the existence check, the
  code's only synchronisation: when the first has opened the file for writing and not
  yet written its first chunk, the second finds the path, skips the download and hands
  the empty file to the engine's loader, while the first goes on copying the stream.
\<close>

theorem concurrent_load_reads_partial:
  assumes ready: "fetch_ready md [(s, q)] w" and rem: "remote_artifact w (model_file_name s q) = Some xs"
  shows "\<exists>w1. sched_run eng md (s, q) (s, q) [True, True, True, True, True, False, False] (LCheck, LCheck, w) =
      (LCopy \<lparr>gz_rest = xs, gz_ok = True\<rparr>, LDone (fst (from_path eng (artifact_path md s q) w1)), w1) \<and>
      fs_files w1 (artifact_path md s q) = Some []"
proof -
  let ?mf = "artifact_path md s q" and ?key = "(hub_commit w, model_file_name s q @ ''.gz'')"
  from ready obtain ys w1 where s1: "ld_step eng md s q LCheck w = (LFetch, w)"
    and s2: "ld_step eng md s q LFetch w = (LMkdir ?key, w1)"
    and c1: "hf_cache w1 = (hf_cache w)(?key \<mapsto> GzStream ys True)"
    and e1: "fs_files w1 = fs_files w" "fs_dirs w1 = fs_dirs w" "disk_free w1 = disk_free w"
    and miss: "\<not> path_exists ?mf w" and mk: "\<not> list_ex (\<lambda>p. fs_files w p \<noteq> None) (prefixes_of (ROOT md))"
    and rem': "remote_artifact w (model_file_name s q) = Some ys"
    by (rule ready_check_fetch)
  have ys: "ys = xs"
    using rem rem' by simp
  define w2 where "w2 = w1\<lparr>fs_dirs := fs_dirs w1 \<union> set (prefixes_of (ROOT md))\<rparr>"
  define w3 where "w3 = w2\<lparr>fs_files := (fs_files w1)(?mf \<mapsto> []), disk_free := disk_free w1\<rparr>"
  have nd: "?mf \<notin> fs_dirs w" and nf: "fs_files w ?mf = None"
    using miss by (auto simp: path_exists_def)
  have s3: "ld_step eng md s q (LMkdir ?key) w1 = (LGzOpen ?key, w2)"
    using mk by (simp add: w2_def mkdir_parents_def parent_artifact_path e1)
  have s4: "ld_step eng md s q (LGzOpen ?key) w2 = (LOpenWb \<lparr>gz_rest = xs, gz_ok = True\<rparr>, w2)"
    by (simp add: w2_def gzip_open_def c1 ys)
  have "ROOT md \<noteq> []"
    by (simp add: ROOT_def)
  then have s5: "ld_step eng md s q (LOpenWb \<lparr>gz_rest = xs, gz_ok = True\<rparr>) w2 = (LCopy \<lparr>gz_rest = xs, gz_ok = True\<rparr>, w3)"
    using nd nf parent_in_prefixes [of "ROOT md"] artifact_not_prefix [of md s q]
    by (auto simp: w2_def w3_def open_wb_def parent_artifact_path e1)
  have s6: "ld_step eng md s q LCheck w3 = (LFromPath, w3)"
    by (simp add: w3_def path_exists_def)
  have s7: "ld_step eng md s q LFromPath w3 = (LDone (fst (from_path eng ?mf w3)), w3)"
    by (auto split: prod.splits dest: from_path_world)
  have "sched_run eng md (s, q) (s, q) [True, True, True, True, True, False, False] (LCheck, LCheck, w) =
      (LCopy \<lparr>gz_rest = xs, gz_ok = True\<rparr>, LDone (fst (from_path eng ?mf w3)), w3)"
    by (simp only: sched_run.simps s1 s2 s3 s4 s5 s6 s7 prod.case fst_conv snd_conv)
  moreover have "fs_files w3 ?mf = Some []"
    by (simp add: w3_def)
  ultimately show ?thesis
    by blast
qed

text \<open>
  C31. Concurrent loads of two different models interfere through the hub cache: the
  clean-up of one download deletes the whole cached revision, including the blob the
  other load has just fetched and not yet opened. With the second load running in full
  between the fetch and the \<open>gzip.open\<close> of the first, the first raises
  \<open>FileNotFoundError\<close> although the hub holds its artifact intact, while the second
  ends with its artifact in place.
\<close>

theorem concurrent_loads_evict_cache:
  assumes ready: "fetch_ready md [(s, q), (s', q')] w" and diff: "model_file_name s' q' \<noteq> model_file_name s q"
  shows "\<exists>k rb w'. sched_run eng md (s, q) (s', q') ([True, True] @ replicate k False @ [True, True]) (LCheck, LCheck, w) =
      (LDone (Inl FileNotFoundError), LDone rb, w') \<and> rb = fst (from_path eng (artifact_path md s' q') w') \<and>
      fs_files w' (artifact_path md s' q') = remote_artifact w (model_file_name s' q')"
proof -
  let ?mfa = "artifact_path md s q" and ?mfb = "artifact_path md s' q'"
  let ?ka = "(hub_commit w, model_file_name s q @ ''.gz'')"
  from ready obtain xs w1 where s1: "ld_step eng md s q LCheck w = (LFetch, w)"
    and s2: "ld_step eng md s q LFetch w = (LMkdir ?ka, w1)"
    and c1: "hf_cache w1 = (hf_cache w)(?ka \<mapsto> GzStream xs True)"
    and e1: "fs_files w1 = fs_files w" "fs_dirs w1 = fs_dirs w" "disk_free w1 = disk_free w"
      "hub_files w1 = hub_files w" "hub_commit w1 = hub_commit w" "online w1 = online w"
    and mk: "\<not> list_ex (\<lambda>p. fs_files w p \<noteq> None) (prefixes_of (ROOT md))"
    by (rule ready_check_fetch)
  from ready obtain ys where missb: "\<not> path_exists ?mfb w"
    and hubb: "hub_files w (model_file_name s' q' @ ''.gz'') = Some (GzStream ys True)"
    and spb: "length ys \<le> disk_free w" and remb: "remote_artifact w (model_file_name s' q') = Some ys"
    and ncb: "hf_cache w (hub_commit w, model_file_name s' q' @ ''.gz'') \<in> {None, Some (GzStream ys True)}"
    by (rule fetch_ready_second)
  have a2: "sched_run eng md (s, q) (s', q') [True, True] (LCheck, LCheck, w) = (LMkdir ?ka, LCheck, w1)"
    by (simp only: sched_run.simps s1 s2 prod.case fst_conv snd_conv)
  have ncb1: "hf_cache w1 (hub_commit w1, model_file_name s' q' @ ''.gz'') \<in> {None, Some (GzStream ys True)}"
    using ncb diff by (simp add: c1 e1)
  obtain wb where ldb: "load eng md s' q' w1 = (fst (from_path eng ?mfb wb), wb)"
    and fb: "fs_files wb = (fs_files w)(?mfb \<mapsto> ys)" and db: "fs_dirs wb = fs_dirs w \<union> set (prefixes_of (ROOT md))"
    and cb: "hf_cache wb = (\<lambda>k. if fst k = hub_commit w then None else hf_cache w1 k)"
    using load_fresh [of md s' q' w1 ys eng] missb hubb ncb1 mk spb ready by (auto simp: path_exists_def e1 fetch_ready_def)
  obtain k where b: "sched_run eng md (s, q) (s', q') (replicate k False) (LMkdir ?ka, LCheck, w1) =
      (LMkdir ?ka, LDone (fst (from_path eng ?mfb wb)), wb)"
    using sched_run_b_solo [of eng md "(s, q)" "(s', q')" "LMkdir ?ka" w1] ldb by auto
  have "ld_step eng md s q (LMkdir ?ka) wb = (LGzOpen ?ka, wb)"
    using mk artifact_not_prefix [of md s' q'] db fb
    by (auto simp: mkdir_parents_def parent_artifact_path list_ex_iff)
  moreover have "ld_step eng md s q (LGzOpen ?ka) wb = (LDone (Inl FileNotFoundError), wb)"
    by (simp add: gzip_open_def cb)
  ultimately have a4: "sched_run eng md (s, q) (s', q') [True, True] (LMkdir ?ka, LDone (fst (from_path eng ?mfb wb)), wb) =
      (LDone (Inl FileNotFoundError), LDone (fst (from_path eng ?mfb wb)), wb)"
    by simp
  have "sched_run eng md (s, q) (s', q') ([True, True] @ replicate k False @ [True, True]) (LCheck, LCheck, w) =
      (LDone (Inl FileNotFoundError), LDone (fst (from_path eng ?mfb wb)), wb)"
    by (simp only: sched_run_append a2 b a4)
  moreover have "fs_files wb ?mfb = remote_artifact w (model_file_name s' q')"
    by (simp add: fb remb)
  ultimately show ?thesis
    by blast
qed

theorem concurrent_load_reads_partial_witness:
  "fetch_ready [] [(''2b'', ''int8'')] ready_world \<and>
   remote_artifact ready_world (model_file_name ''2b'' ''int8'') = Some [4, 5] \<and>
   (\<exists>w1. sched_run demo_engine [] (''2b'', ''int8'') (''2b'', ''int8'') [True, True, True, True, True, False, False]
        (LCheck, LCheck, ready_world) =
      (LCopy \<lparr>gz_rest = [4, 5], gz_ok = True\<rparr>, LDone (fst (from_path demo_engine (artifact_path [] ''2b'' ''int8'') w1)), w1) \<and>
      fs_files w1 (artifact_path [] ''2b'' ''int8'') = Some [])"
proof -
  have r: "fetch_ready [] [(''2b'', ''int8'')] ready_world"
    by (simp add: fetch_ready_def cache_coherent_def ready_world_def model_file_name_def str_replace_char artifact_path_def
        ROOT_def path_exists_def remote_artifact_def prefixes_of_def)
  have m: "remote_artifact ready_world (model_file_name ''2b'' ''int8'') = Some [4, 5]"
    by (simp add: ready_world_def model_file_name_def str_replace_char remote_artifact_def)
  show ?thesis
    using r m concurrent_load_reads_partial [OF r m, of demo_engine] by blast
qed

theorem concurrent_loads_evict_cache_witness:
  "fetch_ready [] [(''0.5b'', ''int4''), (''2b'', ''int8'')] ready_world \<and>
   model_file_name ''2b'' ''int8'' \<noteq> model_file_name ''0.5b'' ''int4'' \<and>
   (\<exists>k rb w'. sched_run demo_engine [] (''0.5b'', ''int4'') (''2b'', ''int8'')
        ([True, True] @ replicate k False @ [True, True]) (LCheck, LCheck, ready_world) =
      (LDone (Inl FileNotFoundError), LDone rb, w') \<and> rb = fst (from_path demo_engine (artifact_path [] ''2b'' ''int8'') w') \<and>
      fs_files w' (artifact_path [] ''2b'' ''int8'') = remote_artifact ready_world (model_file_name ''2b'' ''int8''))"
proof -
  have r: "fetch_ready [] [(''0.5b'', ''int4''), (''2b'', ''int8'')] ready_world"
    by (simp add: fetch_ready_def cache_coherent_def ready_world_def model_file_name_def str_replace_char artifact_path_def
        ROOT_def path_exists_def remote_artifact_def prefixes_of_def)
  have d: "model_file_name ''2b'' ''int8'' \<noteq> model_file_name ''0.5b'' ''int4''"
    by (simp add: model_file_name_def str_replace_char)
  show ?thesis
    using r d concurrent_loads_evict_cache [OF r d, of demo_engine] by blast
qed

end
