(* ===== verification/Spec2Isabelle.thy ===== *)
theory Spec2Isabelle
  imports Workflow Read_Loop Load_Steps
begin

text \<open>
  Verification development of the moondream2 node pack, whose code is the single module
  \<open>src/__init__.py\<close>: four ComfyUI node classes and their registration.

  \<^bold>\<open>The program.\<close> \<open>moondream2_DownLoad.load\<close> turns the options size (\<open>0.5b\<close>,
  \<open>2b\<close>) and quant (\<open>int4\<close>, \<open>int8\<close>) into the file name
  \<open>moondream-<size with . replaced by _>-<quant>.mf\<close> under \<open>models_dir/LLM\<close>; if no
  such path exists, \<open>download\<close> fetches \<open><name>.gz\<close> from revision \<open>onnx\<close> of the hub
  repository \<open>vikhyatk/moondream2\<close>, creates the parent directories, decompresses the
  stream into the path in chunks of 1024576 bytes, asks the hub for the file's commit
  and deletes that whole revision from the hub cache; the file is then loaded by
  \<open>OnnxVL.from_path\<close>. \<open>moondream2_Encode.encode\<close> takes frame 0 of the image batch,
  permutes it to channel-first, converts it with torchvision's \<open>to_pil_image\<close> and
  hands it to the engine's \<open>encode_image\<close>. \<open>moondream2_Caption.caption\<close> maps
  \<open>"long"\<close> to \<open>"normal"\<close> and returns the engine's \<open>caption\<close> field;
  \<open>moondream2_Query.caption\<close> returns the \<open>answer\<close> field. The host reads each
  class's \<open>INPUT_TYPES\<close>, \<open>RETURN_TYPES\<close> and \<open>FUNCTION\<close> through
  \<open>NODE_CLASS_MAPPINGS\<close> and wires nodes by socket type.

  \<^bold>\<open>The theories.\<close>
  \<^item> \<open>Prelude\<close>: the Python exceptions as the datatype \<open>py_error\<close>; the state-exception
    monad \<open>('s, 'a) st\<close> (\<open>ret\<close>, \<open>throw\<close>, \<open>bind_st\<close>; an exception keeps the effects
    made before it); dict subscription \<open>getitem\<close>; lists of equal-length blocks.
  \<^item> \<open>World\<close>: the world the loader acts on (files, directories, free disk space, the
    hub's files and commit, connectivity, the hub cache, the request log) and the
    library calls it makes: \<open>Path.exists\<close>, \<open>mkdir(parents=True)\<close>, \<open>open(.., "wb")\<close>,
    \<open>write\<close>, \<open>hf_hub_download\<close> (with its offline fallback to the cached file),
    \<open>hf_hub_url\<close>, \<open>get_hf_file_metadata\<close>, \<open>delete_revisions\<close>; the frame
    predicate \<open>writes_only\<close>.
  \<^item> \<open>Stream_Copy\<close>: \<open>gzip.open\<close>/\<open>read\<close> and the loop of \<open>download\<close> (lines 35--38) as
    \<open>copy_chunks\<close>, a \<open>function\<close> terminating on the length of the unread stream, shown
    equal to the reference \<open>copy_spec\<close> (write the chunks of the readable prefix, then
    raise if the stream is corrupt); its behaviour on clean, corrupt and full-disk runs,
    and that whatever the outcome the file grows by a prefix of the stream.
  \<^item> \<open>Read_Loop\<close>: the same loop as Python writes it, \<open>iter(read_chk, b"")\<close> over an
    arbitrary reader, as \<open>partial_function (option)\<close> \<open>iter_copy\<close>; it returns for every
    reader (each non-empty chunk takes disk space) and equals \<open>copy_chunks\<close> on gzip.
  \<^item> \<open>Py_Str\<close>: Python's \<open>str.replace\<close>.
  \<^item> \<open>Engine\<close>: the \<open>OnnxVL\<close> handle and its methods as an interface record
    \<open>vl_engine\<close>, so every theorem about the nodes holds for any engine; \<open>from_path\<close>.
  \<^item> \<open>Fetcher\<close>: \<open>download\<close> (lines 27--49) and \<open>load\<close> (lines 51--59) with
    \<open>model_file_name\<close>, \<open>artifact_path\<close>, \<open>ensure_artifact\<close>; what loading does on an
    existing, missing, corrupt, offline (with and without the blob cached) or directory
    artifact, idempotence, file names; Hoare triples per statement showing that any
    download, whatever its outcome, changes only its destination and leaves there a
    prefix of the hub content of the blob it names (\<open>download_from_hub\<close>).
  \<^item> \<open>Loader_Runs\<close>: runs of any number of loads as the inductive relation \<open>loads\<close>;
    Hoare triples (\<open>Prelude.hoare\<close>) per library call give that the hub cache stays
    coherent with the hub, that every file at an artifact path holds a prefix of that
    artifact's hub content (\<open>artifacts_from_hub\<close>, kept along every run), and that
    once an artifact's path exists no later load of the run fetches its blob again.
  \<^item> \<open>Loader_Spec\<close>: the design's contract \<open>ensure_local\<close> on an abstract store
    (\<open>abs_store\<close>); every successful \<open>ensure_artifact\<close> refines it, and a downloaded
    handle carries exactly the hub's decompressed artifact.
  \<^item> \<open>Loader_Live\<close>: progress of runs. A load never rewrites a regular file that exists
    (so a truncated artifact is never repaired), and from a world ready to fetch a list
    of option pairs (\<open>fetch_ready\<close>: online, the hub cache agreeing with the hub as
    the invariant of \<open>Loader_Runs\<close> requires, the models directory creatable, every artifact missing locally and intact on the hub,
    room for all) the run \<open>run_loads\<close> loading each pair once, in order, reaches a
    world holding every artifact with exactly the hub's content (liveness, by induction
    on the list).
  \<^item> \<open>Load_Steps\<close>: \<open>load\<close> and \<open>download\<close> as a machine executing one statement
    per step (\<open>ld_pc\<close>, \<open>ld_step\<close>; the copy loop one chunk per step), shown to compute
    exactly the monadic \<open>load\<close> on a solo run (a lemma the races build on); two loads of concurrent host graphs
    interleaved by an explicit schedule (\<open>sched_run\<close>, spec section 5). Two races follow:
    a load of the same artifact reads the file another load has opened and not yet
    written, and the whole-revision cache clean-up of one load deletes the blob another
    load of a different model has fetched and not yet opened.
  \<^item> \<open>Text_Nodes\<close>: the caption and query nodes (lines 82--133).
  \<^item> \<open>Tensor\<close>: row-major tensors, \<open>permute\<close> and \<open>image[0]\<close>; permutation keeps
    well-formedness, and \<open>(2, 0, 1)\<close> followed by \<open>(1, 2, 0)\<close> is the identity.
  \<^item> \<open>Pil\<close>: \<open>to_pil_image\<close> (torchvision) with \<open>pic.mul(255).byte()\<close> as
    \<open>float_to_byte\<close> into \<open>8 word\<close>: exact \<open>floor(255 x)\<close> on \<open>[0, 1]\<close>, wrap-around
    outside.
  \<^item> \<open>Image_Adapter\<close>: the encode node (lines 61--80): the engine receives the first
    frame's own pixels (the two transpositions cancel); only frame 0 matters; the error
    cases; outside \<open>[0, 1]\<close> the bytes wrap (\<open>encode_wraps\<close>).
  \<^item> \<open>Registry\<close>: the classes' \<open>INPUT_TYPES\<close>, \<open>RETURN_TYPES\<close>, \<open>RETURN_NAMES\<close>,
    \<open>FUNCTION\<close>, \<open>CATEGORY\<close> and the two mapping dicts (lines 8--25, 61--73, 82--100,
    111--126, 135--147) and their consistency.
  \<^item> \<open>Workflow\<close>: the host's side: socket values, input validation, resolution of
    \<open>FUNCTION\<close> and keyword binding as the datatype \<open>node_call\<close> the host and the nodes
    agree on, \<open>exec_call\<close> running the repository's methods, \<open>run_node\<close>, and
    \<open>run_graph\<close> over nodes linked to earlier outputs. The host builds the keyword
    arguments from the declared inputs only, so \<open>bind_args\<close> reads the keys a method
    takes and no call with an unexpected keyword arises.
  \<^item> This theory: the properties that span the host interface and the nodes: the
    workflow load, encode, caption run on an existing artifact and on a fresh machine
    where it downloads the artifact first; dispatch of a node to its method, and its
    outputs typed as its class declares.

  \<^bold>\<open>Bounds and abstractions.\<close> The chunk size is the source's 1024576; the copy loop
  needs no fuel: \<open>copy_chunks\<close> terminates on the length of the stream, and the literal
  \<open>iter_copy\<close> is proved to return (\<open>Some\<close>) for every reader by induction on the free
  disk space. The liveness theorem needs no bound on the number of loads: the run has one
  load per option pair, and each is shown to succeed from the world the previous one left;
  its disk bound is the sum of the artifacts' sizes. Pixel values are exact rationals (float32
  rounding of \<open>x * 255\<close> is not modelled); bytes are \<open>8 word\<close>, so \<open>.byte()\<close>'s
  wrap-around is exact. Disk space is a byte count; a write that does not fit fails
  without writing (partial writes are not modelled). Directories are a set of paths.

  \<^bold>\<open>Not modelled.\<close> ONNX inference (the engine is a parameter); the host's scheduling
  and output caching (a graph runs sequentially in list order); concurrency finer than
  one statement (two writes to one file are atomic steps, and the separate file offsets of
  two open handles are not modelled: the interleaved loads share the file's content);
  hub authentication and retries; the offline fallback of \<open>hf_hub_download\<close> uses the
  hub's commit as the revision's last resolved commit (the library reads it from its
  \<open>refs\<close> file).
\<close>

lemma encode_one_pixel: "encode pil_demo_engine m \<lparr>t4_shape = (1, 1, 1, 1), t4_data = [1 :: rat]\<rparr> = Inr [255]"
proof -
  have "(case permute3 (2, 0, 1) \<lparr>t3_shape = (1, 1, 1), t3_data = [1 :: rat]\<rparr> of Inl e \<Rightarrow> Inl e | Inr img \<Rightarrow> to_pil_image img) =
     Inr \<lparr>pil_mode = channel_mode 1, pil_size = (1, 1), pil_bytes = map float_to_byte [1]\<rparr>"
    using frame_to_pil [of "\<lparr>t3_shape = (1, 1, 1), t3_data = [1 :: rat]\<rparr>" 1 1 1] by simp
  moreover have "float_to_byte 1 = 255"
    by (simp add: float_to_byte_def trunc_rat_def)
  ultimately show ?thesis
    by (auto simp: encode_def batch_item_first pil_demo_engine_def split: sum.splits)
qed

text \<open>
  C22. Dispatch reaches the node's code: for every registered class and every input the
  host's validation accepts, \<open>FUNCTION\<close> names a method of the class whose parameters
  the inputs bind, and running the node is running that call; no \<open>AttributeError\<close> or
  \<open>TypeError\<close> arises between the host and the node.
\<close>

theorem run_node_dispatch:
  assumes "map_of NODE_CLASS_MAPPINGS key = Some c" and "inputs_valid c kw"
  shows "\<exists>call. bind_args key (FUNCTION c) kw = Inr call \<and> run_node eng md key kw = exec_call eng md call"
  using assms(1,2)
proof (cases rule: valid_bind_args)
qed (use assms in \<open>auto simp: run_node_def\<close>)

text \<open>
  C8. Type preservation across the host interface: whenever a registered node with
  validated inputs returns, it returns one value per declared \<open>RETURN_TYPES\<close> entry,
  each of its declared type; so the \<open>moondream2\<close> and \<open>MD2_IMAGE\<close> values the other
  nodes consume are the ones \<open>load\<close> and \<open>encode\<close> produce.
\<close>

theorem run_node_types:
  assumes "map_of NODE_CLASS_MAPPINGS key = Some c" and "inputs_valid c kw"
    and "fst (run_node eng md key kw w) = Inr outs"
  shows "map value_type outs = RETURN_TYPES c"
  using assms(1,2)
proof (cases rule: valid_bind_args)
  case (load s q)
  then show ?thesis
    using exec_call_types [of eng md "LoadCall s q" w outs] run_node_call [OF assms(1,2) load(2)] assms(3)
    by (simp add: node_class_defs del: exec_call.simps)
next
  case (encode m i)
  then show ?thesis
    using exec_call_types [of eng md "EncodeCall m i" w outs] run_node_call [OF assms(1,2) encode(2)] assms(3)
    by (simp add: node_class_defs del: exec_call.simps)
next
  case (caption m e l mt)
  then show ?thesis
    using exec_call_types [of eng md "CaptionCall m e l mt" w outs] run_node_call [OF assms(1,2) caption(2)] assms(3)
    by (simp add: node_class_defs del: exec_call.simps)
next
  case (query m e qn mt)
  then show ?thesis
    using exec_call_types [of eng md "QueryCall m e qn mt" w outs] run_node_call [OF assms(1,2) query(2)] assms(3)
    by (simp add: node_class_defs del: exec_call.simps)
qed

text \<open>
  C12. The pack's workflow end to end: with the 2b int8 artifact on disk, the graph
  load, encode, caption (\<open>"long"\<close>, 512 tokens) makes no request, changes nothing,
  and returns the handle of that file, the engine's encoding of the first frame, and
  the engine's caption at its \<open>"normal"\<close> length.
\<close>

theorem caption_graph_existing:
  assumes "fs_files w (artifact_path md ''2b'' ''int8'') = Some b" and "accepts_model eng b"
    and "m = \<lparr>model_path = artifact_path md ''2b'' ''int8'', model_weights = b\<rparr>"
    and "encode eng m img = Inr e"
    and "eng_caption eng m e ''normal'' False [''max_tokens'' \<mapsto> 512] = Inr r" and "r ''caption'' = Some cap"
  shows "run_graph eng md (caption_graph img) [] w = (Inr [[VModel m], [VEnc e], [VStr cap]], w)"
  using assms
  by (simp add: caption_graph_def run_node_def map_of_registry inputs_valid_def node_class_defs
      bind_args_def load_file_present caption_def caption_length_def)

text \<open>
  C16. The pack's workflow on a fresh machine: when the 2b int8 artifact is missing but
  the world is ready to fetch it (\<open>Loader_Live.fetch_ready\<close>), the graph load, encode,
  caption downloads it once and returns the handle of the hub's decompressed content,
  the engine's encoding of the first frame and the caption; afterwards the artifact is
  on disk and nothing of the commit is left in the hub cache.
\<close>

theorem caption_graph_fresh:
  assumes ready: "fetch_ready md [(''2b'', ''int8'')] w"
    and rem: "remote_artifact w (model_file_name ''2b'' ''int8'') = Some xs" and acc: "accepts_model eng xs"
    and m: "m = \<lparr>model_path = artifact_path md ''2b'' ''int8'', model_weights = xs\<rparr>"
    and enc: "encode eng m img = Inr e"
    and cap: "eng_caption eng m e ''normal'' False [''max_tokens'' \<mapsto> 512] = Inr r" "r ''caption'' = Some c"
  shows "\<exists>w'. run_graph eng md (caption_graph img) [] w = (Inr [[VModel m], [VEnc e], [VStr c]], w') \<and>
    fs_files w' (artifact_path md ''2b'' ''int8'') = Some xs \<and> (\<forall>f. hf_cache w' (hub_commit w, f) = None)"
proof -
  let ?mf = "artifact_path md ''2b'' ''int8''"
  from ready obtain ys where miss: "\<not> path_exists ?mf w" and on: "online w"
    and hub: "hub_files w (model_file_name ''2b'' ''int8'' @ ''.gz'') = Some (GzStream ys True)"
    and nc: "hf_cache w (hub_commit w, model_file_name ''2b'' ''int8'' @ ''.gz'') \<in> {None, Some (GzStream ys True)}"
    and mk: "\<not> list_ex (\<lambda>p. fs_files w p \<noteq> None) (prefixes_of (ROOT md))"
    and sp: "length ys \<le> disk_free w" and rem': "remote_artifact w (model_file_name ''2b'' ''int8'') = Some ys"
    by (rule fetch_ready_head)
  have ys: "ys = xs"
    using rem rem' by simp
  obtain w1 where ld: "load eng md ''2b'' ''int8'' w = (fst (from_path eng ?mf w1), w1)"
    and f1: "fs_files w1 = (fs_files w)(?mf \<mapsto> ys)"
    and c1: "hf_cache w1 = (\<lambda>k. if fst k = hub_commit w then None else hf_cache w k)"
    using load_fresh [OF miss on hub nc mk sp, of eng] by auto
  have "load eng md ''2b'' ''int8'' w = (Inr m, w1)"
    using ld f1 ys acc m by (simp add: from_path_file)
  then have "run_graph eng md (caption_graph img) [] w = (Inr [[VModel m], [VEnc e], [VStr c]], w1)"
    using enc cap by (simp add: run_caption_graph caption_def caption_length_def)
  then show ?thesis
    using f1 c1 ys by auto
qed

theorem caption_graph_fresh_witness:
  "fetch_ready [] [(''2b'', ''int8'')] ready_world \<and>
   remote_artifact ready_world (model_file_name ''2b'' ''int8'') = Some [4, 5] \<and> accepts_model pil_demo_engine [4, 5] \<and>
   encode pil_demo_engine \<lparr>model_path = artifact_path [] ''2b'' ''int8'', model_weights = [4, 5]\<rparr>
     \<lparr>t4_shape = (1, 1, 1, 1), t4_data = [1]\<rparr> = Inr [255] \<and>
   eng_caption pil_demo_engine \<lparr>model_path = artifact_path [] ''2b'' ''int8'', model_weights = [4, 5]\<rparr> [255]
     ''normal'' False [''max_tokens'' \<mapsto> 512] = Inr [''caption'' \<mapsto> ''a cat''] \<and>
   (\<exists>w'. run_graph pil_demo_engine [] (caption_graph \<lparr>t4_shape = (1, 1, 1, 1), t4_data = [1]\<rparr>) [] ready_world =
      (Inr [[VModel \<lparr>model_path = artifact_path [] ''2b'' ''int8'', model_weights = [4, 5]\<rparr>], [VEnc [255]],
            [VStr ''a cat'']], w') \<and>
      fs_files w' (artifact_path [] ''2b'' ''int8'') = Some [4, 5] \<and> (\<forall>f. hf_cache w' (''c0'', f) = None))"
proof -
  have r: "fetch_ready [] [(''2b'', ''int8'')] ready_world"
    by (simp add: fetch_ready_def cache_coherent_def ready_world_def model_file_name_def str_replace_char artifact_path_def
        ROOT_def path_exists_def remote_artifact_def prefixes_of_def)
  have rem: "remote_artifact ready_world (model_file_name ''2b'' ''int8'') = Some [4, 5]"
    by (simp add: ready_world_def model_file_name_def str_replace_char remote_artifact_def)
  have a: "accepts_model pil_demo_engine [4, 5]"
    by (simp add: pil_demo_engine_def)
  have e: "encode pil_demo_engine \<lparr>model_path = artifact_path [] ''2b'' ''int8'', model_weights = [4, 5]\<rparr>
     \<lparr>t4_shape = (1, 1, 1, 1), t4_data = [1]\<rparr> = Inr [255]"
    by (rule encode_one_pixel)
  have c: "eng_caption pil_demo_engine \<lparr>model_path = artifact_path [] ''2b'' ''int8'', model_weights = [4, 5]\<rparr> [255]
     ''normal'' False [''max_tokens'' \<mapsto> 512] = Inr [''caption'' \<mapsto> ''a cat'']"
    by (simp add: pil_demo_engine_def)
  have h: "hub_commit ready_world = ''c0''"
    by (simp add: ready_world_def)
  show ?thesis
    using r rem a e c caption_graph_fresh [OF r rem a refl e c] by (simp add: h)
qed

theorem run_node_dispatch_witness:
  "map_of NODE_CLASS_MAPPINGS ''moondream2_Caption'' = Some moondream2_Caption \<and>
   inputs_valid moondream2_Caption [''model'' \<mapsto> VModel \<lparr>model_path = [], model_weights = []\<rparr>,
     ''md2_image'' \<mapsto> VEnc [7 :: byte], ''length'' \<mapsto> VStr ''long'', ''max_tokens'' \<mapsto> VInt 512] \<and>
   (\<exists>call. bind_args ''moondream2_Caption'' (FUNCTION moondream2_Caption)
       [''model'' \<mapsto> VModel \<lparr>model_path = [], model_weights = []\<rparr>,
        ''md2_image'' \<mapsto> VEnc [7 :: byte], ''length'' \<mapsto> VStr ''long'', ''max_tokens'' \<mapsto> VInt 512] = Inr call \<and>
     run_node pil_demo_engine [] ''moondream2_Caption''
       [''model'' \<mapsto> VModel \<lparr>model_path = [], model_weights = []\<rparr>,
        ''md2_image'' \<mapsto> VEnc [7 :: byte], ''length'' \<mapsto> VStr ''long'', ''max_tokens'' \<mapsto> VInt 512] =
     exec_call pil_demo_engine [] call)"
proof -
  have k: "map_of NODE_CLASS_MAPPINGS ''moondream2_Caption'' = Some moondream2_Caption"
    by (simp add: map_of_registry)
  have v: "inputs_valid moondream2_Caption [''model'' \<mapsto> VModel \<lparr>model_path = [], model_weights = []\<rparr>,
     ''md2_image'' \<mapsto> VEnc [7 :: byte], ''length'' \<mapsto> VStr ''long'', ''max_tokens'' \<mapsto> VInt 512]"
    by (simp add: inputs_valid_def node_class_defs)
  show ?thesis
    using k v run_node_dispatch [OF k v, of pil_demo_engine "[]"] by blast
qed

theorem run_node_types_witness:
  "map_of NODE_CLASS_MAPPINGS ''moondream2_Caption'' = Some moondream2_Caption \<and>
   inputs_valid moondream2_Caption [''model'' \<mapsto> VModel \<lparr>model_path = [], model_weights = []\<rparr>,
     ''md2_image'' \<mapsto> VEnc [7 :: byte], ''length'' \<mapsto> VStr ''long'', ''max_tokens'' \<mapsto> VInt 512] \<and>
   fst (run_node pil_demo_engine [] ''moondream2_Caption''
       [''model'' \<mapsto> VModel \<lparr>model_path = [], model_weights = []\<rparr>,
        ''md2_image'' \<mapsto> VEnc [7 :: byte], ''length'' \<mapsto> VStr ''long'', ''max_tokens'' \<mapsto> VInt 512] demo_world)
     = Inr [VStr ''a cat''] \<and>
   map value_type [VStr ''a cat'' :: bytes node_value] = RETURN_TYPES moondream2_Caption"
proof -
  have k: "map_of NODE_CLASS_MAPPINGS ''moondream2_Caption'' = Some moondream2_Caption"
    by (simp add: map_of_registry)
  have v: "inputs_valid moondream2_Caption [''model'' \<mapsto> VModel \<lparr>model_path = [], model_weights = []\<rparr>,
     ''md2_image'' \<mapsto> VEnc [7 :: byte], ''length'' \<mapsto> VStr ''long'', ''max_tokens'' \<mapsto> VInt 512]"
    by (simp add: inputs_valid_def node_class_defs)
  have r: "fst (run_node pil_demo_engine [] ''moondream2_Caption''
       [''model'' \<mapsto> VModel \<lparr>model_path = [], model_weights = []\<rparr>,
        ''md2_image'' \<mapsto> VEnc [7 :: byte], ''length'' \<mapsto> VStr ''long'', ''max_tokens'' \<mapsto> VInt 512] demo_world)
     = Inr [VStr ''a cat'']"
    using k v by (simp add: run_node_def node_class_defs bind_args_def caption_def pil_demo_engine_def)
  show ?thesis
    using k v r run_node_types [OF k v r] by simp
qed

theorem caption_graph_existing_witness:
  "fs_files demo_world (artifact_path [] ''2b'' ''int8'') = Some [] \<and> accepts_model pil_demo_engine [] \<and>
   encode pil_demo_engine \<lparr>model_path = artifact_path [] ''2b'' ''int8'', model_weights = []\<rparr>
     \<lparr>t4_shape = (1, 1, 1, 1), t4_data = [1]\<rparr> = Inr [255] \<and>
   eng_caption pil_demo_engine \<lparr>model_path = artifact_path [] ''2b'' ''int8'', model_weights = []\<rparr> [255]
     ''normal'' False [''max_tokens'' \<mapsto> 512] = Inr [''caption'' \<mapsto> ''a cat''] \<and>
   run_graph pil_demo_engine [] (caption_graph \<lparr>t4_shape = (1, 1, 1, 1), t4_data = [1]\<rparr>) [] demo_world =
     (Inr [[VModel \<lparr>model_path = artifact_path [] ''2b'' ''int8'', model_weights = []\<rparr>], [VEnc [255]],
           [VStr ''a cat'']], demo_world)"
proof -
  have f: "fs_files demo_world (artifact_path [] ''2b'' ''int8'') = Some []"
    by (simp add: artifact_path_2b_int8 demo_world_def)
  have a: "accepts_model pil_demo_engine []"
    by (simp add: pil_demo_engine_def)
  have e: "encode pil_demo_engine \<lparr>model_path = artifact_path [] ''2b'' ''int8'', model_weights = []\<rparr>
     \<lparr>t4_shape = (1, 1, 1, 1), t4_data = [1]\<rparr> = Inr [255]"
    by (rule encode_one_pixel)
  have c: "eng_caption pil_demo_engine \<lparr>model_path = artifact_path [] ''2b'' ''int8'', model_weights = []\<rparr> [255]
     ''normal'' False [''max_tokens'' \<mapsto> 512] = Inr [''caption'' \<mapsto> ''a cat'']"
    by (simp add: pil_demo_engine_def)
  show ?thesis
    using f a e c caption_graph_existing [OF f a refl e c] by simp
qed

end
